(* ===== verification/Prelude.thy ===== *)
theory Prelude
  imports Main "HOL-Library.Sublist"
begin

text \<open>
  Shared vocabulary of the development. A Python \<open>str\<close> is a sequence of Unicode code
  points, so it is modelled as \<open>ustr = nat list\<close> rather than as Isabelle's byte
  \<open>string\<close>; ASCII literals of the source are written \<open>asc ''...''\<close>. The theory
  also holds the list and sublist lemmas the component theories share, and the
  collection \<open>render_simps\<close> of the equations that compute the model on concrete
  inputs.
\<close>

named_theorems render_simps "equations that evaluate the model on concrete inputs"

type_synonym ustr = "nat list"

definition asc :: "string \<Rightarrow> ustr" where
  "asc s = map of_char s"

definition nl :: ustr where
  "nl = [10]"

lemma asc_Nil [simp]: "asc [] = []"
  by (simp add: asc_def)

lemma asc_append [simp]: "asc (s @ t) = asc s @ asc t"
  by (simp add: asc_def)

lemma length_asc [simp]: "length (asc s) = length s"
  by (simp add: asc_def)

lemma asc_below_256: "c \<in> set (asc s) \<Longrightarrow> c < 256"
  by (auto simp: asc_def)

lemma asc_inject [simp]: "asc s = asc t \<longleftrightarrow> s = t"
proof
  assume "asc s = asc t"
  then have "map char_of (asc s) = map char_of (asc t)" by simp
  then show "s = t" by (simp add: asc_def)
qed simp

lemma asc_eq_Nil_iff [simp]: "asc s = [] \<longleftrightarrow> s = []"
  by (simp add: asc_def)

subsection \<open>Sublists\<close>

lemma sublist_extend [intro]: "sublist xs ys \<Longrightarrow> sublist xs (zs @ ys @ ws)"
  using sublist_appendI sublist_order.order_trans by blast

lemma sublist_pair_Cons:
  "sublist [a, b] (c # t) \<longleftrightarrow> (c = a \<and> t \<noteq> [] \<and> hd t = b) \<or> sublist [a, b] t"
  by (cases t) (auto simp: sublist_Cons_right)

lemma sublist_pair_append:
  "sublist [a, b] (xs @ ys) \<longleftrightarrow>
     sublist [a, b] xs \<or> sublist [a, b] ys \<or> (xs \<noteq> [] \<and> ys \<noteq> [] \<and> last xs = a \<and> hd ys = b)"
proof (induction xs)
  case Nil
  then show ?case by simp
next
  case (Cons x xs)
  then show ?case by (cases xs) (auto simp: sublist_pair_Cons)
qed

subsection \<open>Lists\<close>

lemma dropWhile_hd_not:
  "dropWhile P xs \<noteq> [] \<Longrightarrow> \<not> P (hd (dropWhile P xs))"
  by (induction xs) auto

lemma concat_map_filter:
  "concat (map f (filter P xs)) = concat (map (\<lambda>x. if P x then f x else []) xs)"
  by (induction xs) auto

lemma concat_map_concat_map:
  "concat (map f (concat (map g xs))) = concat (map (\<lambda>x. concat (map f (g x))) xs)"
  by (induction xs) auto

lemma concat_map_singleton_id: "concat (map (\<lambda>x. [x]) xs) = xs"
  by (induction xs) auto

end
