(* ===== verification/PyStr.thy ===== *)
theory PyStr
  imports Prelude
begin

text \<open>
  The Python \<open>str\<close> built-ins the program calls: \<open>str.split()\<close> and
  \<open>' '.join\<close> (the whitespace normalisation of \<open>scrape_website\<close>, app.py line 71),
  \<open>str.strip()\<close>, \<open>str.replace\<close>, \<open>str.isalnum()\<close> and \<open>str.lower()\<close> (the
  file-name sanitisation of \<open>submit_form\<close>, line 191). Whitespace is CPython's exact
  list. Properties that depend on the Unicode character database (which characters
  are alphanumeric, printable, cased; the full lowercase mappings) read it from a
  record \<open>unicode_db\<close>, so every theorem holds for the database of any Python
  version; \<open>ascii_conform\<close> states what all of them agree on for ASCII.
\<close>

section \<open>Whitespace, split and join\<close>

text \<open>\<open>Py_UNICODE_ISSPACE\<close>: the characters \<open>str.split()\<close> and \<open>str.strip()\<close> treat as
  whitespace (bidirectional class WS, B or S, or category Zs).\<close>

definition py_isspace :: "nat \<Rightarrow> bool" where
  "py_isspace c \<longleftrightarrow>
     (9 \<le> c \<and> c \<le> 13) \<or> (28 \<le> c \<and> c \<le> 32) \<or> c = 133 \<or> c = 160 \<or> c = 5760 \<or>
     (8192 \<le> c \<and> c \<le> 8202) \<or> c = 8232 \<or> c = 8233 \<or> c = 8239 \<or> c = 8287 \<or> c = 12288"

text \<open>\<open>str.split()\<close> with no separator: the loop skips a run of whitespace, then
  collects a maximal run of other characters into the current word.\<close>

fun split_ws :: "ustr \<Rightarrow> ustr \<Rightarrow> ustr list" where
  "split_ws cur [] = (if cur = [] then [] else [cur])"
| "split_ws cur (c # cs) =
     (if py_isspace c
      then (if cur = [] then split_ws [] cs else cur # split_ws [] cs)
      else split_ws (cur @ [c]) cs)"

definition py_split :: "ustr \<Rightarrow> ustr list" where
  "py_split s = split_ws [] s"

text \<open>\<open>sep.join(words)\<close> for a list of strings.\<close>

fun py_join :: "ustr \<Rightarrow> ustr list \<Rightarrow> ustr" where
  "py_join sep [] = []"
| "py_join sep [w] = w"
| "py_join sep (w # v # ws) = w @ sep @ py_join sep (v # ws)"

text \<open>\<open>' '.join(text.split())\<close>, app.py line 71.\<close>

definition normalize_ws :: "ustr \<Rightarrow> ustr" where
  "normalize_ws text = py_join [32] (py_split text)"

text \<open>\<open>str.strip()\<close> with no argument: CPython advances the left index and
  retreats the right index over whitespace.\<close>

definition py_strip :: "ustr \<Rightarrow> ustr" where
  "py_strip s = rev (dropWhile py_isspace (rev (dropWhile py_isspace s)))"

text \<open>\<open>s.replace(old, new)\<close> with one-character \<open>old\<close> and \<open>new\<close> replaces every
  occurrence, character by character.\<close>

definition py_replace_char :: "nat \<Rightarrow> nat \<Rightarrow> ustr \<Rightarrow> ustr" where
  "py_replace_char old new s = map (\<lambda>c. if c = old then new else c) s"

section \<open>The Unicode character database\<close>

record unicode_db =
  ucd_isalnum :: "nat \<Rightarrow> bool"
  ucd_isprintable :: "nat \<Rightarrow> bool"
  ucd_lower_full :: "nat \<Rightarrow> ustr"
  ucd_cased :: "nat \<Rightarrow> bool"
  ucd_case_ignorable :: "nat \<Rightarrow> bool"

definition ascii_alnum :: "nat \<Rightarrow> bool" where
  "ascii_alnum c \<longleftrightarrow> (48 \<le> c \<and> c \<le> 57) \<or> (65 \<le> c \<and> c \<le> 90) \<or> (97 \<le> c \<and> c \<le> 122)"

definition ascii_lower :: "nat \<Rightarrow> nat" where
  "ascii_lower c = (if 65 \<le> c \<and> c \<le> 90 then c + 32 else c)"

text \<open>What every Unicode version says of the 128 ASCII code points.\<close>

definition ascii_conform :: "unicode_db \<Rightarrow> bool" where
  "ascii_conform db \<longleftrightarrow>
     list_all (\<lambda>c. (ucd_isalnum db c \<longleftrightarrow> ascii_alnum c) \<and>
                   (ucd_isprintable db c \<longleftrightarrow> 32 \<le> c \<and> c < 127) \<and>
                   ucd_lower_full db c = [ascii_lower c]) [0..<128]"

text \<open>\<open>str.isalnum()\<close>: true for a non-empty string of alphanumeric characters.\<close>

definition py_str_isalnum :: "unicode_db \<Rightarrow> ustr \<Rightarrow> bool" where
  "py_str_isalnum db s \<longleftrightarrow> s \<noteq> [] \<and> list_all (ucd_isalnum db) s"

text \<open>\<open>str.lower()\<close> (CPython \<open>do_lower\<close>/\<open>lower_ucs4\<close>): the full lowercase mapping
  of each character, except capital sigma, which becomes final sigma when a cased
  letter precedes it and none follows it (case-ignorable characters skipped on both
  sides, \<open>handle_capital_sigma\<close>). \<open>pre\<close> is the reversed prefix.\<close>

definition final_sigma :: "unicode_db \<Rightarrow> ustr \<Rightarrow> ustr \<Rightarrow> nat" where
  "final_sigma db pre post =
     (let before = dropWhile (ucd_case_ignorable db) pre;
          after = dropWhile (ucd_case_ignorable db) post
      in if before \<noteq> [] \<and> ucd_cased db (hd before) \<and>
            (after = [] \<or> \<not> ucd_cased db (hd after))
         then 962 else 963)"

fun lower_go :: "unicode_db \<Rightarrow> ustr \<Rightarrow> ustr \<Rightarrow> ustr" where
  "lower_go db pre [] = []"
| "lower_go db pre (c # cs) =
     (if c = 931 then [final_sigma db pre cs] else ucd_lower_full db c) @ lower_go db (c # pre) cs"

definition py_lower :: "unicode_db \<Rightarrow> ustr \<Rightarrow> ustr" where
  "py_lower db s = lower_go db [] s"

text \<open>A small database, exact for ASCII and the basic Greek letters, for the
  concrete runs of the theorems.\<close>

definition sample_db :: unicode_db where
  "sample_db =
     \<lparr>ucd_isalnum = (\<lambda>c. ascii_alnum c \<or> (913 \<le> c \<and> c \<le> 969 \<and> c \<noteq> 930 \<and> (c \<le> 937 \<or> 945 \<le> c))),
      ucd_isprintable = (\<lambda>c. (32 \<le> c \<and> c < 127) \<or> 160 < c),
      ucd_lower_full = (\<lambda>c. if (65 \<le> c \<and> c \<le> 90) \<or> (913 \<le> c \<and> c \<le> 937 \<and> c \<noteq> 930)
                             then [c + 32] else [c]),
      ucd_cased = (\<lambda>c. (65 \<le> c \<and> c \<le> 90) \<or> (97 \<le> c \<and> c \<le> 122) \<or> (913 \<le> c \<and> c \<le> 969)),
      ucd_case_ignorable = (\<lambda>c. c = 39 \<or> c = 46 \<or> c = 58 \<or> c = 94 \<or> c = 96)\<rparr>"

section \<open>Properties of the whitespace normalisation\<close>

lemma py_isspace_32 [simp]: "py_isspace 32"
  by (simp add: py_isspace_def)

definition no_space :: "ustr \<Rightarrow> bool" where
  "no_space w \<longleftrightarrow> (\<forall>c\<in>set w. \<not> py_isspace c)"

lemma no_space_simps [simp]:
  "no_space []" "no_space (c # w) \<longleftrightarrow> \<not> py_isspace c \<and> no_space w"
  "no_space (w @ v) \<longleftrightarrow> no_space w \<and> no_space v"
  by (auto simp: no_space_def)

text \<open>A run of non-whitespace characters joins the word being collected.\<close>

lemma split_ws_append_word:
  "no_space w \<Longrightarrow> split_ws cur (w @ s) = split_ws (cur @ w) s"
  by (induction w arbitrary: cur) auto

lemma split_ws_words:
  "w \<in> set (split_ws cur s) \<Longrightarrow> no_space cur \<Longrightarrow> w \<noteq> [] \<and> no_space w"
  by (induction cur s rule: split_ws.induct) (auto split: if_splits)

text \<open>Every word of \<open>str.split()\<close> is non-empty and free of whitespace.\<close>

lemma py_split_words:
  "w \<in> set (py_split s) \<Longrightarrow> w \<noteq> [] \<and> no_space w"
  unfolding py_split_def using split_ws_words by fastforce

lemma concat_split_ws:
  "concat (split_ws cur s) = cur @ filter (\<lambda>c. \<not> py_isspace c) s"
  by (induction cur s rule: split_ws.induct) auto

text \<open>Splitting a joined list of words gives the words back.\<close>

lemma py_split_py_join:
  "\<forall>w\<in>set ws. w \<noteq> [] \<and> no_space w \<Longrightarrow> py_split (py_join [32] ws) = ws"
proof (induction "[32::nat]" ws rule: py_join.induct)
  case 1
  then show ?case by (simp add: py_split_def)
next
  case (2 w)
  then have "split_ws [] w = split_ws w []"
    using split_ws_append_word [of w "[]" "[]"] by simp
  with 2 show ?case by (simp add: py_split_def)
next
  case (3 w v ws)
  then have "split_ws [] (w @ 32 # py_join [32] (v # ws)) = split_ws w (32 # py_join [32] (v # ws))"
    using split_ws_append_word [of w "[]"] by simp
  with 3 show ?case by (simp add: py_split_def)
qed

lemma py_split_normalize_ws [simp]: "py_split (normalize_ws s) = py_split s"
  unfolding normalize_ws_def using py_split_words by (blast intro: py_split_py_join)

definition ws_normal :: "ustr \<Rightarrow> bool" where
  "ws_normal t \<longleftrightarrow>
     (\<forall>c\<in>set t. py_isspace c \<longrightarrow> c = 32) \<and> \<not> sublist [32, 32] t \<and>
     (t \<noteq> [] \<longrightarrow> hd t \<noteq> 32 \<and> last t \<noteq> 32)"

lemma hd_py_join: "v \<noteq> [] \<Longrightarrow> hd (py_join sep (v # ws)) = hd v"
  by (cases ws) auto

lemma py_join_ends_last: "ws \<noteq> [] \<Longrightarrow> \<exists>p. py_join sep ws = p @ last ws"
  by (induction sep ws rule: py_join.induct) auto

lemma set_py_join: "set (py_join sep ws) \<subseteq> set sep \<union> \<Union> (set ` set ws)"
  by (induction sep ws rule: py_join.induct) auto

lemma last_py_join: "ws \<noteq> [] \<Longrightarrow> last ws \<noteq> [] \<Longrightarrow> last (py_join sep ws) = last (last ws)"
  using py_join_ends_last [of ws sep] by auto

lemma no_space_not_sublist: "no_space w \<Longrightarrow> \<not> sublist [32, 32] w"
  using set_mono_sublist unfolding no_space_def by fastforce

lemma py_join_single_spaced:
  "\<forall>w\<in>set ws. w \<noteq> [] \<and> no_space w \<Longrightarrow> \<not> sublist [32, 32] (py_join [32] ws)"
proof (induction "[32::nat]" ws rule: py_join.induct)
  case (3 w v ws)
  then have "no_space w" "w \<noteq> []" "v \<noteq> []" "no_space v" by auto
  then have "last w \<noteq> 32" "hd v \<noteq> 32"
    unfolding no_space_def by (metis last_in_set py_isspace_32, metis hd_in_set py_isspace_32)
  with 3 \<open>no_space w\<close> \<open>v \<noteq> []\<close> show ?case
    by (auto simp: sublist_pair_append sublist_pair_Cons hd_py_join no_space_not_sublist)
qed (auto simp: no_space_not_sublist)

lemma py_join_normal:
  assumes "\<forall>w\<in>set ws. w \<noteq> [] \<and> no_space w"
  shows "ws_normal (py_join [32] ws)"
proof -
  have chars: "\<forall>c\<in>set (py_join [32] ws). py_isspace c \<longrightarrow> c = 32"
    using set_py_join [of "[32]" ws] assms unfolding no_space_def by fastforce
  have ends: "py_join [32] ws \<noteq> [] \<longrightarrow> hd (py_join [32] ws) \<noteq> 32 \<and> last (py_join [32] ws) \<noteq> 32"
  proof
    assume ne: "py_join [32] ws \<noteq> []"
    then obtain v vs where ws: "ws = v # vs" by (cases ws) auto
    with assms have "hd (py_join [32] ws) = hd v" "v \<noteq> []" "no_space v"
      by (auto simp: hd_py_join)
    moreover have "last (py_join [32] ws) = last (last ws)" "last ws \<noteq> []" "no_space (last ws)"
      using assms ws last_in_set [of ws] by (auto simp: last_py_join)
    ultimately show "hd (py_join [32] ws) \<noteq> 32 \<and> last (py_join [32] ws) \<noteq> 32"
      unfolding no_space_def by (metis hd_in_set last_in_set py_isspace_32)
  qed
  show ?thesis
    unfolding ws_normal_def using chars ends py_join_single_spaced [OF assms] by blast
qed

section \<open>ASCII behaviour of the database-dependent built-ins\<close>

lemma ascii_conformD:
  assumes "ascii_conform db" "c < 128"
  shows "ucd_isalnum db c \<longleftrightarrow> ascii_alnum c"
    and "ucd_isprintable db c \<longleftrightarrow> 32 \<le> c \<and> c < 127"
    and "ucd_lower_full db c = [ascii_lower c]"
  using assms by (auto simp: ascii_conform_def list_all_iff)

lemma lower_go_ascii:
  "ascii_conform db \<Longrightarrow> \<forall>c\<in>set s. c < 128 \<Longrightarrow> lower_go db pre s = map ascii_lower s"
  by (induction s arbitrary: pre) (auto simp: ascii_conformD(3))

text \<open>On ASCII text \<open>str.lower()\<close> maps A-Z to a-z and keeps everything else.\<close>

lemma py_lower_ascii:
  "ascii_conform db \<Longrightarrow> \<forall>c\<in>set s. c < 128 \<Longrightarrow> py_lower db s = map ascii_lower s"
  by (simp add: py_lower_def lower_go_ascii)

text \<open>C23. The normalised text is in normal form (no whitespace but single spaces,
  no two spaces in a row, none at either end) and has exactly the words of the input.\<close>

theorem normalize_ws_normal_form:
  "ws_normal (normalize_ws s) \<and> py_split (normalize_ws s) = py_split s"
  unfolding normalize_ws_def using py_split_words
  by (simp add: py_join_normal) (blast intro: py_split_py_join)

theorem normalize_ws_normal_form_witness:
  "ws_normal (normalize_ws [32, 97, 10, 9, 98, 32]) \<and>
   normalize_ws [32, 97, 10, 9, 98, 32] = [97, 32, 98]"
proof -
  have "normalize_ws [32, 97, 10, 9, 98, 32] = [97, 32, 98]"
    by (simp add: normalize_ws_def py_split_def py_isspace_def)
  with normalize_ws_normal_form [of "[32, 97, 10, 9, 98, 32]"] show ?thesis by simp
qed

lemma sample_db_ascii_conform: "ascii_conform sample_db"
  by (simp add: ascii_conform_def sample_db_def ascii_alnum_def ascii_lower_def upt_rec)

end
