(* ===== verification/Dom.thy ===== *)
theory Dom
  imports PyStr
begin

text \<open>
  The BeautifulSoup tree that \<open>scrape_website\<close> cleans (app.py lines 66-70). A
  node is a tag, with an identity (a Python object is decomposed by identity, not
  by value), a name and its children, or a string of one of BeautifulSoup's string
  classes. \<open>soup(['script', 'style', 'nav', 'footer'])\<close> is \<open>find_all\<close>: the
  matching tags among the descendants, in document order. The loop calls
  \<open>decompose()\<close> on each, in that order, which detaches the tag with its subtree
  (on a tag already detached with an ancestor it changes nothing). \<open>get_text()\<close>
  joins the descendant strings of the classes \<open>NavigableString\<close> and \<open>CData\<close>; comments,
  doctypes, declarations, processing instructions and the contents of script, style
  and template elements are skipped. The theory proves that the decompose loop equals
  a pure pruning of the tree when tag identities are distinct, and that the text left
  is exactly the text outside every removed element.
\<close>

section \<open>The tree\<close>

datatype str_kind =
    NavigableString | CData | Comment | Declaration | Doctype | ProcessingInstruction
  | Script | Stylesheet | TemplateString

datatype node = Tag nat ustr "node list" | Str str_kind ustr

fun tag_name_in :: "ustr list \<Rightarrow> node \<Rightarrow> bool" where
  "tag_name_in names (Tag i n cs) = (n \<in> set names)"
| "tag_name_in names (Str k s) = False"

fun node_key :: "node \<Rightarrow> nat option" where
  "node_key (Tag i n cs) = Some i"
| "node_key (Str k s) = None"

text \<open>\<open>Tag.descendants\<close>: every node below, in document (pre-)order.\<close>

fun descendants :: "node \<Rightarrow> node list" where
  "descendants (Str k s) = []"
| "descendants (Tag i n cs) = concat (map (\<lambda>c. c # descendants c) cs)"

text \<open>\<open>soup(names)\<close>, that is \<open>soup.find_all(names)\<close>.\<close>

definition find_all :: "ustr list \<Rightarrow> node \<Rightarrow> node list" where
  "find_all names t = filter (tag_name_in names) (descendants t)"

text \<open>\<open>tag.decompose()\<close> for the tag with identity \<open>i\<close>, wherever it is in the tree.\<close>

fun decompose :: "nat \<Rightarrow> node \<Rightarrow> node" where
  "decompose i (Str k s) = Str k s"
| "decompose i (Tag j n cs) = Tag j n (map (decompose i) (filter (\<lambda>c. node_key c \<noteq> Some i) cs))"

text \<open>\<open>for unwanted in soup([...]): unwanted.decompose()\<close>.\<close>

definition decompose_all :: "ustr list \<Rightarrow> node \<Rightarrow> node" where
  "decompose_all names t =
     fold (\<lambda>u t'. case node_key u of Some i \<Rightarrow> decompose i t' | None \<Rightarrow> t') (find_all names t) t"

text \<open>\<open>soup.get_text()\<close>.\<close>

fun text_kind :: "str_kind \<Rightarrow> bool" where
  "text_kind NavigableString = True"
| "text_kind CData = True"
| "text_kind k = False"

fun get_text :: "node \<Rightarrow> ustr" where
  "get_text (Str k s) = (if text_kind k then s else [])"
| "get_text (Tag i n cs) = concat (map get_text cs)"

definition unwanted_tags :: "ustr list" where
  "unwanted_tags = [asc ''script'', asc ''style'', asc ''nav'', asc ''footer'']"

section \<open>Reference definitions\<close>

text \<open>The tree with every element named in \<open>names\<close> removed below the root.\<close>

fun prune :: "ustr list \<Rightarrow> node \<Rightarrow> node" where
  "prune names (Str k s) = Str k s"
| "prune names (Tag j n cs) = Tag j n (map (prune names) (filter (\<lambda>c. \<not> tag_name_in names c) cs))"

text \<open>Every string below the root with the names of the tags between them.\<close>

fun tag_name_list :: "node \<Rightarrow> ustr list" where
  "tag_name_list (Tag i n cs) = [n]"
| "tag_name_list (Str k s) = []"

fun text_items :: "node \<Rightarrow> (ustr list \<times> str_kind \<times> ustr) list" where
  "text_items (Str k s) = [([], k, s)]"
| "text_items (Tag i n cs) =
     concat (map (\<lambda>c. map (\<lambda>it. (tag_name_list c @ fst it, snd it)) (text_items c)) cs)"

definition shown_item :: "ustr list \<Rightarrow> ustr list \<times> str_kind \<times> ustr \<Rightarrow> bool" where
  "shown_item names it \<longleftrightarrow> text_kind (fst (snd it)) \<and> (\<forall>m\<in>set (fst it). m \<notin> set names)"

definition visible_text :: "ustr list \<Rightarrow> node \<Rightarrow> ustr" where
  "visible_text names t =
     concat (map (\<lambda>it. snd (snd it)) (filter (shown_item names) (text_items t)))"

text \<open>Tag identities are distinct over the whole tree, root included.\<close>

fun tag_keys :: "node \<Rightarrow> nat list" where
  "tag_keys (Str k s) = []"
| "tag_keys (Tag i n cs) = i # concat (map tag_keys cs)"

definition keys_distinct :: "node \<Rightarrow> bool" where
  "keys_distinct t \<longleftrightarrow> distinct (tag_keys t)"

section \<open>The decompose loop is a pruning\<close>

text \<open>Removing every element whose identity lies in a set, below the root.\<close>

fun keeps :: "nat set \<Rightarrow> node \<Rightarrow> bool" where
  "keeps K (Tag i n cs) = (i \<notin> K)"
| "keeps K (Str k s) = True"

fun remove_keys :: "nat set \<Rightarrow> node \<Rightarrow> node" where
  "remove_keys K (Str k s) = Str k s"
| "remove_keys K (Tag j n cs) = Tag j n (map (remove_keys K) (filter (keeps K) cs))"

lemma keeps_simps [simp]:
  "keeps {i} c \<longleftrightarrow> node_key c \<noteq> Some i"
  "keeps (A \<union> B) c \<longleftrightarrow> keeps A c \<and> keeps B c"
  "keeps {} c"
  "keeps A (remove_keys B c) = keeps A c"
  by (cases c; auto)+

lemma decompose_remove_keys: "decompose i t = remove_keys {i} t"
proof (induction t)
  case (Tag j n cs)
  have "filter (\<lambda>c. node_key c \<noteq> Some i) cs = filter (keeps {i}) cs"
    by (rule filter_cong) simp_all
  with Tag show ?case by simp
qed simp

lemma remove_keys_remove_keys: "remove_keys A (remove_keys B t) = remove_keys (A \<union> B) t"
proof (induction t)
  case (Tag j n cs)
  have "filter (keeps A) (map (remove_keys B) (filter (keeps B) cs)) =
        map (remove_keys B) (filter (keeps (A \<union> B)) cs)"
  proof -
    have "filter (\<lambda>c. keeps A c \<and> keeps B c) cs = filter (keeps (A \<union> B)) cs"
      by (rule filter_cong) simp_all
    then show ?thesis by (simp add: filter_map o_def filter_filter conj_commute)
  qed
  with Tag show ?case by simp
qed simp

lemma fold_decompose:
  "fold (\<lambda>u t'. case node_key u of Some i \<Rightarrow> decompose i t' | None \<Rightarrow> t') us t =
   remove_keys {i. Some i \<in> node_key ` set us} t"
proof (induction us arbitrary: t)
  case Nil
  have "remove_keys {} t = t"
    by (induction t) (auto intro: map_idI)
  then show ?case by simp
next
  case (Cons u us)
  then show ?case
    by (cases "node_key u")
       (auto simp: decompose_remove_keys remove_keys_remove_keys intro!: arg_cong2 [where f = remove_keys])
qed

lemma descendants_child:
  "c \<in> set cs \<Longrightarrow> d \<in> set (descendants c) \<Longrightarrow> d \<in> set (descendants (Tag i n cs))"
  by auto

lemma remove_keys_prune:
  "\<forall>d\<in>set (descendants t). keeps K d \<longleftrightarrow> \<not> tag_name_in names d \<Longrightarrow>
   remove_keys K t = prune names t"
proof (induction t)
  case (Tag j n cs)
  have "filter (keeps K) cs = filter (\<lambda>c. \<not> tag_name_in names c) cs"
    using Tag.prems by (intro filter_cong) auto
  moreover have "remove_keys K c = prune names c" if "c \<in> set cs" for c
    using Tag.IH [OF that] Tag.prems that by auto
  ultimately show ?case by simp
qed simp

text \<open>The identities with the names of their tags, the root included.\<close>

fun key_name :: "node \<Rightarrow> (nat \<times> ustr) list" where
  "key_name (Tag i n cs) = [(i, n)]"
| "key_name (Str k s) = []"

fun tag_pairs :: "node \<Rightarrow> (nat \<times> ustr) list" where
  "tag_pairs (Str k s) = []"
| "tag_pairs (Tag i n cs) = (i, n) # concat (map tag_pairs cs)"

lemma tag_keys_pairs: "tag_keys t = map fst (tag_pairs t)"
proof (induction t)
  case (Tag i n cs)
  then show ?case by (simp add: map_concat o_def cong: map_cong)
qed simp

lemma tag_pairs_descendants: "concat (map key_name (t # descendants t)) = tag_pairs t"
proof (induction t)
  case (Tag i n cs)
  have "concat (map key_name (concat (map (\<lambda>c. c # descendants c) cs))) =
        concat (map (\<lambda>c. concat (map key_name (c # descendants c))) cs)"
    by (rule concat_map_concat_map)
  also have "\<dots> = concat (map tag_pairs cs)"
    using Tag.IH by (intro arg_cong [where f = concat] map_cong) auto
  finally show ?case by simp
qed simp

lemma tag_keys_descendants:
  "tag_keys t = map fst (concat (map key_name (t # descendants t)))"
  by (simp only: tag_pairs_descendants tag_keys_pairs)

lemma key_name_unique:
  assumes "keys_distinct t" "Tag i n cs \<in> set (descendants t)" "Tag i m ds \<in> set (descendants t)"
  shows "n = m"
proof -
  let ?kn = "concat (map key_name (t # descendants t))"
  have "distinct (map fst ?kn)"
    using assms(1) by (simp add: keys_distinct_def tag_keys_descendants)
  moreover have "(i, n) \<in> set ?kn" "(i, m) \<in> set ?kn"
    using assms(2,3) by force+
  ultimately show ?thesis by (rule eq_key_imp_eq_value)
qed

lemma keeps_find_all:
  assumes "keys_distinct t" "d \<in> set (descendants t)"
  shows "keeps {i. Some i \<in> node_key ` set (find_all names t)} d \<longleftrightarrow> \<not> tag_name_in names d"
proof (cases d)
  case (Tag i n cs)
  have "(\<exists>u\<in>set (find_all names t). node_key u = Some i) \<longleftrightarrow> n \<in> set names"
  proof
    assume "\<exists>u\<in>set (find_all names t). node_key u = Some i"
    then obtain m ds where "Tag i m ds \<in> set (descendants t)" "m \<in> set names"
      by (auto simp: find_all_def elim!: node_key.elims tag_name_in.elims)
    with assms Tag show "n \<in> set names" using key_name_unique by blast
  next
    assume "n \<in> set names"
    with assms(2) Tag show "\<exists>u\<in>set (find_all names t). node_key u = Some i"
      by (auto simp: find_all_def)
  qed
  with Tag show ?thesis by (auto simp: image_iff)
qed simp

text \<open>The loop removes exactly the elements it found, and with distinct identities
  removing them by identity is pruning them by name.\<close>

lemma decompose_all_remove_keys:
  "decompose_all names t = remove_keys {i. Some i \<in> node_key ` set (find_all names t)} t"
  unfolding decompose_all_def by (rule fold_decompose)

lemma remove_found_prune:
  "keys_distinct t \<Longrightarrow> remove_keys {i. Some i \<in> node_key ` set (find_all names t)} t = prune names t"
  by (rule remove_keys_prune) (simp add: keeps_find_all)

section \<open>The text left\<close>

lemma visible_prefix:
  "concat (map (\<lambda>it. snd (snd it)) (filter (shown_item names) (map (\<lambda>it. (p @ fst it, snd it)) items))) =
   (if \<exists>m\<in>set p. m \<in> set names then []
    else concat (map (\<lambda>it. snd (snd it)) (filter (shown_item names) items)))"
proof -
  have shown: "shown_item names (p @ fst it, snd it) \<longleftrightarrow>
      (\<forall>m\<in>set p. m \<notin> set names) \<and> shown_item names it" for it
    by (auto simp: shown_item_def)
  show ?thesis
    by (cases "\<exists>m\<in>set p. m \<in> set names") (auto simp: filter_map o_def shown)
qed

lemma tag_name_list_in [simp]:
  "(\<exists>m\<in>set (tag_name_list c). m \<in> set names) \<longleftrightarrow> tag_name_in names c"
  by (cases c) auto

lemma visible_text_Tag:
  "visible_text names (Tag i n cs) =
     concat (map (\<lambda>c. if tag_name_in names c then [] else visible_text names c) cs)"
proof -
  have "visible_text names (Tag i n cs) =
        concat (map (\<lambda>c. concat (map (\<lambda>it. snd (snd it)) (filter (shown_item names)
                  (map (\<lambda>it. (tag_name_list c @ fst it, snd it)) (text_items c))))) cs)"
    by (simp add: visible_text_def filter_concat concat_map_concat_map o_def)
  also have "\<dots> = concat (map (\<lambda>c. if tag_name_in names c then [] else visible_text names c) cs)"
    by (intro arg_cong [where f = concat] map_cong refl)
       (auto simp: visible_prefix visible_text_def elim: tag_name_list.elims)
  finally show ?thesis .
qed

lemma get_text_prune: "get_text (prune names t) = visible_text names t"
proof (induction t)
  case (Str k s)
  then show ?case by (simp add: visible_text_def shown_item_def)
next
  case (Tag i n cs)
  have "map (\<lambda>c. if \<not> tag_name_in names c then get_text (prune names c) else []) cs =
        map (\<lambda>c. if tag_name_in names c then [] else visible_text names c) cs"
    using Tag.IH by (intro map_cong) auto
  then show ?case
    by (simp only: prune.simps get_text.simps map_map comp_def concat_map_filter visible_text_Tag)
qed

section \<open>Claims\<close>

definition sample_page :: node where
  "sample_page =
     Tag 0 (asc ''[document]'')
       [Tag 1 (asc ''body'')
          [Str NavigableString (asc ''Hi''),
           Tag 2 (asc ''script'') [Str Script (asc ''x()'')],
           Tag 3 (asc ''nav'') [Tag 4 (asc ''script'') [Str Script (asc ''y()'')],
                                Str NavigableString (asc ''Menu'')],
           Str Comment (asc ''note''),
           Str NavigableString (asc '' there'')]]"

text \<open>C9. When tag identities are distinct, the loop
  \<open>for unwanted in soup(names): unwanted.decompose()\<close> leaves exactly the tree with
  every element named in \<open>names\<close> cut out, whatever the nesting of those elements.\<close>

theorem decompose_loop_prunes:
  "keys_distinct t \<Longrightarrow> decompose_all names t = prune names t"
  by (simp add: decompose_all_remove_keys remove_found_prune)

theorem decompose_loop_prunes_witness:
  "keys_distinct sample_page \<and>
   decompose_all unwanted_tags sample_page =
     Tag 0 (asc ''[document]'')
       [Tag 1 (asc ''body'') [Str NavigableString (asc ''Hi''), Str Comment (asc ''note''),
                             Str NavigableString (asc '' there'')]]"
proof -
  have k: "keys_distinct sample_page"
    by (simp add: keys_distinct_def sample_page_def)
  have "prune unwanted_tags sample_page =
     Tag 0 (asc ''[document]'')
       [Tag 1 (asc ''body'') [Str NavigableString (asc ''Hi''), Str Comment (asc ''note''),
                             Str NavigableString (asc '' there'')]]"
    by (simp add: sample_page_def unwanted_tags_def asc_def)
  with k decompose_loop_prunes [OF k] show ?thesis by simp
qed

text \<open>C10. The text \<open>get_text()\<close> returns after the decompose loop is the text of
  the page's \<open>NavigableString\<close> and \<open>CData\<close> strings that lie inside no element named
  in \<open>names\<close>, in document order: nothing of a removed script, style, nav or footer
  element reaches the prompt.\<close>

theorem scraped_text_excludes_unwanted:
  "keys_distinct t \<Longrightarrow> get_text (decompose_all names t) = visible_text names t"
proof -
  assume "keys_distinct t"
  then have "decompose_all names t = prune names t"
    by (simp add: decompose_all_remove_keys remove_found_prune)
  then show ?thesis by (simp add: get_text_prune)
qed

theorem scraped_text_excludes_unwanted_witness:
  "keys_distinct sample_page \<and>
   get_text (decompose_all unwanted_tags sample_page) = visible_text unwanted_tags sample_page \<and>
   visible_text unwanted_tags sample_page = asc ''Hi there''"
proof -
  have k: "keys_distinct sample_page"
    by (simp add: keys_distinct_def sample_page_def)
  have "visible_text unwanted_tags sample_page = asc ''Hi there''"
    by (simp add: visible_text_def shown_item_def sample_page_def unwanted_tags_def asc_def)
  with k scraped_text_excludes_unwanted [OF k, of unwanted_tags] show ?thesis by simp
qed

end
