(* ===== verification/PyJson.thy ===== *)
theory PyJson
  imports PyStr
begin

text \<open>
  The Python values the program handles: the JSON payload that Flask's
  \<open>request.get_json()\<close> returns (\<open>None\<close>, booleans, integers, strings, lists and
  dicts, the datatype \<open>json\<close>), the exceptions the code can raise (\<open>exn\<close>), and the
  operations \<open>submit_form\<close> and \<open>generate_chatbot_prompt\<close> apply to them:
  \<open>dict.get\<close> with a default (and the \<open>AttributeError\<close> a non-dict raises), item
  assignment, truthiness (\<open>if not company_name\<close>), \<open>str()\<close> as an f-string hole
  formats a value, iteration, and \<open>', '.join\<close>. A dict is an association list in
  insertion order; its keys are distinct (\<open>json_wf\<close>), as in every dict
  \<open>json.loads\<close> builds.
\<close>

section \<open>Exceptions\<close>

datatype exn =
    AttributeError ustr
  | TypeError ustr
  | IndexError ustr
  | OSError ustr
  | APIError ustr
  | WebDriverException ustr
  | OpenAIError ustr
  | TemplateNotFound ustr

text \<open>\<open>str(e)\<close>: the message the exception was raised with.\<close>

fun exn_str :: "exn \<Rightarrow> ustr" where
  "exn_str (AttributeError m) = m"
| "exn_str (TypeError m) = m"
| "exn_str (IndexError m) = m"
| "exn_str (OSError m) = m"
| "exn_str (APIError m) = m"
| "exn_str (WebDriverException m) = m"
| "exn_str (OpenAIError m) = m"
| "exn_str (TemplateNotFound m) = m"

definition quoted :: "ustr \<Rightarrow> ustr" where
  "quoted s = [39] @ s @ [39]"

section \<open>Values\<close>

datatype json =
    JNull
  | JBool bool
  | JInt int
  | JStr ustr
  | JList "json list"
  | JDict "(ustr \<times> json) list"

fun py_type_name :: "json \<Rightarrow> ustr" where
  "py_type_name JNull = asc ''NoneType''"
| "py_type_name (JBool b) = asc ''bool''"
| "py_type_name (JInt i) = asc ''int''"
| "py_type_name (JStr s) = asc ''str''"
| "py_type_name (JList xs) = asc ''list''"
| "py_type_name (JDict kvs) = asc ''dict''"

text \<open>Every dict of the value has distinct keys.\<close>

fun json_wf :: "json \<Rightarrow> bool" where
  "json_wf (JList xs) = list_all json_wf xs"
| "json_wf (JDict kvs) = (distinct (map fst kvs) \<and> list_all (\<lambda>kv. json_wf (snd kv)) kvs)"
| "json_wf v = True"

text \<open>Truthiness, as \<open>if x:\<close> and \<open>if not x:\<close> test it.\<close>

fun py_truthy :: "json \<Rightarrow> bool" where
  "py_truthy JNull = False"
| "py_truthy (JBool b) = b"
| "py_truthy (JInt i) = (i \<noteq> 0)"
| "py_truthy (JStr s) = (s \<noteq> [])"
| "py_truthy (JList xs) = (xs \<noteq> [])"
| "py_truthy (JDict kvs) = (kvs \<noteq> [])"

section \<open>Dict operations\<close>

text \<open>\<open>obj.get(key, default)\<close>; on anything but a dict the attribute lookup fails.\<close>

definition py_get :: "json \<Rightarrow> ustr \<Rightarrow> json \<Rightarrow> exn + json" where
  "py_get obj key dflt =
     (case obj of
        JDict kvs \<Rightarrow> Inr (case map_of kvs key of Some v \<Rightarrow> v | None \<Rightarrow> dflt)
      | _ \<Rightarrow> Inl (AttributeError (quoted (py_type_name obj) @
                                asc '' object has no attribute '' @ quoted (asc ''get''))))"

text \<open>\<open>d[key] = value\<close>: an existing key keeps its position, a new one is appended.\<close>

fun dict_set :: "(ustr \<times> 'v) list \<Rightarrow> ustr \<Rightarrow> 'v \<Rightarrow> (ustr \<times> 'v) list" where
  "dict_set [] key v = [(key, v)]"
| "dict_set ((k, w) # kvs) key v =
     (if k = key then (key, v) # kvs else (k, w) # dict_set kvs key v)"

text \<open>\<open>obj[key] = v\<close> with a string key, on any value.\<close>

definition py_setitem :: "json \<Rightarrow> ustr \<Rightarrow> json \<Rightarrow> exn + json" where
  "py_setitem obj key v =
     (case obj of
        JDict kvs \<Rightarrow> Inr (JDict (dict_set kvs key v))
      | JList xs \<Rightarrow> Inl (TypeError (asc ''list indices must be integers or slices, not str''))
      | _ \<Rightarrow> Inl (TypeError (quoted (py_type_name obj) @ asc '' object does not support item assignment'')))"

section \<open>Formatting: str() and repr()\<close>

fun nat_str :: "nat \<Rightarrow> ustr" where
  "nat_str n = (if n < 10 then [48 + n] else nat_str (n div 10) @ [48 + n mod 10])"

definition int_str :: "int \<Rightarrow> ustr" where
  "int_str i = (if i < 0 then 45 # nat_str (nat (- i)) else nat_str (nat i))"

definition hex_digit :: "nat \<Rightarrow> nat" where
  "hex_digit d = (if d < 10 then 48 + d else 87 + d)"

text \<open>The last \<open>w\<close> lowercase hexadecimal digits of \<open>n\<close>, zero-padded.\<close>

fun hex_pad :: "nat \<Rightarrow> nat \<Rightarrow> ustr" where
  "hex_pad 0 n = []"
| "hex_pad (Suc w) n = hex_pad w (n div 16) @ [hex_digit (n mod 16)]"

text \<open>One character of \<open>repr()\<close> of a string quoted with \<open>q\<close> (CPython
  \<open>unicode_repr\<close>).\<close>

definition repr_char :: "unicode_db \<Rightarrow> nat \<Rightarrow> nat \<Rightarrow> ustr" where
  "repr_char db q c =
     (if c = q \<or> c = 92 then [92, c]
      else if c = 9 then [92, 116]
      else if c = 10 then [92, 110]
      else if c = 13 then [92, 114]
      else if c < 32 \<or> c = 127 then [92, 120] @ hex_pad 2 c
      else if c < 127 then [c]
      else if \<not> ucd_isprintable db c then
        (if c \<le> 255 then [92, 120] @ hex_pad 2 c
         else if c \<le> 65535 then [92, 117] @ hex_pad 4 c
         else [92, 85] @ hex_pad 8 c)
      else [c])"

text \<open>Single quotes, unless the string holds a single quote and no double quote.\<close>

definition py_repr_str :: "unicode_db \<Rightarrow> ustr \<Rightarrow> ustr" where
  "py_repr_str db s =
     (let q = (if 39 \<in> set s \<and> 34 \<notin> set s then 34 else 39)
      in [q] @ concat (map (repr_char db q) s) @ [q])"

fun py_repr :: "unicode_db \<Rightarrow> json \<Rightarrow> ustr" where
  "py_repr db JNull = asc ''None''"
| "py_repr db (JBool b) = (if b then asc ''True'' else asc ''False'')"
| "py_repr db (JInt i) = int_str i"
| "py_repr db (JStr s) = py_repr_str db s"
| "py_repr db (JList xs) = [91] @ py_join (asc '', '') (map (py_repr db) xs) @ [93]"
| "py_repr db (JDict kvs) =
     [123] @ py_join (asc '', '')
       (map (\<lambda>kv. py_repr_str db (fst kv) @ asc '': '' @ py_repr db (snd kv)) kvs) @ [125]"

text \<open>\<open>str(x)\<close>, which an f-string hole \<open>{x}\<close> applies: a string is itself,
  anything else its \<open>repr()\<close>.\<close>

definition py_str :: "unicode_db \<Rightarrow> json \<Rightarrow> ustr" where
  "py_str db v = (case v of JStr s \<Rightarrow> s | _ \<Rightarrow> py_repr db v)"

section \<open>Iteration and join\<close>

text \<open>\<open>iter(x)\<close>: the characters of a string, the items of a list, the keys of a
  dict; \<open>None\<close>, booleans and integers are not iterable.\<close>

definition py_iter :: "json \<Rightarrow> json list option" where
  "py_iter v =
     (case v of
        JStr s \<Rightarrow> Some (map (\<lambda>c. JStr [c]) s)
      | JList xs \<Rightarrow> Some xs
      | JDict kvs \<Rightarrow> Some (map (\<lambda>kv. JStr (fst kv)) kvs)
      | _ \<Rightarrow> None)"

text \<open>The items of a join must all be strings; the first that is not is reported
  with its index.\<close>

fun join_items :: "nat \<Rightarrow> json list \<Rightarrow> exn + ustr list" where
  "join_items i [] = Inr []"
| "join_items i (JStr s # xs) =
     (case join_items (Suc i) xs of Inl e \<Rightarrow> Inl e | Inr ss \<Rightarrow> Inr (s # ss))"
| "join_items i (x # xs) =
     Inl (TypeError (asc ''sequence item '' @ nat_str i @ asc '': expected str instance, '' @
                     py_type_name x @ asc '' found''))"

definition py_str_join :: "ustr \<Rightarrow> json \<Rightarrow> exn + ustr" where
  "py_str_join sep v =
     (case py_iter v of
        None \<Rightarrow> Inl (TypeError (asc ''can only join an iterable''))
      | Some items \<Rightarrow> (case join_items 0 items of Inl e \<Rightarrow> Inl e | Inr ss \<Rightarrow> Inr (py_join sep ss)))"

fun is_dict :: "json \<Rightarrow> bool" where
  "is_dict (JDict kvs) = True"
| "is_dict v = False"

fun is_str :: "json \<Rightarrow> bool" where
  "is_str (JStr s) = True"
| "is_str v = False"

text \<open>The values \<open>', '.join\<close> accepts: iterables of strings.\<close>

definition joinable :: "json \<Rightarrow> bool" where
  "joinable v = (case py_iter v of None \<Rightarrow> False | Some items \<Rightarrow> list_all is_str items)"

declare nat_str.simps [simp del]

section \<open>Properties of the dict operations\<close>

lemma keys_dict_set:
  "map fst (dict_set kvs key v) =
     (if key \<in> set (map fst kvs) then map fst kvs else map fst kvs @ [key])"
  by (induction kvs key v rule: dict_set.induct) auto

lemma distinct_dict_set:
  "distinct (map fst kvs) \<Longrightarrow> distinct (map fst (dict_set kvs key v))"
  by (simp add: keys_dict_set)

lemma set_dict_set_values:
  "snd ` set (dict_set kvs key v) \<subseteq> insert v (snd ` set kvs)"
  by (induction kvs key v rule: dict_set.induct) auto

text \<open>Item assignment keeps a well-formed payload well-formed.\<close>

lemma json_wf_dict_set:
  assumes "json_wf (JDict kvs)" "json_wf v"
  shows "json_wf (JDict (dict_set kvs key v))"
proof -
  have "\<forall>kv\<in>set (dict_set kvs key v). json_wf (snd kv)"
    using assms set_dict_set_values [of kvs key v] by (fastforce simp: list_all_iff)
  with assms show ?thesis by (simp add: distinct_dict_set list_all_iff)
qed

lemma py_get_JDict: "py_get (JDict kvs) key d = Inr (case map_of kvs key of Some v \<Rightarrow> v | None \<Rightarrow> d)"
  by (simp add: py_get_def)

lemma py_get_not_dict:
  "(\<forall>kvs. obj \<noteq> JDict kvs) \<Longrightarrow> \<exists>e. py_get obj key d = Inl e"
  by (cases obj) (auto simp: py_get_def)

section \<open>When join and get succeed\<close>

lemma join_items_ok: "(\<exists>ss. join_items i xs = Inr ss) \<longleftrightarrow> list_all is_str xs"
  by (induction i xs rule: join_items.induct) (auto split: sum.splits)

lemma py_str_join_ok: "(\<exists>s. py_str_join sep v = Inr s) \<longleftrightarrow> joinable v"
proof (cases "py_iter v")
  case (Some items)
  have "(\<exists>s. py_str_join sep v = Inr s) \<longleftrightarrow> (\<exists>ss. join_items 0 items = Inr ss)"
    using Some by (auto simp: py_str_join_def split: sum.splits)
  with Some show ?thesis by (simp add: join_items_ok joinable_def)
qed (simp add: py_str_join_def joinable_def)

lemma py_get_ok: "(\<exists>v. py_get obj key d = Inr v) \<longleftrightarrow> is_dict obj"
  by (cases obj) (auto simp: py_get_def)

end
