(* ===== verification/Scraper.thy ===== *)
theory Scraper
  imports Dom PyJson
begin

text \<open>
  \<open>WebsiteScraper\<close> (app.py lines 32-80). The browser is outside the model: a
  record \<open>browser_env\<close> says what each Selenium call does for this run (whether
  \<open>ChromeDriverManager().install()\<close> and \<open>webdriver.Chrome(...)\<close> raise, what
  \<open>driver.get(url)\<close> and \<open>driver.page_source\<close> raise or return, how BeautifulSoup's
  \<open>html.parser\<close> parses the page, whether \<open>driver.quit()\<close> raises). The scraper's
  effects on the browser are a list of events; its result is the \<open>content\<close> string.
  The fixed \<open>time.sleep(8)\<close> is the event \<open>Sleep 8\<close>; console prints are not
  modelled. Every branch of \<open>scrape_website\<close> is a branch of the model, the three
  fallback strings included.
\<close>

datatype driver = ChromeDriver

record browser_env =
  driver_install :: "exn option"
  driver_get :: "json \<Rightarrow> exn option"
  driver_page_source :: "json \<Rightarrow> exn + ustr"
  html_parse :: "ustr \<Rightarrow> node"
  driver_quit :: "exn option"

datatype browser_event =
    LaunchChrome "ustr list"
  | LaunchFailed exn
  | Navigate json
  | Sleep nat
  | Quit
  | QuitFailed exn

text \<open>\<open>"Den itan dynati i prosvasi stin istoselida. Fallback."\<close> (line 61).\<close>

definition unreachable_msg :: ustr where
  "unreachable_msg =
     [916, 949, 957, 32, 942, 964, 945, 957, 32, 948, 965, 957, 945, 964, 942, 32, 951, 32, 960,
      961, 972, 963, 946, 945, 963, 951, 32, 963, 964, 951, 957, 32, 953, 963, 964, 959, 963, 949,
      955, 943, 948, 945, 46, 32] @ asc ''Fallback.''"

text \<open>\<open>"Sfalma kata tin anaktisi tis istoselidas: "\<close> (line 75).\<close>

definition scrape_error_prefix :: ustr where
  "scrape_error_prefix =
     [931, 966, 940, 955, 956, 945, 32, 954, 945, 964, 940, 32, 964, 951, 957, 32, 945, 957, 940,
      954, 964, 951, 963, 951, 32, 964, 951, 962, 32, 953, 963, 964, 959, 963, 949, 955, 943, 948,
      945, 962, 58, 32]"

definition chrome_arguments :: "ustr list" where
  "chrome_arguments = [asc ''--headless'', asc ''--no-sandbox'', asc ''--disable-dev-shm-usage'']"

text \<open>\<open>setup_driver\<close>: the driver, or \<open>None\<close> when installing or starting it raised.\<close>

definition setup_driver :: "browser_env \<Rightarrow> driver option \<times> browser_event list" where
  "setup_driver env =
     (case driver_install env of
        None \<Rightarrow> (Some ChromeDriver, [LaunchChrome chrome_arguments])
      | Some e \<Rightarrow> (None, [LaunchFailed e]))"

text \<open>The \<open>try\<close> block of \<open>scrape_website\<close> (lines 64-75): navigate, wait, parse,
  strip the unwanted elements, take the text and normalise its whitespace; an
  exception becomes the diagnostic content.\<close>

definition scrape_page :: "browser_env \<Rightarrow> json \<Rightarrow> ustr \<times> browser_event list" where
  "scrape_page env url =
     (case driver_get env url of
        Some e \<Rightarrow> (scrape_error_prefix @ exn_str e, [Navigate url])
      | None \<Rightarrow>
          (case driver_page_source env url of
             Inl e \<Rightarrow> (scrape_error_prefix @ exn_str e, [Navigate url, Sleep 8])
           | Inr page \<Rightarrow>
               (normalize_ws (get_text (decompose_all unwanted_tags (html_parse env page))),
                [Navigate url, Sleep 8])))"

text \<open>The \<open>finally\<close> clause: \<open>driver.quit()\<close>, its exception swallowed.\<close>

definition quit_driver :: "browser_env \<Rightarrow> browser_event" where
  "quit_driver env = (case driver_quit env of None \<Rightarrow> Quit | Some e \<Rightarrow> QuitFailed e)"

definition scrape_website :: "browser_env \<Rightarrow> json \<Rightarrow> ustr \<times> browser_event list" where
  "scrape_website env url =
     (case setup_driver env of
        (None, ev) \<Rightarrow> (unreachable_msg, ev)
      | (Some d, ev) \<Rightarrow>
          (let (content, ev') = scrape_page env url
           in (content, ev @ ev' @ [quit_driver env])))"

record website_scraper =
  scraper_url :: json
  scraper_content :: ustr

text \<open>\<open>WebsiteScraper(url)\<close>: the constructor runs the scrape.\<close>

definition WebsiteScraper :: "browser_env \<Rightarrow> json \<Rightarrow> website_scraper \<times> browser_event list" where
  "WebsiteScraper env url =
     (let (content, ev) = scrape_website env url
      in (\<lparr>scraper_url = url, scraper_content = content\<rparr>, ev))"

section \<open>The browser session as a state machine\<close>

text \<open>The life of the scoped browser session: a launch (or its failure), one
  navigation, the fixed wait, and one release; no event follows the release.\<close>

datatype session = NoSession | Open | Navigated | Waited | Closed | LaunchAborted

inductive session_step :: "session \<Rightarrow> browser_event \<Rightarrow> session \<Rightarrow> bool" where
  launch: "session_step NoSession (LaunchChrome args) Open"
| launch_failed: "session_step NoSession (LaunchFailed e) LaunchAborted"
| navigate: "session_step Open (Navigate u) Navigated"
| wait: "session_step Navigated (Sleep n) Waited"
| quit: "s \<in> {Open, Navigated, Waited} \<Longrightarrow> session_step s Quit Closed"
| quit_failed: "s \<in> {Open, Navigated, Waited} \<Longrightarrow> session_step s (QuitFailed e) Closed"

inductive session_run :: "session \<Rightarrow> browser_event list \<Rightarrow> session \<Rightarrow> bool" where
  run_nil: "session_run s [] s"
| run_cons: "session_step s e s' \<Longrightarrow> session_run s' es t \<Longrightarrow> session_run s (e # es) t"

code_pred session_step .
code_pred session_run .

inductive_cases session_step_ClosedE [elim!]: "session_step Closed e s"
inductive_cases session_step_AbortedE [elim!]: "session_step LaunchAborted e s"
inductive_cases session_run_ConsE [elim]: "session_run s (e # es) t"
inductive_cases session_run_NilE [elim!]: "session_run s [] t"

lemmas session_intros = session_run.intros session_step.intros

lemma session_step_deterministic: "session_step s e t \<Longrightarrow> session_step s e t' \<Longrightarrow> t = t'"
  by (induction rule: session_step.induct) (auto elim: session_step.cases)

lemma session_run_deterministic: "session_run s es t \<Longrightarrow> session_run s es t' \<Longrightarrow> t = t'"
proof (induction arbitrary: t' rule: session_run.induct)
  case (run_nil s)
  then show ?case by blast
next
  case (run_cons s e s' es t)
  from run_cons.prems obtain s'' where "session_step s e s''" "session_run s'' es t'"
    by blast
  with run_cons show ?case using session_step_deterministic by blast
qed

text \<open>A released or aborted session takes no further event.\<close>

lemma session_final: "s \<in> {Closed, LaunchAborted} \<Longrightarrow> session_run s es t \<Longrightarrow> es = [] \<and> t = s"
  by (cases es) auto

lemma quit_driver_step: "s \<in> {Open, Navigated, Waited} \<Longrightarrow> session_step s (quit_driver env) Closed"
  by (simp add: quit_driver_def session_step.intros split: option.splits)

section \<open>Claims\<close>

definition sample_browser :: browser_env where
  "sample_browser =
     \<lparr>driver_install = None, driver_get = (\<lambda>u. None), driver_page_source = (\<lambda>u. Inr (asc ''<html>'')),
      html_parse = (\<lambda>p. sample_page), driver_quit = None\<rparr>"

lemmas scrape_defs = scrape_website_def setup_driver_def scrape_page_def

text \<open>C5. The browser session is scoped: every run of \<open>scrape_website\<close> is a complete
  session (launch, at most one navigation and one wait, one release) that ends
  released when Chrome was launched and aborted when the launch failed; after the
  release no browser event follows.\<close>

theorem scrape_releases_browser:
  "\<exists>s. session_run NoSession (snd (scrape_website env url)) s \<and>
       (s = Closed \<or> s = LaunchAborted) \<and> (s = Closed \<longleftrightarrow> driver_install env = None)"
proof (cases "driver_install env")
  case None
  then have "session_run NoSession (snd (scrape_website env url)) Closed"
    by (auto simp: scrape_defs intro!: session_intros quit_driver_step
             split: option.splits sum.splits)
  with None show ?thesis by (intro exI [of _ Closed]) simp
next
  case (Some e)
  then have "session_run NoSession (snd (scrape_website env url)) LaunchAborted"
    by (auto simp: scrape_defs intro!: session_intros)
  with Some show ?thesis by (intro exI [of _ LaunchAborted]) simp
qed

text \<open>C6. The scraper never raises: when the driver cannot be started its content
  is the fixed fallback message, and when navigation or reading the page raises, its
  content is the diagnostic prefix followed by the exception's message.\<close>

theorem scraper_degrades_to_fallback:
  "(driver_install env = Some e \<longrightarrow> fst (scrape_website env url) = unreachable_msg) \<and>
   (driver_install env = None \<longrightarrow> driver_get env url = Some e \<longrightarrow>
      fst (scrape_website env url) = scrape_error_prefix @ exn_str e) \<and>
   (driver_install env = None \<longrightarrow> driver_get env url = None \<longrightarrow>
      driver_page_source env url = Inl e \<longrightarrow>
      fst (scrape_website env url) = scrape_error_prefix @ exn_str e)"
  by (auto simp: scrape_defs split: prod.splits)

theorem scraper_degrades_to_fallback_witness:
  "fst (scrape_website (sample_browser\<lparr>driver_install := Some (WebDriverException (asc ''no chrome''))\<rparr>) (JStr (asc ''x'')))
     = unreachable_msg \<and>
   fst (scrape_website (sample_browser\<lparr>driver_get := (\<lambda>u. Some (WebDriverException (asc ''dns'')))\<rparr>) (JStr (asc ''x'')))
     = scrape_error_prefix @ asc ''dns'' \<and>
   fst (scrape_website (sample_browser\<lparr>driver_page_source := (\<lambda>u. Inl (WebDriverException (asc ''gone'')))\<rparr>) (JStr (asc ''x'')))
     = scrape_error_prefix @ asc ''gone''"
  using scraper_degrades_to_fallback
          [of "sample_browser\<lparr>driver_install := Some (WebDriverException (asc ''no chrome''))\<rparr>"
              "WebDriverException (asc ''no chrome'')" "JStr (asc ''x'')"]
        scraper_degrades_to_fallback
          [of "sample_browser\<lparr>driver_get := (\<lambda>u. Some (WebDriverException (asc ''dns'')))\<rparr>"
              "WebDriverException (asc ''dns'')" "JStr (asc ''x'')"]
        scraper_degrades_to_fallback
          [of "sample_browser\<lparr>driver_page_source := (\<lambda>u. Inl (WebDriverException (asc ''gone'')))\<rparr>"
              "WebDriverException (asc ''gone'')" "JStr (asc ''x'')"]
  by (simp add: sample_browser_def)

text \<open>C25. When the page loads, the content is the page's visible text (outside
  script, style, nav and footer elements) with its whitespace normalised.\<close>

theorem scrape_success_text:
  "driver_install env = None \<Longrightarrow> driver_get env url = None \<Longrightarrow>
   driver_page_source env url = Inr page \<Longrightarrow> keys_distinct (html_parse env page) \<Longrightarrow>
   fst (scrape_website env url) = normalize_ws (visible_text unwanted_tags (html_parse env page))"
  by (simp add: scrape_defs decompose_all_remove_keys remove_found_prune get_text_prune split: prod.splits)

theorem scrape_success_text_witness:
  "fst (scrape_website sample_browser (JStr (asc ''https://acme.example''))) = asc ''Hi there''"
proof -
  have k: "keys_distinct (html_parse sample_browser (asc ''<html>''))"
    by (simp add: sample_browser_def keys_distinct_def sample_page_def)
  have v: "visible_text unwanted_tags sample_page = asc ''Hi there''"
    by (simp add: visible_text_def shown_item_def sample_page_def unwanted_tags_def asc_def)
  have "normalize_ws (asc ''Hi there'') = asc ''Hi there''"
    by (simp add: normalize_ws_def py_split_def py_isspace_def asc_def)
  with scrape_success_text [of sample_browser "JStr (asc ''https://acme.example'')" "asc ''<html>''", OF _ _ _ k] v
  show ?thesis by (simp add: sample_browser_def)
qed

end
