(* ===== verification/Prompt.thy ===== *)
theory Prompt
  imports PyJson
begin

text \<open>
  \<open>generate_chatbot_prompt\<close> (app.py lines 83-140). The f-string of lines 87-138 is
  \<open>chatbot_prompt_lines\<close>: one entry per line of the literal, each a list of literal
  pieces and holes, transcribed from the source (\<open>{{\<close> and \<open>}}\<close> already read as
  braces). A hole is \<open>x.get('key')\<close> (default \<open>None\<close>), \<open>', '.join(x.get('key', []))\<close>
  or \<open>website_content\<close>. The f-string evaluates its holes from left to right, formats
  each with \<open>str()\<close>, and the first that raises is the function's exception;
  otherwise the lines are joined with newlines (the literal begins and ends with a
  newline, the empty first and last lines here).
\<close>

datatype form_section = PCompany | PEvaluation | PChatbotStyle

datatype fexpr = FGet form_section ustr | FJoin form_section ustr | FWebsite

datatype segment = Lit ustr | Hole fexpr

definition chatbot_prompt_lines :: "segment list list" where
  \<open>chatbot_prompt_lines = [
      [],
      [Lit (asc ''You are an expert in creating prompts for evaluation chatbots. Your job is to produce a COMPLETE system prompt for a chatbot (Chatbot B) that will be used to collect feedback from users. The prompt must be based on the following data from a form and website content.'')],
      [],
      [Lit (asc ''BEFORE YOU START:'')],
      [Lit (asc ''- Create evaluation questions, based on the 'Key Topics' and 'Questions' from the data. If there are not enough, supplement logically with questions related to the industry, the object, and the company description. Each question must ask for a rating on the scale ''), Hole (FGet PEvaluation (asc ''rating_scale'')), Lit (asc '' (e.g. 1-10) and an optional comment.'')],
      [Lit (asc ''- The chatbot must ask one question at a time, wait for a response, and proceed to the next ONLY after receiving a response.'')],
      [Lit (asc ''- Reactions:'')],
      [Lit (asc ''  - For high rating (>80% of max, e.g. 8-10/10): Show enthusiasm (e.g. 'Great! We are excited!').'')],
      [Lit (asc ''  - For medium (40-80%): Show pleasure or moderation (e.g. 'Thank you! It's good, but we can do better.').'')],
      [Lit (asc ''  - For low (<40%): Show disappointment but positively (e.g. 'We are sorry you were not satisfied. Let's see how to improve.').'')],
      [Lit (asc ''- Follow-up: After each response, make 1-2 follow-up questions depending on the rating:'')],
      [Lit (asc ''  - High: Ask 'What did you like the most?' or 'Why this high rating?'.'')],
      [Lit (asc ''  - Medium: Ask 'What could we improve slightly?' or 'Is there something specific you missed?'.'')],
      [Lit (asc ''  - Low: Ask 'What was the main problem?' or 'How can we make it better next time?'.'')],
      [Lit (asc ''- Goal: Collect responses from ALL 10 questions before finishing. At the end, provide a summary and export the data in JSON format.'')],
      [Lit (asc ''- Use the language ''), Hole (FGet PChatbotStyle (asc ''language'')), Lit (asc '', the tone ''), Hole (FGet PChatbotStyle (asc ''tone'')), Lit (asc '' and the personality ''), Hole (FGet PChatbotStyle (asc ''personality'')), Lit (asc ''.'')],
      [Lit (asc ''- Start with a greeting customized to the company.'')],
      [Lit (asc ''- End: After all questions, say 'Thank you!' and export JSON with: { "responses": [{ "question": "...", "rating": ..., "comment": "...", "follow_up": "..." } for each], "summary": "..." }.'')],
      [],
      [Lit (asc ''Data to base on:'')],
      [],
      [Lit (asc ''---'')],
      [Lit (asc ''### Company Details:'')],
      [Lit (asc ''- Company Name: ''), Hole (FGet PCompany (asc ''name''))],
      [Lit (asc ''- Industry: ''), Hole (FGet PCompany (asc ''industry''))],
      [Lit (asc ''- Size: ''), Hole (FGet PCompany (asc ''size''))],
      [Lit (asc ''- Website: ''), Hole (FGet PCompany (asc ''website''))],
      [Lit (asc ''- Email: ''), Hole (FGet PCompany (asc ''email''))],
      [Lit (asc ''- Description: ''), Hole (FGet PCompany (asc ''description''))],
      [],
      [Lit (asc ''---'')],
      [Lit (asc ''### Evaluation Details:'')],
      [Lit (asc ''- Evaluation Type: ''), Hole (FGet PEvaluation (asc ''type''))],
      [Lit (asc ''- Evaluation Object: ''), Hole (FGet PEvaluation (asc ''specific_object''))],
      [Lit (asc ''- Key Topics: ''), Hole (FJoin PEvaluation (asc ''key_topics''))],
      [Lit (asc ''- Questions: ''), Hole (FJoin PEvaluation (asc ''questions''))],
      [Lit (asc ''- Rating Scale: ''), Hole (FGet PEvaluation (asc ''rating_scale''))],
      [Lit (asc ''- Comments: ''), Hole (FGet PEvaluation (asc ''additional_comments_focus''))],
      [],
      [Lit (asc ''---'')],
      [Lit (asc ''### Chatbot Style:'')],
      [Lit (asc ''- Language: ''), Hole (FGet PChatbotStyle (asc ''language''))],
      [Lit (asc ''- Tone: ''), Hole (FGet PChatbotStyle (asc ''tone''))],
      [Lit (asc ''- Personality: ''), Hole (FGet PChatbotStyle (asc ''personality''))],
      [],
      [Lit (asc ''---'')],
      [Lit (asc ''### Website Content for Additional Information:'')],
      [Hole FWebsite],
      [],
      [Lit (asc ''Based on ALL this, produce ONLY the final system prompt for Chatbot B. Do not add explanations '' @ [8211] @ asc '' only the prompt in quoted format.'')],
      [Lit (asc ''### YOU WILL WRITE THE PROMPT IN ENGLISH'')],
      []]\<close>

text \<open>One hole, given the three sections of the form and the website text.\<close>

fun section_of :: "json \<times> json \<times> json \<Rightarrow> form_section \<Rightarrow> json" where
  "section_of (c, e, s) PCompany = c"
| "section_of (c, e, s) PEvaluation = e"
| "section_of (c, e, s) PChatbotStyle = s"

fun eval_hole :: "unicode_db \<Rightarrow> json \<times> json \<times> json \<Rightarrow> ustr \<Rightarrow> fexpr \<Rightarrow> exn + ustr" where
  "eval_hole db secs wc (FGet p key) =
     (case py_get (section_of secs p) key JNull of Inl e \<Rightarrow> Inl e | Inr v \<Rightarrow> Inr (py_str db v))"
| "eval_hole db secs wc (FJoin p key) =
     (case py_get (section_of secs p) key (JList []) of Inl e \<Rightarrow> Inl e | Inr v \<Rightarrow> py_str_join (asc '', '') v)"
| "eval_hole db secs wc FWebsite = Inr wc"

text \<open>The pieces of one line, left to right.\<close>

fun render_segs :: "(fexpr \<Rightarrow> exn + ustr) \<Rightarrow> segment list \<Rightarrow> exn + ustr" where
  "render_segs h [] = Inr []"
| "render_segs h (Lit s # segs) =
     (case render_segs h segs of Inl e \<Rightarrow> Inl e | Inr r \<Rightarrow> Inr (s @ r))"
| "render_segs h (Hole x # segs) =
     (case h x of
        Inl e \<Rightarrow> Inl e
      | Inr v \<Rightarrow> (case render_segs h segs of Inl e \<Rightarrow> Inl e | Inr r \<Rightarrow> Inr (v @ r)))"

fun render_lines :: "(fexpr \<Rightarrow> exn + ustr) \<Rightarrow> segment list list \<Rightarrow> exn + ustr list" where
  "render_lines h [] = Inr []"
| "render_lines h (l # ls) =
     (case render_segs h l of
        Inl e \<Rightarrow> Inl e
      | Inr r \<Rightarrow> (case render_lines h ls of Inl e \<Rightarrow> Inl e | Inr rs \<Rightarrow> Inr (r # rs)))"

definition generate_chatbot_prompt :: "unicode_db \<Rightarrow> json \<Rightarrow> ustr \<Rightarrow> exn + ustr" where
  "generate_chatbot_prompt db data website_content =
     (case py_get data (asc ''company'') (JDict []) of
        Inl e \<Rightarrow> Inl e
      | Inr company \<Rightarrow>
     (case py_get data (asc ''evaluation'') (JDict []) of
        Inl e \<Rightarrow> Inl e
      | Inr evaluation \<Rightarrow>
     (case py_get data (asc ''chatbot_style'') (JDict []) of
        Inl e \<Rightarrow> Inl e
      | Inr chatbot_style \<Rightarrow>
     (case render_lines (eval_hole db (company, evaluation, chatbot_style) website_content)
                        chatbot_prompt_lines of
        Inl e \<Rightarrow> Inl e
      | Inr ls \<Rightarrow> Inr (py_join nl ls)))))"

section \<open>The inputs the compiler accepts\<close>

definition get_or_null :: "json \<Rightarrow> ustr \<Rightarrow> json \<Rightarrow> json" where
  "get_or_null obj key d = (case py_get obj key d of Inr v \<Rightarrow> v | Inl e \<Rightarrow> JNull)"

text \<open>The payload is a dict whose three sections are dicts (or absent) and whose key
  topics and questions are iterables of strings (or absent).\<close>

definition prompt_inputs_ok :: "json \<Rightarrow> bool" where
  "prompt_inputs_ok data \<longleftrightarrow>
     is_dict data \<and>
     is_dict (get_or_null data (asc ''company'') (JDict [])) \<and>
     is_dict (get_or_null data (asc ''evaluation'') (JDict [])) \<and>
     is_dict (get_or_null data (asc ''chatbot_style'') (JDict [])) \<and>
     joinable (get_or_null (get_or_null data (asc ''evaluation'') (JDict [])) (asc ''key_topics'') (JList [])) \<and>
     joinable (get_or_null (get_or_null data (asc ''evaluation'') (JDict [])) (asc ''questions'') (JList []))"

text \<open>The request of the end-to-end scenario:
  \<open>{company: {name: "Acme"}, evaluation: {rating_scale: "1-10"}, chatbot_style: {language: "English"}}\<close>.\<close>

definition acme_request :: json where
  "acme_request =
     JDict [(asc ''company'', JDict [(asc ''name'', JStr (asc ''Acme''))]),
            (asc ''evaluation'', JDict [(asc ''rating_scale'', JStr (asc ''1-10''))]),
            (asc ''chatbot_style'', JDict [(asc ''language'', JStr (asc ''English''))])]"

section \<open>Rendering\<close>

lemma render_lines_Inr:
  "render_lines h ls = Inr rs \<Longrightarrow>
   length rs = length ls \<and> (\<forall>i<length ls. render_segs h (ls ! i) = Inr (rs ! i))"
proof (induction ls arbitrary: rs)
  case Nil
  then show ?case by simp
next
  case (Cons l ls)
  then obtain r rs' where "render_segs h l = Inr r" "render_lines h ls = Inr rs'" "rs = r # rs'"
    by (auto split: sum.splits)
  with Cons.IH show ?case by (auto simp: nth_Cons split: nat.splits)
qed

lemma render_segs_ok_iff:
  "(\<exists>r. render_segs h segs = Inr r) \<longleftrightarrow> (\<forall>x. Hole x \<in> set segs \<longrightarrow> (\<exists>v. h x = Inr v))"
  by (induction h segs rule: render_segs.induct) (auto split: sum.splits)

lemma render_lines_ok_iff:
  "(\<exists>rs. render_lines h ls = Inr rs) \<longleftrightarrow> (\<forall>l\<in>set ls. \<forall>x. Hole x \<in> set l \<longrightarrow> (\<exists>v. h x = Inr v))"
proof (induction ls)
  case Nil
  then show ?case by simp
next
  case (Cons l ls)
  have "(\<exists>rs. render_lines h (l # ls) = Inr rs) \<longleftrightarrow>
        (\<exists>r. render_segs h l = Inr r) \<and> (\<exists>rs. render_lines h ls = Inr rs)"
    by (auto split: sum.splits)
  with Cons.IH show ?case by (simp add: render_segs_ok_iff)
qed

lemma py_join_member: "l \<in> set ls \<Longrightarrow> sublist l (py_join sep ls)"
proof (induction sep ls rule: py_join.induct)
  case (3 sep w v ws)
  then show ?case by (auto intro: sublist_append_rightI sublist_extend [where zs = "w @ sep" and ws = "[]", simplified])
qed auto

lemma py_join_nth_pair:
  "Suc i < length ls \<Longrightarrow> sublist (ls ! i @ sep @ ls ! Suc i) (py_join sep ls)"
proof (induction sep ls arbitrary: i rule: py_join.induct)
  case (3 sep w v ws)
  show ?case
  proof (cases i)
    case 0
    obtain rest where "py_join sep (v # ws) = v @ rest"
      by (cases ws) auto
    with 0 show ?thesis by (auto intro: sublist_extend [where zs = "[]", simplified])
  next
    case (Suc j)
    with "3.prems" have "sublist ((v # ws) ! j @ sep @ (v # ws) ! Suc j) (py_join sep (v # ws))"
      by (intro "3.IH") simp
    with Suc show ?thesis by (auto intro: sublist_extend [where zs = "w @ sep" and ws = "[]", simplified])
  qed
qed auto

lemma eval_hole_ok:
  "(\<exists>v. eval_hole db secs wc (FGet p key) = Inr v) \<longleftrightarrow> is_dict (section_of secs p)"
  "(\<exists>v. eval_hole db secs wc (FJoin p key) = Inr v) \<longleftrightarrow>
     is_dict (section_of secs p) \<and> joinable (get_or_null (section_of secs p) key (JList []))"
  "(\<exists>v. eval_hole db secs wc FWebsite = Inr v)"
proof -
  show "(\<exists>v. eval_hole db secs wc (FGet p key) = Inr v) \<longleftrightarrow> is_dict (section_of secs p)"
    using py_get_ok [of "section_of secs p" key JNull] by (auto split: sum.splits)
  show "(\<exists>v. eval_hole db secs wc (FJoin p key) = Inr v) \<longleftrightarrow>
     is_dict (section_of secs p) \<and> joinable (get_or_null (section_of secs p) key (JList []))"
    using py_get_ok [of "section_of secs p" key "JList []"] py_str_join_ok [of "asc '', ''"]
    by (auto simp: get_or_null_def split: sum.splits)
  show "\<exists>v. eval_hole db secs wc FWebsite = Inr v" by simp
qed

lemma template_holes:
  "(\<forall>l\<in>set chatbot_prompt_lines. \<forall>x. Hole x \<in> set l \<longrightarrow> P x) \<longleftrightarrow>
   P (FGet PEvaluation (asc ''rating_scale'')) \<and>
   P (FGet PChatbotStyle (asc ''language'')) \<and> P (FGet PChatbotStyle (asc ''tone'')) \<and>
   P (FGet PChatbotStyle (asc ''personality'')) \<and>
   P (FGet PCompany (asc ''name'')) \<and> P (FGet PCompany (asc ''industry'')) \<and>
   P (FGet PCompany (asc ''size'')) \<and> P (FGet PCompany (asc ''website'')) \<and>
   P (FGet PCompany (asc ''email'')) \<and> P (FGet PCompany (asc ''description'')) \<and>
   P (FGet PEvaluation (asc ''type'')) \<and> P (FGet PEvaluation (asc ''specific_object'')) \<and>
   P (FJoin PEvaluation (asc ''key_topics'')) \<and> P (FJoin PEvaluation (asc ''questions'')) \<and>
   P (FGet PEvaluation (asc ''additional_comments_focus'')) \<and>
   P FWebsite"
  by (simp add: chatbot_prompt_lines_def) blast

lemma generate_Inr_lines:
  assumes "generate_chatbot_prompt db data wc = Inr p"
  obtains c e st rs where
    "py_get data (asc ''company'') (JDict []) = Inr c"
    "py_get data (asc ''evaluation'') (JDict []) = Inr e"
    "py_get data (asc ''chatbot_style'') (JDict []) = Inr st"
    "render_lines (eval_hole db (c, e, st) wc) chatbot_prompt_lines = Inr rs"
    "p = py_join nl rs"
  using assms by (auto simp: generate_chatbot_prompt_def split: sum.splits)

text \<open>Line \<open>i\<close> of the template, rendered, is a piece of the prompt.\<close>

lemma generate_line:
  assumes "generate_chatbot_prompt db data wc = Inr p" "i < length chatbot_prompt_lines"
  obtains c e st r where
    "py_get data (asc ''company'') (JDict []) = Inr c"
    "py_get data (asc ''evaluation'') (JDict []) = Inr e"
    "py_get data (asc ''chatbot_style'') (JDict []) = Inr st"
    "render_segs (eval_hole db (c, e, st) wc) (chatbot_prompt_lines ! i) = Inr r"
    "sublist r p"
proof -
  from assms(1) obtain c e st rs where g:
    "py_get data (asc ''company'') (JDict []) = Inr c"
    "py_get data (asc ''evaluation'') (JDict []) = Inr e"
    "py_get data (asc ''chatbot_style'') (JDict []) = Inr st"
    "render_lines (eval_hole db (c, e, st) wc) chatbot_prompt_lines = Inr rs"
    "p = py_join nl rs"
    by (rule generate_Inr_lines)
  from render_lines_Inr [OF g(4)] assms(2)
  have "render_segs (eval_hole db (c, e, st) wc) (chatbot_prompt_lines ! i) = Inr (rs ! i)"
       "rs ! i \<in> set rs"
    by auto
  with g that show ?thesis by (metis py_join_member)
qed

lemma template_line_facts:
  "length chatbot_prompt_lines = 52"
  "chatbot_prompt_lines ! 14 =
     [Lit (asc ''- Goal: Collect responses from ALL 10 questions before finishing. At the end, provide a summary and export the data in JSON format.'')]"
  "chatbot_prompt_lines ! 22 = [Lit (asc ''### Company Details:'')]"
  "chatbot_prompt_lines ! 24 = [Lit (asc ''- Industry: ''), Hole (FGet PCompany (asc ''industry''))]"
  "chatbot_prompt_lines ! 31 = [Lit (asc ''### Evaluation Details:'')]"
  "chatbot_prompt_lines ! 40 = [Lit (asc ''### Chatbot Style:'')]"
  "chatbot_prompt_lines ! 46 = [Lit (asc ''### Website Content for Additional Information:'')]"
  "chatbot_prompt_lines ! 47 = [Hole FWebsite]"
  by (simp_all add: chatbot_prompt_lines_def)

lemma generate_literal_line:
  "generate_chatbot_prompt db data wc = Inr p \<Longrightarrow> i < length chatbot_prompt_lines \<Longrightarrow>
   chatbot_prompt_lines ! i = [Lit s] \<Longrightarrow> sublist s p"
  by (erule generate_line) auto

text \<open>C7. Whenever the compiler returns a prompt, it contains the four labelled
  sections, and the website text follows its label verbatim on the next line.\<close>

theorem prompt_has_sections:
  assumes "generate_chatbot_prompt db data wc = Inr p"
  shows "sublist (asc ''### Company Details:'') p \<and> sublist (asc ''### Evaluation Details:'') p \<and>
         sublist (asc ''### Chatbot Style:'') p \<and>
         sublist (asc ''### Website Content for Additional Information:'' @ nl @ wc) p"
proof -
  from assms obtain c e st rs where g:
    "render_lines (eval_hole db (c, e, st) wc) chatbot_prompt_lines = Inr rs" "p = py_join nl rs"
    by (rule generate_Inr_lines)
  have R: "length rs = 52"
    "\<And>i. i < 52 \<Longrightarrow> render_segs (eval_hole db (c, e, st) wc) (chatbot_prompt_lines ! i) = Inr (rs ! i)"
    using render_lines_Inr [OF g(1)] template_line_facts(1) by auto
  have "rs ! 46 = asc ''### Website Content for Additional Information:''"
    using R(2) [of 46] by (simp add: template_line_facts)
  moreover have "rs ! 47 = wc"
    using R(2) [of 47] by (simp add: template_line_facts)
  ultimately have "sublist (asc ''### Website Content for Additional Information:'' @ nl @ wc) p"
    using py_join_nth_pair [of 46 rs nl] g(2) R(1) by simp
  moreover have "sublist (asc ''### Company Details:'') p"
    by (rule generate_literal_line [OF assms, of 22]) (simp_all add: template_line_facts)
  moreover have "sublist (asc ''### Evaluation Details:'') p"
    by (rule generate_literal_line [OF assms, of 31]) (simp_all add: template_line_facts)
  moreover have "sublist (asc ''### Chatbot Style:'') p"
    by (rule generate_literal_line [OF assms, of 40]) (simp_all add: template_line_facts)
  ultimately show ?thesis by blast
qed

lemma generate_ok_of_inputs:
  assumes "prompt_inputs_ok data"
  shows "\<exists>p. generate_chatbot_prompt db data wc = Inr p"
proof -
  obtain kvs where data: "data = JDict kvs"
    using assms by (cases data) (auto simp: prompt_inputs_ok_def)
  let ?c = "get_or_null data (asc ''company'') (JDict [])"
  let ?e = "get_or_null data (asc ''evaluation'') (JDict [])"
  let ?s = "get_or_null data (asc ''chatbot_style'') (JDict [])"
  have "\<forall>l\<in>set chatbot_prompt_lines. \<forall>x. Hole x \<in> set l \<longrightarrow> (\<exists>v. eval_hole db (?c, ?e, ?s) wc x = Inr v)"
    using assms by (simp only: template_holes eval_hole_ok section_of.simps) (simp add: prompt_inputs_ok_def)
  then obtain rs where "render_lines (eval_hole db (?c, ?e, ?s) wc) chatbot_prompt_lines = Inr rs"
    using render_lines_ok_iff by blast
  then show ?thesis
    by (simp add: generate_chatbot_prompt_def data py_get_JDict get_or_null_def)
qed

lemma acme_inputs_ok: "prompt_inputs_ok acme_request"
  by (simp add: prompt_inputs_ok_def acme_request_def get_or_null_def py_get_def joinable_def py_iter_def)

text \<open>C8. The compiler returns a prompt exactly when the payload is a dict whose
  company, evaluation and chatbot_style entries are dicts or absent and whose key
  topics and questions are absent or iterables of strings; on any other payload it
  raises (an AttributeError or a TypeError), which only \<open>submit_form\<close>'s handler
  catches.\<close>

theorem prompt_total_on_form_domain:
  "(\<exists>p. generate_chatbot_prompt db data wc = Inr p) \<longleftrightarrow> prompt_inputs_ok data"
proof (cases "is_dict data")
  case True
  then obtain kvs where data: "data = JDict kvs" by (cases data) auto
  let ?c = "get_or_null data (asc ''company'') (JDict [])"
  let ?e = "get_or_null data (asc ''evaluation'') (JDict [])"
  let ?s = "get_or_null data (asc ''chatbot_style'') (JDict [])"
  have "(\<exists>p. generate_chatbot_prompt db data wc = Inr p) \<longleftrightarrow>
        (\<exists>rs. render_lines (eval_hole db (?c, ?e, ?s) wc) chatbot_prompt_lines = Inr rs)"
    by (auto simp: generate_chatbot_prompt_def data py_get_JDict get_or_null_def split: sum.splits)
  also have "\<dots> \<longleftrightarrow>
      (\<forall>l\<in>set chatbot_prompt_lines. \<forall>x. Hole x \<in> set l \<longrightarrow> (\<exists>v. eval_hole db (?c, ?e, ?s) wc x = Inr v))"
    by (rule render_lines_ok_iff)
  also have "\<dots> \<longleftrightarrow> prompt_inputs_ok data"
    by (simp only: template_holes eval_hole_ok section_of.simps) (auto simp: prompt_inputs_ok_def data)
  finally show ?thesis .
next
  case False
  then show ?thesis
    by (cases data) (simp_all add: generate_chatbot_prompt_def py_get_def prompt_inputs_ok_def)
qed

theorem prompt_total_on_form_domain_witness:
  "(\<exists>p. generate_chatbot_prompt sample_db acme_request (asc ''site'') = Inr p) \<and>
   \<not> (\<exists>p. generate_chatbot_prompt sample_db (JDict [(asc ''evaluation'', JNull)]) (asc ''site'') = Inr p)"
proof -
  have "\<not> prompt_inputs_ok (JDict [(asc ''evaluation'', JNull)])"
    by (simp add: prompt_inputs_ok_def get_or_null_def py_get_def)
  with acme_inputs_ok
       prompt_total_on_form_domain [of sample_db acme_request "asc ''site''"]
       prompt_total_on_form_domain [of sample_db "JDict [(asc ''evaluation'', JNull)]" "asc ''site''"]
  show ?thesis by blast
qed

theorem prompt_has_sections_witness:
  "\<exists>p. generate_chatbot_prompt sample_db acme_request (asc ''site'') = Inr p \<and>
       sublist (asc ''### Company Details:'') p \<and> sublist (asc ''### Evaluation Details:'') p \<and>
       sublist (asc ''### Chatbot Style:'') p \<and>
       sublist (asc ''### Website Content for Additional Information:'' @ nl @ asc ''site'') p"
proof -
  obtain p where p: "generate_chatbot_prompt sample_db acme_request (asc ''site'') = Inr p"
    using generate_ok_of_inputs [OF acme_inputs_ok] by blast
  with prompt_has_sections [OF p] show ?thesis by blast
qed

text \<open>C22. An optional field that the form leaves out is rendered as the text
  \<open>None\<close>, not as an empty value: with no \<open>industry\<close> in the company section the
  prompt contains the line \<open>- Industry: None\<close>.\<close>

theorem prompt_absent_fields_render_none:
  assumes "generate_chatbot_prompt db data wc = Inr p"
    and "py_get data (asc ''company'') (JDict []) = Inr (JDict kvs)"
    and "map_of kvs (asc ''industry'') = None"
  shows "sublist (asc ''- Industry: None'') p"
proof -
  obtain c e st r where
    c: "py_get data (asc ''company'') (JDict []) = Inr c" and
    r: "render_segs (eval_hole db (c, e, st) wc) (chatbot_prompt_lines ! 24) = Inr r" and
    sub: "sublist r p"
    by (rule generate_line [OF assms(1), of 24]) (simp_all add: template_line_facts)
  from c assms(2) have "c = JDict kvs" by simp
  with r assms(3) have "r = asc ''- Industry: None''"
    by (simp add: template_line_facts py_get_JDict py_str_def) (simp add: asc_def)
  with sub show ?thesis by simp
qed

theorem prompt_absent_fields_render_none_witness:
  "\<exists>p. generate_chatbot_prompt sample_db acme_request (asc ''site'') = Inr p \<and>
       sublist (asc ''- Industry: None'') p"
proof -
  obtain p where p: "generate_chatbot_prompt sample_db acme_request (asc ''site'') = Inr p"
    using generate_ok_of_inputs [OF acme_inputs_ok] by blast
  have "py_get acme_request (asc ''company'') (JDict []) = Inr (JDict [(asc ''name'', JStr (asc ''Acme''))])"
    by (simp add: acme_request_def py_get_def)
  moreover have "map_of [(asc ''name'', JStr (asc ''Acme''))] (asc ''industry'') = None"
    by (simp add: asc_def)
  ultimately show ?thesis using p prompt_absent_fields_render_none [OF p] by blast
qed

text \<open>C24. Whatever the number of key topics and questions, the prompt instructs the
  chatbot to collect answers to exactly ten questions.\<close>

theorem prompt_fixed_ten_questions:
  "generate_chatbot_prompt db data wc = Inr p \<Longrightarrow>
   sublist (asc ''- Goal: Collect responses from ALL 10 questions before finishing. At the end, provide a summary and export the data in JSON format.'') p"
  by (erule generate_literal_line [of _ _ _ _ 14]) (simp_all add: template_line_facts)

theorem prompt_fixed_ten_questions_witness:
  "\<exists>p. generate_chatbot_prompt sample_db acme_request (asc ''site'') = Inr p \<and>
       sublist (asc ''- Goal: Collect responses from ALL 10 questions before finishing. At the end, provide a summary and export the data in JSON format.'') p"
proof -
  obtain p where p: "generate_chatbot_prompt sample_db acme_request (asc ''site'') = Inr p"
    using generate_ok_of_inputs [OF acme_inputs_ok] by blast
  with prompt_fixed_ten_questions [OF p] show ?thesis by blast
qed

end
