(* ===== verification/Client.thy ===== *)
theory Client
  imports Complex_Main PyJson
begin

text \<open>
  The Generation Client: the call \<open>client.chat.completions.create(...)\<close> of
  \<open>submit_form\<close> (app.py lines 174-181) and the read
  \<open>response.choices[0].message.content\<close> (line 184). The remote service is a
  parameter \<open>chat_api\<close>: for a request it raises (an \<open>APIError\<close>, a timeout, a
  connection error) or returns the list of choices; a choice's message content may
  be \<open>None\<close>. The request is built exactly as the code builds it: model \<open>gpt-4o\<close>, a
  system message and the prompt as the user message, temperature 0.7 (the literal,
  kept as the rational 7/10).
\<close>

record chat_message =
  msg_role :: ustr
  msg_content :: ustr

record chat_request =
  req_model :: ustr
  req_messages :: "chat_message list"
  req_temperature :: rat

record completion_choice =
  choice_content :: "ustr option"

type_synonym chat_api = "chat_request \<Rightarrow> exn + completion_choice list"

text \<open>\<open>"Eisai enas chrisimos voithos pou dimiourgei prompts gia chatbots."\<close> (line 177).\<close>

definition system_prompt :: ustr where
  "system_prompt =
     [917, 943, 963, 945, 953, 32, 941, 957, 945, 962, 32, 967, 961, 942, 963, 953, 956, 959, 962,
      32, 946, 959, 951, 952, 972, 962, 32, 960, 959, 965, 32, 948, 951, 956, 953, 959, 965, 961, 947,
      949, 943, 32] @ asc ''prompts'' @ [32, 947, 953, 945, 32] @ asc ''chatbots.''"

definition chat_request_for :: "ustr \<Rightarrow> chat_request" where
  "chat_request_for prompt_text =
     \<lparr>req_model = asc ''gpt-4o'',
      req_messages = [\<lparr>msg_role = asc ''system'', msg_content = system_prompt\<rparr>,
                      \<lparr>msg_role = asc ''user'', msg_content = prompt_text\<rparr>],
      req_temperature = 7 / 10\<rparr>"

definition create_completion :: "chat_api \<Rightarrow> ustr \<Rightarrow> exn + completion_choice list" where
  "create_completion api prompt_text = api (chat_request_for prompt_text)"

text \<open>\<open>response.choices[0].message.content\<close>: indexing an empty list raises
  \<open>IndexError\<close>; a \<open>None\<close> content is passed on as JSON \<open>null\<close>.\<close>

definition first_choice_content :: "completion_choice list \<Rightarrow> exn + json" where
  "first_choice_content choices =
     (case choices of
        [] \<Rightarrow> Inl (IndexError (asc ''list index out of range''))
      | c # _ \<Rightarrow> Inr (case choice_content c of None \<Rightarrow> JNull | Some s \<Rightarrow> JStr s))"

section \<open>Properties\<close>

lemma chat_request_for_fields:
  "req_model (chat_request_for p) = asc ''gpt-4o''"
  "map msg_role (req_messages (chat_request_for p)) = [asc ''system'', asc ''user'']"
  "map msg_content (req_messages (chat_request_for p)) = [system_prompt, p]"
  "req_temperature (chat_request_for p) = 7 / 10"
  by (simp_all add: chat_request_for_def)

lemma chat_request_for_inj: "chat_request_for p = chat_request_for q \<Longrightarrow> p = q"
  by (simp add: chat_request_for_def)

end
