(* ===== verification/Persist.thy ===== *)
theory Persist
  imports PyJson
begin

text \<open>
  Result persistence of \<open>submit_form\<close> (app.py lines 188-195): the directory
  \<open>chatbot_creation_results\<close> created with \<open>os.makedirs(..., exist_ok=True)\<close>, the
  timestamp \<open>datetime.now().strftime("%Y%m%d_%H%M%S")\<close>, the sanitised company name
  of line 191 (iteration over the name, \<open>isalnum()\<close>, \<open>strip()\<close>, \<open>replace\<close>,
  \<open>lower()\<close>), the path of line 192, and the file written by
  \<open>json.dump(data, f, ensure_ascii=False, indent=2)\<close>. The file system is a record
  of directories and files (path to contents); the failures the operating system can
  report are a record \<open>io_env\<close>. \<open>open(path, 'w')\<close> truncates the file before
  \<open>json.dump\<close> writes it in chunks, so a write that fails part-way leaves behind
  the characters that reached the file before the error.

  Years are rendered with four digits: \<open>%Y\<close> does so for every year from 1000 to
  9999, the range \<open>datetime.now()\<close> returns; earlier years are outside the model
  (their rendering differs between Python versions).
\<close>

section \<open>Timestamp\<close>

record datetime =
  dt_year :: nat
  dt_month :: nat
  dt_day :: nat
  dt_hour :: nat
  dt_minute :: nat
  dt_second :: nat

definition two_digits :: "nat \<Rightarrow> ustr" where
  "two_digits n = [48 + n div 10 mod 10, 48 + n mod 10]"

definition four_digits :: "nat \<Rightarrow> ustr" where
  "four_digits n = [48 + n div 1000 mod 10, 48 + n div 100 mod 10, 48 + n div 10 mod 10, 48 + n mod 10]"

text \<open>\<open>strftime("%Y%m%d_%H%M%S")\<close>.\<close>

definition strftime_ts :: "datetime \<Rightarrow> ustr" where
  "strftime_ts t =
     four_digits (dt_year t) @ two_digits (dt_month t) @ two_digits (dt_day t) @ [95] @
     two_digits (dt_hour t) @ two_digits (dt_minute t) @ two_digits (dt_second t)"

definition valid_datetime :: "datetime \<Rightarrow> bool" where
  "valid_datetime t \<longleftrightarrow>
     1000 \<le> dt_year t \<and> dt_year t \<le> 9999 \<and> 1 \<le> dt_month t \<and> dt_month t \<le> 12 \<and>
     1 \<le> dt_day t \<and> dt_day t \<le> 31 \<and> dt_hour t < 24 \<and> dt_minute t < 60 \<and> dt_second t < 60"

text \<open>Reading a timestamp back: the decoder of the round trip.\<close>

definition is_digit :: "nat \<Rightarrow> bool" where
  "is_digit c \<longleftrightarrow> 48 \<le> c \<and> c \<le> 57"

definition digits_val :: "ustr \<Rightarrow> nat" where
  "digits_val s = foldl (\<lambda>n c. 10 * n + (c - 48)) 0 s"

definition parse_ts :: "ustr \<Rightarrow> datetime option" where
  "parse_ts s =
     (if length s = 15 \<and> s ! 8 = 95 \<and> list_all is_digit (take 8 s) \<and> list_all is_digit (drop 9 s)
      then Some \<lparr>dt_year = digits_val (take 4 s), dt_month = digits_val (take 2 (drop 4 s)),
                 dt_day = digits_val (take 2 (drop 6 s)), dt_hour = digits_val (take 2 (drop 9 s)),
                 dt_minute = digits_val (take 2 (drop 11 s)), dt_second = digits_val (drop 13 s)\<rparr>
      else None)"

section \<open>The sanitised company name\<close>

text \<open>The generator \<open>c for c in company_name if c.isalnum() or c == ' '\<close>: an item
  that is not a string has no \<open>isalnum\<close> method.\<close>

fun keep_name_chars :: "unicode_db \<Rightarrow> json list \<Rightarrow> exn + ustr list" where
  "keep_name_chars db [] = Inr []"
| "keep_name_chars db (JStr c # cs) =
     (case keep_name_chars db cs of
        Inl e \<Rightarrow> Inl e
      | Inr ks \<Rightarrow> Inr (if py_str_isalnum db c \<or> c = [32] then c # ks else ks))"
| "keep_name_chars db (x # cs) =
     Inl (AttributeError (quoted (py_type_name x) @ asc '' object has no attribute '' @
                          quoted (asc ''isalnum'')))"

text \<open>\<open>"".join(...).strip().replace(' ', '_').lower()\<close>; iterating a value that is
  not iterable raises when the generator is created.\<close>

definition safe_company_name :: "unicode_db \<Rightarrow> json \<Rightarrow> exn + ustr" where
  "safe_company_name db company_name =
     (case py_iter company_name of
        None \<Rightarrow> Inl (TypeError (quoted (py_type_name company_name) @ asc '' object is not iterable''))
      | Some items \<Rightarrow>
          (case keep_name_chars db items of
             Inl e \<Rightarrow> Inl e
           | Inr kept \<Rightarrow> Inr (py_lower db (py_replace_char 32 95 (py_strip (concat kept))))))"

definition results_dir :: ustr where
  "results_dir = asc ''chatbot_creation_results''"

text \<open>\<open>os.path.join(output_dir, f"chatbot_spec_{safe_company_name}_{timestamp}.json")\<close>.\<close>

definition result_file_path :: "ustr \<Rightarrow> ustr \<Rightarrow> ustr" where
  "result_file_path safe ts = results_dir @ [47] @ asc ''chatbot_spec_'' @ safe @ [95] @ ts @ asc ''.json''"

section \<open>json.dump with indent=2 and ensure_ascii=False\<close>

text \<open>\<open>py_encode_basestring\<close>: quote, backslash and the control characters are
  escaped, everything else is written as it is.\<close>

definition json_escape_char :: "nat \<Rightarrow> ustr" where
  "json_escape_char c =
     (if c = 34 then [92, 34] else if c = 92 then [92, 92]
      else if c = 10 then [92, 110] else if c = 13 then [92, 114] else if c = 9 then [92, 116]
      else if c = 8 then [92, 98] else if c = 12 then [92, 102]
      else if c < 32 then [92, 117] @ hex_pad 4 c
      else [c])"

definition json_str :: "ustr \<Rightarrow> ustr" where
  "json_str s = [34] @ concat (map json_escape_char s) @ [34]"

definition indent_str :: "nat \<Rightarrow> ustr" where
  "indent_str l = replicate (2 * l) 32"

text \<open>\<open>_make_iterencode\<close> with indent 2 at nesting level \<open>l\<close>: items separated by
  \<open>","\<close> and a newline, keys by \<open>": "\<close>, empty containers as \<open>[]\<close> and \<open>{}\<close>.\<close>

fun json_dump :: "nat \<Rightarrow> json \<Rightarrow> ustr" where
  "json_dump l JNull = asc ''null''"
| "json_dump l (JBool b) = (if b then asc ''true'' else asc ''false'')"
| "json_dump l (JInt i) = int_str i"
| "json_dump l (JStr s) = json_str s"
| "json_dump l (JList xs) =
     (if xs = [] then asc ''[]''
      else [91] @ nl @ indent_str (Suc l) @
           py_join ([44] @ nl @ indent_str (Suc l)) (map (json_dump (Suc l)) xs) @
           nl @ indent_str l @ [93])"
| "json_dump l (JDict kvs) =
     (if kvs = [] then asc ''{}''
      else [123] @ nl @ indent_str (Suc l) @
           py_join ([44] @ nl @ indent_str (Suc l))
             (map (\<lambda>kv. json_str (fst kv) @ asc '': '' @ json_dump (Suc l) (snd kv)) kvs) @
           nl @ indent_str l @ [125])"

section \<open>The file system\<close>

record fs_state =
  fs_dirs :: "ustr list"
  fs_files :: "ustr \<Rightarrow> ustr option"

text \<open>The outcome of each OS call: the error \<open>os.makedirs\<close> or \<open>open\<close> raises, if
  any, and for the write the error with the number of characters of the text that
  reached the file before it: \<open>json.dump\<close> writes the text chunk by chunk through
  the file's buffer, and leaving the \<open>with\<close> block closes the file, flushing what
  was buffered (ENOSPC on a later flush, or an encode error, leaves a prefix).\<close>

record io_env =
  io_mkdir_error :: "exn option"
  io_open_error :: "exn option"
  io_write_error :: "(nat \<times> exn) option"

text \<open>\<open>os.makedirs(d, exist_ok=True)\<close>: nothing to do for an existing directory;
  a file in the way raises \<open>FileExistsError\<close>.\<close>

definition makedirs_exist_ok :: "io_env \<Rightarrow> ustr \<Rightarrow> fs_state \<Rightarrow> exn + fs_state" where
  "makedirs_exist_ok io d fs =
     (if d \<in> set (fs_dirs fs) then Inr fs
      else if fs_files fs d \<noteq> None then Inl (OSError (asc ''[Errno 17] File exists: '' @ quoted d))
      else (case io_mkdir_error io of
              Some e \<Rightarrow> Inl e
            | None \<Rightarrow> Inr (fs\<lparr>fs_dirs := fs_dirs fs @ [d]\<rparr>)))"

text \<open>\<open>with open(path, 'w', encoding='utf-8') as f: json.dump(v, f, ...)\<close>: \<open>open\<close>
  truncates the file; a failed write leaves what reached it, with no rollback.\<close>

definition write_json_file :: "io_env \<Rightarrow> ustr \<Rightarrow> json \<Rightarrow> fs_state \<Rightarrow> (exn + unit) \<times> fs_state" where
  "write_json_file io path v fs =
     (case io_open_error io of
        Some e \<Rightarrow> (Inl e, fs)
      | None \<Rightarrow>
          (case io_write_error io of
             Some (k, e) \<Rightarrow> (Inl e, fs\<lparr>fs_files := (fs_files fs)(path \<mapsto> take k (json_dump 0 v))\<rparr>)
           | None \<Rightarrow> (Inr (), fs\<lparr>fs_files := (fs_files fs)(path \<mapsto> json_dump 0 v)\<rparr>)))"

section \<open>Reference for ASCII names\<close>

text \<open>The rule of the spec for names in ASCII: keep letters, digits and spaces,
  trim spaces at both ends, turn each space into an underscore, lowercase.\<close>

definition strip_spaces :: "ustr \<Rightarrow> ustr" where
  "strip_spaces s = rev (dropWhile (\<lambda>c. c = 32) (rev (dropWhile (\<lambda>c. c = 32) s)))"

definition ascii_sanitize :: "ustr \<Rightarrow> ustr" where
  "ascii_sanitize s =
     map (\<lambda>c. if c = 32 then 95 else ascii_lower c) (strip_spaces (filter (\<lambda>c. ascii_alnum c \<or> c = 32) s))"

section \<open>Properties of the timestamp\<close>

lemma digits_val_two: "n < 100 \<Longrightarrow> digits_val (two_digits n) = n"
  by (simp add: digits_val_def two_digits_def)

lemma mod10_le9: "(n::nat) mod 10 \<le> 9"
  by simp

lemma digits_val_four: "n < 10000 \<Longrightarrow> digits_val (four_digits n) = n"
proof -
  assume n: "n < 10000"
  have a: "n mod (10 * 10) = 10 * (n div 10 mod 10) + n mod 10" by (rule mod_mult2_eq)
  have b: "n mod (100 * 10) = 100 * (n div 100 mod 10) + n mod 100" by (rule mod_mult2_eq)
  have c: "n mod (1000 * 10) = 1000 * (n div 1000 mod 10) + n mod 1000" by (rule mod_mult2_eq)
  have "n mod 10000 = n" using n by simp
  with a b c show ?thesis by (simp add: digits_val_def four_digits_def)
qed

lemma strftime_ts_explicit:
  "strftime_ts t =
     [48 + dt_year t div 1000 mod 10, 48 + dt_year t div 100 mod 10, 48 + dt_year t div 10 mod 10,
      48 + dt_year t mod 10, 48 + dt_month t div 10 mod 10, 48 + dt_month t mod 10,
      48 + dt_day t div 10 mod 10, 48 + dt_day t mod 10, 95,
      48 + dt_hour t div 10 mod 10, 48 + dt_hour t mod 10, 48 + dt_minute t div 10 mod 10,
      48 + dt_minute t mod 10, 48 + dt_second t div 10 mod 10, 48 + dt_second t mod 10]"
  by (simp add: strftime_ts_def two_digits_def four_digits_def)

text \<open>C13. For every date and time \<open>datetime.now()\<close> can return (years 1000 to
  9999), the timestamp has fifteen characters and determines the second it was taken
  in: reading it back gives the same date and time.\<close>

theorem timestamp_roundtrip:
  assumes "valid_datetime t"
  shows "length (strftime_ts t) = 15 \<and> parse_ts (strftime_ts t) = Some t"
proof -
  have digits: "list_all is_digit (take 8 (strftime_ts t)) \<and> list_all is_digit (drop 9 (strftime_ts t))"
    by (simp add: strftime_ts_explicit is_digit_def mod10_le9)
  have y: "digits_val (take 4 (strftime_ts t)) = dt_year t"
    using assms digits_val_four [of "dt_year t"]
    by (simp add: strftime_ts_def valid_datetime_def four_digits_def)
  have fields: "digits_val (take 2 (drop 4 (strftime_ts t))) = dt_month t"
    "digits_val (take 2 (drop 6 (strftime_ts t))) = dt_day t"
    "digits_val (take 2 (drop 9 (strftime_ts t))) = dt_hour t"
    "digits_val (take 2 (drop 11 (strftime_ts t))) = dt_minute t"
    "digits_val (drop 13 (strftime_ts t)) = dt_second t"
    using assms digits_val_two [of "dt_month t"] digits_val_two [of "dt_day t"]
      digits_val_two [of "dt_hour t"] digits_val_two [of "dt_minute t"] digits_val_two [of "dt_second t"]
    by (simp_all add: strftime_ts_def valid_datetime_def two_digits_def four_digits_def)
  have "length (strftime_ts t) = 15" "strftime_ts t ! 8 = 95"
    by (simp_all add: strftime_ts_explicit)
  with digits y fields show ?thesis by (simp add: parse_ts_def)
qed

definition sample_time :: datetime where
  "sample_time = \<lparr>dt_year = 2025, dt_month = 3, dt_day = 7, dt_hour = 9, dt_minute = 5, dt_second = 42\<rparr>"

theorem timestamp_roundtrip_witness:
  "valid_datetime sample_time \<and> strftime_ts sample_time = asc ''20250307_090542'' \<and>
   parse_ts (strftime_ts sample_time) = Some sample_time"
proof -
  have v: "valid_datetime sample_time"
    by (simp add: valid_datetime_def sample_time_def)
  have "strftime_ts sample_time = asc ''20250307_090542''"
    by (simp add: strftime_ts_explicit sample_time_def asc_def)
  with v timestamp_roundtrip [OF v] show ?thesis by simp
qed

section \<open>Properties of the sanitised name\<close>

lemma py_str_isalnum_single [simp]: "py_str_isalnum db [c] = ucd_isalnum db c"
  by (simp add: py_str_isalnum_def)

lemma keep_name_chars_str:
  "keep_name_chars db (map (\<lambda>c. JStr [c]) s) =
   Inr (map (\<lambda>c. [c]) (filter (\<lambda>c. ucd_isalnum db c \<or> c = 32) s))"
  by (induction s) auto

text \<open>For a string name the generator is a filter on its characters.\<close>

lemma safe_company_name_str:
  "safe_company_name db (JStr s) =
   Inr (py_lower db (py_replace_char 32 95 (py_strip (filter (\<lambda>c. ucd_isalnum db c \<or> c = 32) s))))"
  by (simp add: safe_company_name_def py_iter_def keep_name_chars_str concat_map_singleton_id)

lemma alnum_not_space: "ascii_alnum c \<Longrightarrow> \<not> py_isspace c"
  by (auto simp: ascii_alnum_def py_isspace_def)

lemma py_strip_alnum_spaces:
  assumes "\<forall>c\<in>set t. ascii_alnum c \<or> c = 32"
  shows "py_strip t = strip_spaces t"
proof -
  have sp: "\<forall>c\<in>set t. py_isspace c \<longleftrightarrow> c = 32"
    using assms alnum_not_space by fastforce
  then have d: "dropWhile py_isspace t = dropWhile (\<lambda>c. c = 32) t"
    by (intro dropWhile_cong) auto
  have "set (rev (dropWhile (\<lambda>c. c = 32) t)) \<subseteq> set t"
    by (auto dest: set_dropWhileD)
  with sp have "dropWhile py_isspace (rev (dropWhile (\<lambda>c. c = 32) t)) =
                dropWhile (\<lambda>c. c = 32) (rev (dropWhile (\<lambda>c. c = 32) t))"
    by (intro dropWhile_cong) auto
  with d show ?thesis by (simp add: py_strip_def strip_spaces_def)
qed

lemma strip_spaces_subset: "set (strip_spaces t) \<subseteq> set t"
proof
  fix x
  assume "x \<in> set (strip_spaces t)"
  then have "x \<in> set (rev (dropWhile (\<lambda>c. c = 32) t))"
    unfolding strip_spaces_def by (auto dest: set_dropWhileD)
  then show "x \<in> set t" by (auto dest: set_dropWhileD)
qed

lemma safe_company_name_ascii:
  assumes db: "ascii_conform db" and s: "\<forall>c\<in>set s. c < 128"
  shows "safe_company_name db (JStr s) = Inr (ascii_sanitize s)"
proof -
  let ?f = "filter (\<lambda>c. ascii_alnum c \<or> c = 32) s"
  have f: "filter (\<lambda>c. ucd_isalnum db c \<or> c = 32) s = ?f"
    using db s by (intro filter_cong) (auto simp: ascii_conformD)
  have st: "py_strip ?f = strip_spaces ?f"
    by (rule py_strip_alnum_spaces) auto
  have ascii: "\<forall>c\<in>set (py_replace_char 32 95 (strip_spaces ?f)). c < 128"
    using s strip_spaces_subset [of ?f] by (auto simp: py_replace_char_def)
  have "py_lower db (py_replace_char 32 95 (strip_spaces ?f)) = ascii_sanitize s"
    using py_lower_ascii [OF db ascii]
    by (simp add: ascii_sanitize_def py_replace_char_def ascii_lower_def)
  then show ?thesis
    by (simp add: safe_company_name_str f st)
qed

text \<open>C14. For a name in ASCII the sanitiser implements the spec's rule exactly:
  letters, digits and spaces kept, spaces trimmed at both ends, every remaining space
  an underscore (runs of spaces are not merged), letters lowercased; the result uses
  only \<open>a-z\<close>, \<open>0-9\<close> and \<open>_\<close>.\<close>

theorem sanitize_ascii_name:
  assumes db: "ascii_conform db" and s: "\<forall>c\<in>set s. c < 128"
  shows "safe_company_name db (JStr s) = Inr (ascii_sanitize s) \<and>
         (\<forall>c\<in>set (ascii_sanitize s). is_digit c \<or> (97 \<le> c \<and> c \<le> 122) \<or> c = 95)"
proof -
  let ?f = "filter (\<lambda>c. ascii_alnum c \<or> c = 32) s"
  have "c \<in> set (ascii_sanitize s) \<Longrightarrow> is_digit c \<or> (97 \<le> c \<and> c \<le> 122) \<or> c = 95" for c
    using strip_spaces_subset [of ?f]
    by (auto simp: ascii_sanitize_def ascii_lower_def ascii_alnum_def is_digit_def)
  with safe_company_name_ascii [OF db s] show ?thesis by blast
qed

theorem sanitize_ascii_name_witness:
  "safe_company_name sample_db (JStr (asc ''  Acme  Corp! 2024 '')) = Inr (asc ''acme__corp_2024'')"
proof -
  note db = sample_db_ascii_conform
  have s: "\<forall>c\<in>set (asc ''  Acme  Corp! 2024 ''). c < 128"
    by (simp add: asc_def)
  have "ascii_sanitize (asc ''  Acme  Corp! 2024 '') = asc ''acme__corp_2024''"
    by (simp add: ascii_sanitize_def strip_spaces_def ascii_alnum_def ascii_lower_def asc_def)
  with sanitize_ascii_name [OF db s] show ?thesis by simp
qed

text \<open>C15. The sanitiser keeps every character Python calls alphanumeric, not only
  \<open>A-Za-z0-9\<close>: in every Unicode database in which capital omega is a letter
  lowercasing to small omega (as in all of them), \<open>"\<Omega>mega Corp! 2024"\<close> becomes
  \<open>"\<omega>mega_corp_2024"\<close>, not the spec's \<open>"omega_corp_2024"\<close>.\<close>

theorem sanitize_keeps_unicode_alnum:
  assumes db: "ascii_conform db" and omega: "ucd_isalnum db 937" "ucd_lower_full db 937 = [969]"
  shows "safe_company_name db (JStr (937 # asc ''mega Corp! 2024'')) = Inr (969 # asc ''mega_corp_2024'')
         \<and> 969 # asc ''mega_corp_2024'' \<noteq> asc ''omega_corp_2024''"
proof -
  have f: "filter (\<lambda>c. ucd_isalnum db c \<or> c = 32) (asc ''mega Corp! 2024'') = asc ''mega Corp 2024''"
    using db by (simp add: asc_def ascii_conformD ascii_alnum_def)
  have st: "py_strip (937 # asc ''mega Corp 2024'') = 937 # asc ''mega Corp 2024''"
    by (simp add: py_strip_def py_isspace_def asc_def)
  have r: "py_replace_char 32 95 (937 # asc ''mega Corp 2024'') = 937 # asc ''mega_Corp_2024''"
    by (simp add: py_replace_char_def asc_def)
  have "py_lower db (937 # asc ''mega_Corp_2024'') = 969 # asc ''mega_corp_2024''"
  proof -
    have "\<forall>c\<in>set (asc ''mega_Corp_2024''). c < 128" by (simp add: asc_def)
    then have "lower_go db [937] (asc ''mega_Corp_2024'') = map ascii_lower (asc ''mega_Corp_2024'')"
      using db by (rule lower_go_ascii [rotated])
    also have "\<dots> = asc ''mega_corp_2024''"
      by (simp add: asc_def ascii_lower_def)
    finally show ?thesis using omega by (simp add: py_lower_def)
  qed
  with omega f st r show ?thesis
    by (simp add: safe_company_name_str) (simp add: asc_def)
qed

theorem sanitize_keeps_unicode_alnum_witness:
  "safe_company_name sample_db (JStr (937 # asc ''mega Corp! 2024'')) = Inr (969 # asc ''mega_corp_2024'')"
proof -
  note db = sample_db_ascii_conform
  have "ucd_isalnum sample_db 937" "ucd_lower_full sample_db 937 = [969]"
    by (simp_all add: sample_db_def)
  with sanitize_keeps_unicode_alnum [OF db] show ?thesis by blast
qed

section \<open>The length of the file name\<close>

lemma length_strip_spaces: "length (strip_spaces t) \<le> length t"
proof -
  have "length (dropWhile (\<lambda>c. c = 32) (rev (dropWhile (\<lambda>c. c = 32) t))) \<le> length t"
    using length_dropWhile_le [of "\<lambda>c. c = 32" "rev (dropWhile (\<lambda>c. c = 32) t)"]
          length_dropWhile_le [of "\<lambda>c. c = 32" t] by simp
  then show ?thesis by (simp add: strip_spaces_def)
qed

lemma length_ascii_sanitize: "length (ascii_sanitize s) \<le> length s"
proof -
  have "length (strip_spaces (filter (\<lambda>c. ascii_alnum c \<or> c = 32) s)) \<le> length s"
    using length_strip_spaces length_filter_le le_trans by blast
  then show ?thesis by (simp add: ascii_sanitize_def)
qed

lemma length_strftime_ts [simp]: "length (strftime_ts t) = 15"
  by (simp add: strftime_ts_explicit)

text \<open>C32. For a company name in ASCII the sanitised name is no longer than the name,
  and the base name of the result file, \<open>chatbot_spec_<name>_<timestamp>.json\<close>,
  has exactly 34 characters (bytes) more than the sanitised name: a name whose
  sanitised form exceeds 221 characters yields a base name beyond the 255 bytes a
  Linux file name may have, and \<open>open()\<close> then fails.\<close>

theorem result_file_name_length:
  assumes "ascii_conform db" "\<forall>c\<in>set s. c < 128"
  shows "\<exists>safe base. safe_company_name db (JStr s) = Inr safe \<and> length safe \<le> length s \<and>
           result_file_path safe (strftime_ts t) = results_dir @ [47] @ base \<and>
           length base = length safe + 34"
proof -
  have "result_file_path (ascii_sanitize s) (strftime_ts t) =
        results_dir @ [47] @ (asc ''chatbot_spec_'' @ ascii_sanitize s @ [95] @ strftime_ts t @ asc ''.json'')"
    by (simp add: result_file_path_def)
  then show ?thesis
    using safe_company_name_ascii [OF assms] length_ascii_sanitize [of s] by (auto simp: asc_def)
qed

theorem result_file_name_length_witness:
  "\<exists>safe base. safe_company_name sample_db (JStr (asc ''Acme'')) = Inr safe \<and>
     length safe \<le> length (asc ''Acme'') \<and>
     result_file_path safe (strftime_ts sample_time) = results_dir @ [47] @ base \<and>
     length base = length safe + 34"
  using result_file_name_length [OF sample_db_ascii_conform, of "asc ''Acme''" sample_time]
  by (simp add: asc_def)

end
