(* ===== verification/Orchestrator.thy ===== *)
theory Orchestrator
  imports Scraper Prompt Client Persist
begin

text \<open>
  The Orchestrator: the route \<open>submit_form\<close> (app.py lines 147-207). The world the
  handler changes is a record: the file system, the events of the browser sessions
  and the requests sent to the chat-completion API, each appended in the order the
  code performs them. Everything the handler reads from outside (the browser, the
  API, the clock, the Unicode database, the outcome of each file operation) is a
  record \<open>app_env\<close>. The body of the \<open>try\<close> block (lines 163-203) is a chain of
  steps in an exception-and-state combinator \<open>sbind\<close>: the first exception skips
  the remaining steps and keeps the effects already made, as in Python.
\<close>

record app_env =
  env_browser :: browser_env
  env_api :: chat_api
  env_now :: datetime
  env_ucd :: unicode_db
  env_io :: io_env

record world =
  w_fs :: fs_state
  w_browser :: "browser_event list"
  w_api_calls :: "chat_request list"

text \<open>What Flask hands to the route: whether the content type is JSON, and the
  decoded body (\<open>None\<close> when the body does not parse, which \<open>get_json\<close> turns into
  a 400 Bad Request).\<close>

record http_request =
  req_is_json :: bool
  req_body :: "json option"

text \<open>A \<open>jsonify(body), status\<close> response, or the error page Flask sends for an
  exception the route does not catch.\<close>

datatype http_response = JsonResponse json nat | FlaskError nat

type_synonym 'a action = "world \<Rightarrow> (exn + 'a) \<times> world"

definition sbind :: "'a action \<Rightarrow> ('a \<Rightarrow> 'b action) \<Rightarrow> 'b action" where
  "sbind m f w = (case m w of (Inl e, w') \<Rightarrow> (Inl e, w') | (Inr a, w') \<Rightarrow> f a w')"

definition sreturn :: "'a \<Rightarrow> 'a action" where
  "sreturn a w = (Inr a, w)"

text \<open>A step without effects that may raise.\<close>

definition pure_step :: "exn + 'a \<Rightarrow> 'a action" where
  "pure_step r w = (r, w)"

section \<open>The messages of the route\<close>

text \<open>\<open>"Apaitountai dedomena JSON."\<close> (line 153).\<close>

definition not_json_msg :: ustr where
  "not_json_msg = [913, 960, 945, 953, 964, 959, 973, 957, 964, 945, 953, 32, 948, 949, 948, 959,
     956, 941, 957, 945, 32] @ asc ''JSON.''"

text \<open>\<open>"To onoma tis etairias einai ypochreotiko."\<close> (line 161).\<close>

definition name_required_msg :: ustr where
  "name_required_msg = [932, 959, 32, 972, 957, 959, 956, 945, 32, 964, 951, 962, 32, 949, 964, 945,
     953, 961, 943, 945, 962, 32, 949, 943, 957, 945, 953, 32, 965, 960, 959, 967, 961, 949, 969,
     964, 953, 954, 972, 46]"

text \<open>\<open>"Den dothike website."\<close> (line 165).\<close>

definition no_website_msg :: ustr where
  "no_website_msg = [916, 949, 957, 32, 948, 972, 952, 951, 954, 949, 32] @ asc ''website.''"

text \<open>\<open>"To prompt dimiourgithike kai apothikeftike me epitychia!"\<close> (line 200).\<close>

definition success_msg :: ustr where
  "success_msg = [932, 959, 32] @ asc ''prompt'' @ [32, 948, 951, 956, 953, 959, 965, 961, 947, 942,
     952, 951, 954, 949, 32, 954, 945, 953, 32, 945, 960, 959, 952, 951, 954, 949, 973, 964, 951,
     954, 949, 32, 956, 949, 32, 949, 960, 953, 964, 965, 967, 943, 945, 33]"

text \<open>\<open>"Parousiastike sfalma kata tin epexergasia: "\<close> (line 207).\<close>

definition processing_error_prefix :: ustr where
  "processing_error_prefix = [928, 945, 961, 959, 965, 963, 953, 940, 963, 964, 951, 954, 949, 32,
     963, 966, 940, 955, 956, 945, 32, 954, 945, 964, 940, 32, 964, 951, 957, 32, 949, 960, 949,
     958, 949, 961, 947, 945, 963, 943, 945, 58, 32]"

definition error_body :: "ustr \<Rightarrow> json" where
  "error_body msg = JDict [(asc ''ok'', JBool False), (asc ''error'', JStr msg)]"

definition success_body :: "ustr \<Rightarrow> json \<Rightarrow> json" where
  "success_body file_path content =
     JDict [(asc ''ok'', JBool True), (asc ''message'', JStr success_msg),
            (asc ''file'', JStr file_path), (asc ''generated_prompt'', content)]"

section \<open>The steps of the try block\<close>

text \<open>Step 1 (lines 165-168): scrape only when the URL is truthy.\<close>

definition fetch_website :: "app_env \<Rightarrow> json \<Rightarrow> ustr action" where
  "fetch_website env website_url w =
     (if py_truthy website_url
      then (let (scraper, ev) = WebsiteScraper (env_browser env) website_url
            in (Inr (scraper_content scraper), w\<lparr>w_browser := w_browser w @ ev\<rparr>))
      else (Inr no_website_msg, w))"

text \<open>Step 3 (lines 174-181): the request is sent, and recorded, before its outcome
  is known.\<close>

definition call_generation_api :: "app_env \<Rightarrow> ustr \<Rightarrow> completion_choice list action" where
  "call_generation_api env prompt_text w =
     (create_completion (env_api env) prompt_text,
      w\<lparr>w_api_calls := w_api_calls w @ [chat_request_for prompt_text]\<rparr>)"

definition make_results_dir :: "app_env \<Rightarrow> unit action" where
  "make_results_dir env w =
     (case makedirs_exist_ok (env_io env) results_dir (w_fs w) of
        Inl e \<Rightarrow> (Inl e, w)
      | Inr fs \<Rightarrow> (Inr (), w\<lparr>w_fs := fs\<rparr>))"

definition save_result :: "app_env \<Rightarrow> ustr \<Rightarrow> json \<Rightarrow> unit action" where
  "save_result env file_path data w =
     (let (r, fs) = write_json_file (env_io env) file_path data (w_fs w) in (r, w\<lparr>w_fs := fs\<rparr>))"

text \<open>Lines 163-203 in the order of the code: fetch, compile, call, read the first
  choice, store it in the request, create the directory, take the time, sanitise the
  name, write the file, answer.\<close>

definition process_submission :: "app_env \<Rightarrow> json \<Rightarrow> json \<Rightarrow> json \<Rightarrow> json action" where
  "process_submission env data company_name website_url =
     sbind (fetch_website env website_url) (\<lambda>website_content.
     sbind (pure_step (generate_chatbot_prompt (env_ucd env) data website_content)) (\<lambda>prompt_text.
     sbind (call_generation_api env prompt_text) (\<lambda>choices.
     sbind (pure_step (first_choice_content choices)) (\<lambda>api_response_content.
     sbind (pure_step (py_setitem data (asc ''generated_prompt'') api_response_content)) (\<lambda>data'.
     sbind (make_results_dir env) (\<lambda>_.
     (let timestamp = strftime_ts (env_now env) in
     sbind (pure_step (safe_company_name (env_ucd env) company_name)) (\<lambda>safe.
     (let file_path = result_file_path safe timestamp in
     sbind (save_result env file_path data') (\<lambda>_.
     sreturn (success_body file_path api_response_content)))))))))))"

section \<open>The route\<close>

text \<open>Lines 147-207. The \<open>get\<close> calls before the \<open>try\<close> raise on a body or a
  \<open>company\<close> value that is not a dict; Flask answers those with a 500 page. An
  exception inside the \<open>try\<close> becomes a JSON error with status 500.\<close>

definition submit_form :: "app_env \<Rightarrow> http_request \<Rightarrow> world \<Rightarrow> http_response \<times> world" where
  "submit_form env req w =
     (if \<not> req_is_json req then (JsonResponse (error_body not_json_msg) 400, w)
      else case req_body req of
        None \<Rightarrow> (FlaskError 400, w)
      | Some data \<Rightarrow>
     (case py_get data (asc ''company'') (JDict []) of
        Inl e \<Rightarrow> (FlaskError 500, w)
      | Inr company_data \<Rightarrow>
     (case py_get company_data (asc ''name'') JNull of
        Inl e \<Rightarrow> (FlaskError 500, w)
      | Inr company_name \<Rightarrow>
     (case py_get company_data (asc ''website'') JNull of
        Inl e \<Rightarrow> (FlaskError 500, w)
      | Inr website_url \<Rightarrow>
     (if \<not> py_truthy company_name
      then (JsonResponse (error_body name_required_msg) 400, w)
      else (case process_submission env data company_name website_url w of
              (Inl e, w') \<Rightarrow> (JsonResponse (error_body (processing_error_prefix @ exn_str e)) 500, w')
            | (Inr body, w') \<Rightarrow> (JsonResponse body 200, w')))))))"

text \<open>Lines 155-156, \<open>data.get('company', {}).get('name')\<close>, as one value.\<close>

definition form_company_name :: "json \<Rightarrow> exn + json" where
  "form_company_name data =
     (case py_get data (asc ''company'') (JDict []) of
        Inl e \<Rightarrow> Inl e
      | Inr company_data \<Rightarrow> py_get company_data (asc ''name'') JNull)"

section \<open>Concrete inputs\<close>

definition acme_submission :: http_request where
  "acme_submission = \<lparr>req_is_json = True, req_body = Some acme_request\<rparr>"

definition acme_answer :: ustr where
  "acme_answer = asc ''You are the assistant of Acme.''"

definition sample_env :: app_env where
  "sample_env =
     \<lparr>env_browser = sample_browser,
      env_api = (\<lambda>r. Inr [\<lparr>choice_content = Some acme_answer\<rparr>]),
      env_now = sample_time, env_ucd = sample_db,
      env_io = \<lparr>io_mkdir_error = None, io_open_error = None, io_write_error = None\<rparr>\<rparr>"

definition empty_world :: world where
  "empty_world = \<lparr>w_fs = \<lparr>fs_dirs = [], fs_files = Map.empty\<rparr>, w_browser = [], w_api_calls = []\<rparr>"



section \<open>The combinator and the steps\<close>

lemma sbind_Inr [simp]: "m w = (Inr a, w') \<Longrightarrow> sbind m f w = f a w'"
  by (simp add: sbind_def)

lemma sbind_Inl [simp]: "m w = (Inl e, w') \<Longrightarrow> sbind m f w = (Inl e, w')"
  by (simp add: sbind_def)

text \<open>Fetching never raises: the scraper turns every failure into a fallback
  text, and only the browser's event log changes.\<close>

lemma fetch_website_ok: "\<exists>c ev. fetch_website env url w = (Inr c, w\<lparr>w_browser := w_browser w @ ev\<rparr>)"
proof (cases "py_truthy url")
  case True
  then show ?thesis by (auto simp: fetch_website_def WebsiteScraper_def split: prod.splits)
next
  case False
  then show ?thesis by (intro exI [of _ no_website_msg] exI [of _ "[]"]) (simp add: fetch_website_def)
qed

lemma fetch_website_falsy: "\<not> py_truthy url \<Longrightarrow> fetch_website env url w = (Inr no_website_msg, w)"
  by (simp add: fetch_website_def)

lemma fetch_website_content:
  "fetch_website env url w = (Inr c, w') \<Longrightarrow>
   c = (if py_truthy url then fst (scrape_website (env_browser env) url) else no_website_msg)"
  by (auto simp: fetch_website_def WebsiteScraper_def split: prod.splits if_splits)

lemma py_setitem_Inr:
  "py_setitem data key v = Inr d' \<Longrightarrow> \<exists>kvs. data = JDict kvs \<and> d' = JDict (dict_set kvs key v)"
  by (cases data) (auto simp: py_setitem_def)

lemma prompt_inputs_setitem:
  "prompt_inputs_ok data \<Longrightarrow>
   \<exists>kvs. data = JDict kvs \<and> (\<forall>k v. py_setitem data k v = Inr (JDict (dict_set kvs k v)))"
  by (cases data) (auto simp: prompt_inputs_ok_def py_setitem_def)

lemma makedirs_ok:
  "io_mkdir_error io = None \<Longrightarrow> fs_files fs d = None \<Longrightarrow>
   makedirs_exist_ok io d fs = Inr (if d \<in> set (fs_dirs fs) then fs else fs\<lparr>fs_dirs := fs_dirs fs @ [d]\<rparr>)"
  by (simp add: makedirs_exist_ok_def)

lemma success_body_file: "py_get (success_body path c) (asc ''file'') JNull = Inr (JStr path)"
  by (simp add: success_body_def py_get_JDict)

lemma acme_safe_name: "ascii_conform db \<Longrightarrow> safe_company_name db (JStr (asc ''Acme'')) = Inr (asc ''acme'')"
  by (simp add: safe_company_name_str asc_def ascii_conformD ascii_alnum_def py_strip_def py_isspace_def
      py_replace_char_def py_lower_ascii ascii_lower_def)

lemma acme_company:
  "py_get acme_request (asc ''company'') (JDict []) = Inr (JDict [(asc ''name'', JStr (asc ''Acme''))])"
  by (simp add: acme_request_def py_get_JDict)

lemmas submission_steps = pure_step_def sreturn_def call_generation_api_def create_completion_def
  make_results_dir_def save_result_def

lemmas process_unfold = process_submission_def sbind_def Let_def submission_steps write_json_file_def
  first_choice_content_def

section \<open>Runs of the route\<close>

text \<open>A request that passes the guards of lines 152-161 reaches the \<open>try\<close> block,
  and on a payload the compiler accepts the prompt is compiled.\<close>

lemma submit_form_after_prompt:
  assumes "req_is_json req" "req_body req = Some data" "prompt_inputs_ok data"
    "py_get data (asc ''company'') (JDict []) = Inr company"
    "py_get company (asc ''name'') JNull = Inr name" "py_truthy name"
  shows "\<exists>url c ev p. fetch_website env url w = (Inr c, w\<lparr>w_browser := w_browser w @ ev\<rparr>) \<and>
    generate_chatbot_prompt (env_ucd env) data c = Inr p \<and>
    submit_form env req w =
      (case process_submission env data name url w of
         (Inl e, w') \<Rightarrow> (JsonResponse (error_body (processing_error_prefix @ exn_str e)) 500, w')
       | (Inr body, w') \<Rightarrow> (JsonResponse body 200, w'))"
proof -
  obtain url where U: "py_get company (asc ''website'') JNull = Inr url"
    using assms(5) py_get_ok by blast
  obtain c ev where F: "fetch_website env url w = (Inr c, w\<lparr>w_browser := w_browser w @ ev\<rparr>)"
    using fetch_website_ok by blast
  obtain p where "generate_chatbot_prompt (env_ucd env) data c = Inr p"
    using generate_ok_of_inputs assms(3) by blast
  with F U assms(1,2,4-6) show ?thesis by (auto simp: submit_form_def)
qed

lemma submit_form_200:
  assumes "submit_form env req w = (JsonResponse body 200, w')"
  shows "\<exists>data company name url. req_body req = Some data \<and>
    py_get data (asc ''company'') (JDict []) = Inr company \<and>
    py_get company (asc ''name'') JNull = Inr name \<and>
    py_get company (asc ''website'') JNull = Inr url \<and>
    process_submission env data name url w = (Inr body, w')"
  using assms by (auto simp: submit_form_def split: if_splits option.splits sum.splits prod.splits)

text \<open>What a successful run of the \<open>try\<close> block did, step by step.\<close>

lemma process_submission_success:
  assumes "process_submission env data name url w = (Inr body, w')"
  shows "\<exists>c ev p choices content d' safe.
    fetch_website env url w = (Inr c, w\<lparr>w_browser := w_browser w @ ev\<rparr>) \<and>
    generate_chatbot_prompt (env_ucd env) data c = Inr p \<and>
    env_api env (chat_request_for p) = Inr choices \<and>
    first_choice_content choices = Inr content \<and>
    py_setitem data (asc ''generated_prompt'') content = Inr d' \<and>
    safe_company_name (env_ucd env) name = Inr safe \<and>
    body = success_body (result_file_path safe (strftime_ts (env_now env))) content \<and>
    w_browser w' = w_browser w @ ev \<and>
    w_api_calls w' = w_api_calls w @ [chat_request_for p] \<and>
    fs_files (w_fs w') =
      (fs_files (w_fs w))(result_file_path safe (strftime_ts (env_now env)) \<mapsto> json_dump 0 d')"
proof -
  obtain c ev where F: "fetch_website env url w = (Inr c, w\<lparr>w_browser := w_browser w @ ev\<rparr>)"
    using fetch_website_ok by blast
  show ?thesis
    using assms
    by (auto simp: process_unfold F makedirs_exist_ok_def split: sum.splits option.splits prod.splits if_splits)
qed

lemma process_submission_ok:
  assumes "fetch_website env url w = (Inr c, w1)"
    "generate_chatbot_prompt (env_ucd env) data c = Inr p"
    "env_api env (chat_request_for p) = Inr choices"
    "first_choice_content choices = Inr content"
    "py_setitem data (asc ''generated_prompt'') content = Inr d"
    "makedirs_exist_ok (env_io env) results_dir (w_fs w1) = Inr fs"
    "safe_company_name (env_ucd env) name = Inr safe"
    "io_open_error (env_io env) = None" "io_write_error (env_io env) = None"
  shows "process_submission env data name url w =
    (Inr (success_body (result_file_path safe (strftime_ts (env_now env))) content),
     w1\<lparr>w_api_calls := w_api_calls w1 @ [chat_request_for p],
        w_fs := fs\<lparr>fs_files := (fs_files fs)(result_file_path safe (strftime_ts (env_now env)) \<mapsto> json_dump 0 d)\<rparr>\<rparr>)"
  using assms by (simp add: process_submission_def sbind_def Let_def submission_steps write_json_file_def)

text \<open>The run of the Acme form (no website) in any environment whose API answers and
  whose file operations succeed.\<close>

lemma acme_process:
  assumes "env_api env = (\<lambda>r. Inr [\<lparr>choice_content = Some s\<rparr>])"
    "env_io env = \<lparr>io_mkdir_error = None, io_open_error = None, io_write_error = None\<rparr>"
    "fs_files (w_fs w) results_dir = None" "ascii_conform (env_ucd env)"
    "generate_chatbot_prompt (env_ucd env) acme_request no_website_msg = Inr p"
    "py_setitem acme_request (asc ''generated_prompt'') (JStr s) = Inr d"
  shows "submit_form env acme_submission w =
    (JsonResponse (success_body (result_file_path (asc ''acme'') (strftime_ts (env_now env))) (JStr s)) 200,
     w\<lparr>w_api_calls := w_api_calls w @ [chat_request_for p],
       w_fs := (if results_dir \<in> set (fs_dirs (w_fs w)) then w_fs w
                else (w_fs w)\<lparr>fs_dirs := fs_dirs (w_fs w) @ [results_dir]\<rparr>)
         \<lparr>fs_files := (fs_files (w_fs w))(result_file_path (asc ''acme'') (strftime_ts (env_now env)) \<mapsto> json_dump 0 d)\<rparr>\<rparr>)"
proof -
  note N = acme_company
  have M: "makedirs_exist_ok (env_io env) results_dir (w_fs w) =
      Inr (if results_dir \<in> set (fs_dirs (w_fs w)) then w_fs w
           else (w_fs w)\<lparr>fs_dirs := fs_dirs (w_fs w) @ [results_dir]\<rparr>)"
    by (rule makedirs_ok) (simp_all add: assms)
  have "process_submission env acme_request (JStr (asc ''Acme'')) JNull w =
    (Inr (success_body (result_file_path (asc ''acme'') (strftime_ts (env_now env))) (JStr s)),
     w\<lparr>w_api_calls := w_api_calls w @ [chat_request_for p],
       w_fs := (if results_dir \<in> set (fs_dirs (w_fs w)) then w_fs w
                else (w_fs w)\<lparr>fs_dirs := fs_dirs (w_fs w) @ [results_dir]\<rparr>)
         \<lparr>fs_files := (fs_files (if results_dir \<in> set (fs_dirs (w_fs w)) then w_fs w
                else (w_fs w)\<lparr>fs_dirs := fs_dirs (w_fs w) @ [results_dir]\<rparr>))(result_file_path (asc ''acme'') (strftime_ts (env_now env)) \<mapsto> json_dump 0 d)\<rparr>\<rparr>)"
    by (rule process_submission_ok [OF fetch_website_falsy assms(5) _ _ assms(6) M,
          where choices = "[\<lparr>choice_content = Some s\<rparr>]"])
       (simp_all add: assms acme_safe_name first_choice_content_def)
  with N show ?thesis
    by (simp add: submit_form_def acme_submission_def py_get_JDict)
qed

lemma acme_run:
  assumes "env_api env = (\<lambda>r. Inr [\<lparr>choice_content = Some s\<rparr>])"
    "env_io env = \<lparr>io_mkdir_error = None, io_open_error = None, io_write_error = None\<rparr>"
    "fs_files (w_fs w) results_dir = None" "ascii_conform (env_ucd env)"
  shows "\<exists>b w'. submit_form env acme_submission w = (JsonResponse b 200, w') \<and>
    fs_files (w_fs w') results_dir = None"
proof -
  obtain p where G: "generate_chatbot_prompt (env_ucd env) acme_request no_website_msg = Inr p"
    using generate_ok_of_inputs acme_inputs_ok by blast
  obtain d where D: "py_setitem acme_request (asc ''generated_prompt'') (JStr s) = Inr d"
    by (simp add: acme_request_def py_setitem_def)
  have "result_file_path (asc ''acme'') (strftime_ts (env_now env)) \<noteq> results_dir"
    by (simp add: result_file_path_def)
  with acme_process [OF assms G D] assms(3) show ?thesis by simp
qed

lemma sample_env_run:
  "fs_files (w_fs w) results_dir = None \<Longrightarrow>
   \<exists>b w'. submit_form sample_env acme_submission w = (JsonResponse b 200, w') \<and>
     fs_files (w_fs w') results_dir = None"
  by (rule acme_run) (simp_all add: sample_env_def sample_db_ascii_conform)

section \<open>Properties of the route\<close>

text \<open>C2. A request without a truthy company name is rejected with 400 and the
  "name required" message before anything else happens: no browser is started, the
  API is not called, no file or directory is created.\<close>

theorem submit_missing_name_rejected:
  assumes "req_is_json req" "req_body req = Some data"
    "py_get data (asc ''company'') (JDict []) = Inr company"
    "py_get company (asc ''name'') JNull = Inr name" "\<not> py_truthy name"
  shows "submit_form env req w = (JsonResponse (error_body name_required_msg) 400, w)"
proof -
  obtain url where "py_get company (asc ''website'') JNull = Inr url"
    using assms(4) py_get_ok by blast
  with assms show ?thesis by (simp add: submit_form_def)
qed

theorem submit_missing_name_rejected_witness:
  "submit_form sample_env
     \<lparr>req_is_json = True, req_body = Some (JDict [(asc ''company'', JDict [(asc ''name'', JStr [])])])\<rparr>
     empty_world =
   (JsonResponse (error_body name_required_msg) 400, empty_world)"
  using submit_missing_name_rejected [of _ "JDict [(asc ''company'', JDict [(asc ''name'', JStr [])])]"
      "JDict [(asc ''name'', JStr [])]" "JStr []"]
  by (simp add: py_get_JDict)

text \<open>C3. When the chat-completion API raises, the route answers 500 with the
  processing-error prefix followed by the text of the exception (never an empty
  error), the file system is untouched and exactly one request was sent.\<close>

theorem submit_upstream_failure:
  assumes "req_is_json req" "req_body req = Some data" "prompt_inputs_ok data"
    "py_get data (asc ''company'') (JDict []) = Inr company"
    "py_get company (asc ''name'') JNull = Inr name" "py_truthy name"
    "\<forall>r. env_api env r = Inl err"
  shows "\<exists>w'. submit_form env req w =
           (JsonResponse (error_body (processing_error_prefix @ exn_str err)) 500, w') \<and>
         processing_error_prefix @ exn_str err \<noteq> [] \<and>
         w_fs w' = w_fs w \<and> length (w_api_calls w') = Suc (length (w_api_calls w))"
proof -
  obtain url c ev p where
    F: "fetch_website env url w = (Inr c, w\<lparr>w_browser := w_browser w @ ev\<rparr>)" and
    G: "generate_chatbot_prompt (env_ucd env) data c = Inr p" and
    S: "submit_form env req w =
      (case process_submission env data name url w of
         (Inl e, w') \<Rightarrow> (JsonResponse (error_body (processing_error_prefix @ exn_str e)) 500, w')
       | (Inr body, w') \<Rightarrow> (JsonResponse body 200, w'))"
    using submit_form_after_prompt [OF assms(1-6)] by blast
  show ?thesis
    using assms(7) by (simp add: S process_unfold F G processing_error_prefix_def)
qed

theorem submit_upstream_failure_witness:
  "\<exists>w'. submit_form (sample_env\<lparr>env_api := \<lambda>r. Inl (APIError (asc ''Connection error.''))\<rparr>)
          acme_submission empty_world =
        (JsonResponse (error_body (processing_error_prefix @ asc ''Connection error.'')) 500, w') \<and>
        processing_error_prefix @ asc ''Connection error.'' \<noteq> [] \<and>
        w_fs w' = w_fs empty_world \<and> length (w_api_calls w') = Suc (length (w_api_calls empty_world))"
  using submit_upstream_failure [of acme_submission acme_request "JDict [(asc ''name'', JStr (asc ''Acme''))]"
      "JStr (asc ''Acme'')" "sample_env\<lparr>env_api := \<lambda>r. Inl (APIError (asc ''Connection error.''))\<rparr>"
      "APIError (asc ''Connection error.'')" empty_world]
  by (simp add: acme_submission_def acme_inputs_ok acme_company py_get_JDict)

text \<open>C1. End to end: the form of Acme with no website, an API that answers, a
  working disk. The answer is 200 with \<open>ok\<close> true, the success message, the
  file \<open>chatbot_creation_results/chatbot_spec_acme_<timestamp>.json\<close> and the
  answer of the API; that file holds the request with the answer stored under
  \<open>generated_prompt\<close>; no browser was started.\<close>

theorem submit_acme_end_to_end:
  assumes "env_api env = (\<lambda>r. Inr [\<lparr>choice_content = Some s\<rparr>])"
    "env_io env = \<lparr>io_mkdir_error = None, io_open_error = None, io_write_error = None\<rparr>"
    "fs_files (w_fs w) results_dir = None" "ascii_conform (env_ucd env)"
  shows "\<exists>w' d. submit_form env acme_submission w =
      (JsonResponse (success_body (asc ''chatbot_creation_results/chatbot_spec_acme_'' @
                                   strftime_ts (env_now env) @ asc ''.json'') (JStr s)) 200, w') \<and>
    py_get (success_body (asc ''chatbot_creation_results/chatbot_spec_acme_'' @
                          strftime_ts (env_now env) @ asc ''.json'') (JStr s)) (asc ''ok'') JNull =
      Inr (JBool True) \<and>
    py_setitem acme_request (asc ''generated_prompt'') (JStr s) = Inr d \<and>
    fs_files (w_fs w') (asc ''chatbot_creation_results/chatbot_spec_acme_'' @
                        strftime_ts (env_now env) @ asc ''.json'') = Some (json_dump 0 d) \<and>
    w_browser w' = w_browser w"
proof -
  obtain p where G: "generate_chatbot_prompt (env_ucd env) acme_request no_website_msg = Inr p"
    using generate_ok_of_inputs acme_inputs_ok by blast
  obtain d where D: "py_setitem acme_request (asc ''generated_prompt'') (JStr s) = Inr d"
    by (simp add: acme_request_def py_setitem_def)
  have R: "result_file_path (asc ''acme'') (strftime_ts (env_now env)) =
    asc ''chatbot_creation_results/chatbot_spec_acme_'' @ strftime_ts (env_now env) @ asc ''.json''"
    by (simp add: result_file_path_def results_dir_def asc_def)
  show ?thesis
    using acme_process [OF assms G D] D by (simp add: R success_body_def py_get_JDict)
qed

theorem submit_acme_end_to_end_witness:
  "\<exists>w' d. submit_form sample_env acme_submission empty_world =
      (JsonResponse (success_body (asc ''chatbot_creation_results/chatbot_spec_acme_'' @
                                   strftime_ts sample_time @ asc ''.json'') (JStr acme_answer)) 200, w') \<and>
    py_get (success_body (asc ''chatbot_creation_results/chatbot_spec_acme_'' @
                          strftime_ts sample_time @ asc ''.json'') (JStr acme_answer)) (asc ''ok'') JNull =
      Inr (JBool True) \<and>
    py_setitem acme_request (asc ''generated_prompt'') (JStr acme_answer) = Inr d \<and>
    fs_files (w_fs w') (asc ''chatbot_creation_results/chatbot_spec_acme_'' @
                        strftime_ts sample_time @ asc ''.json'') = Some (json_dump 0 d) \<and>
    w_browser w' = w_browser empty_world"
  using submit_acme_end_to_end [of sample_env acme_answer empty_world]
  by (simp add: sample_env_def empty_world_def sample_db_ascii_conform)



text \<open>C19. An API answer without choices makes \<open>response.choices[0]\<close> raise
  \<open>IndexError\<close>: the route answers 500 with "list index out of range", after the
  request was sent and before anything was written.\<close>

theorem submit_empty_choices_index_error:
  assumes "req_is_json req" "req_body req = Some data" "prompt_inputs_ok data"
    "py_get data (asc ''company'') (JDict []) = Inr company"
    "py_get company (asc ''name'') JNull = Inr name" "py_truthy name"
    "\<forall>r. env_api env r = Inr []"
  shows "\<exists>w'. submit_form env req w =
    (JsonResponse (error_body (processing_error_prefix @ asc ''list index out of range'')) 500, w') \<and>
    w_fs w' = w_fs w \<and> length (w_api_calls w') = Suc (length (w_api_calls w))"
proof -
  obtain url c ev p where
    F: "fetch_website env url w = (Inr c, w\<lparr>w_browser := w_browser w @ ev\<rparr>)" and
    G: "generate_chatbot_prompt (env_ucd env) data c = Inr p" and
    S: "submit_form env req w =
      (case process_submission env data name url w of
         (Inl e, w') \<Rightarrow> (JsonResponse (error_body (processing_error_prefix @ exn_str e)) 500, w')
       | (Inr body, w') \<Rightarrow> (JsonResponse body 200, w'))"
    using submit_form_after_prompt [OF assms(1-6)] by blast
  show ?thesis
    using assms(7) by (simp add: S process_unfold F G)
qed

theorem submit_empty_choices_index_error_witness:
  "\<exists>w'. submit_form (sample_env\<lparr>env_api := \<lambda>r. Inr []\<rparr>) acme_submission empty_world =
    (JsonResponse (error_body (processing_error_prefix @ asc ''list index out of range'')) 500, w') \<and>
    w_fs w' = w_fs empty_world \<and> length (w_api_calls w') = Suc (length (w_api_calls empty_world))"
  using submit_empty_choices_index_error [of acme_submission acme_request
      "JDict [(asc ''name'', JStr (asc ''Acme''))]" "JStr (asc ''Acme'')" "sample_env\<lparr>env_api := \<lambda>r. Inr []\<rparr>"]
  by (simp add: acme_submission_def acme_inputs_ok acme_company py_get_JDict)

text \<open>C18. A company name that is truthy but not a string (a number) passes the guard
  of line 160; the prompt is compiled, the API is called and the results directory
  created, and only then does the sanitiser of line 191 raise \<open>TypeError\<close>: the route
  answers 500 and no file is written, after a paid API call.\<close>

theorem submit_non_string_name_after_api_call:
  assumes "req_is_json req" "req_body req = Some data" "prompt_inputs_ok data"
    "py_get data (asc ''company'') (JDict []) = Inr company"
    "py_get company (asc ''name'') JNull = Inr name" "name = JInt i" "i \<noteq> 0"
    "\<forall>r. \<exists>ch chs. env_api env r = Inr (ch # chs)"
    "io_mkdir_error (env_io env) = None" "fs_files (w_fs w) results_dir = None"
  shows "\<exists>w'. submit_form env req w =
    (JsonResponse (error_body (processing_error_prefix @ quoted (asc ''int'') @ asc '' object is not iterable'')) 500, w') \<and>
    fs_files (w_fs w') = fs_files (w_fs w) \<and> length (w_api_calls w') = Suc (length (w_api_calls w))"
proof -
  have T: "py_truthy name" using assms(6,7) by simp
  obtain url c ev p where
    F: "fetch_website env url w = (Inr c, w\<lparr>w_browser := w_browser w @ ev\<rparr>)" and
    G: "generate_chatbot_prompt (env_ucd env) data c = Inr p" and
    S: "submit_form env req w =
      (case process_submission env data name url w of
         (Inl e, w') \<Rightarrow> (JsonResponse (error_body (processing_error_prefix @ exn_str e)) 500, w')
       | (Inr body, w') \<Rightarrow> (JsonResponse body 200, w'))"
    using submit_form_after_prompt [OF assms(1-5) T] by blast
  obtain ch chs where A: "env_api env (chat_request_for p) = Inr (ch # chs)"
    using assms(8) by blast
  obtain kvs where "\<forall>k v. py_setitem data k v = Inr (JDict (dict_set kvs k v))"
    using prompt_inputs_setitem assms(3) by blast
  then show ?thesis
    using assms(6,9,10)
    by (simp add: S process_unfold F G A makedirs_ok safe_company_name_def py_iter_def)
qed

theorem submit_non_string_name_after_api_call_witness:
  "\<exists>w'. submit_form sample_env
       \<lparr>req_is_json = True, req_body = Some (JDict [(asc ''company'', JDict [(asc ''name'', JInt 42)])])\<rparr>
       empty_world =
    (JsonResponse (error_body (processing_error_prefix @ quoted (asc ''int'') @ asc '' object is not iterable'')) 500, w') \<and>
    fs_files (w_fs w') = fs_files (w_fs empty_world) \<and> length (w_api_calls w') = Suc (length (w_api_calls empty_world))"
  using submit_non_string_name_after_api_call [of _ "JDict [(asc ''company'', JDict [(asc ''name'', JInt 42)])]"
      "JDict [(asc ''name'', JInt 42)]" "JInt 42" 42 sample_env empty_world]
  by (simp add: py_get_JDict prompt_inputs_ok_def get_or_null_def joinable_def py_iter_def
      sample_env_def empty_world_def)





text \<open>C11. What a 200 answer stores: the request, a dict, with the API's answer
  under \<open>generated_prompt\<close> (and not the scraped page), in the file the answer
  names; no other file changes.\<close>

theorem submit_persists_request_with_answer:
  assumes "submit_form env req w = (JsonResponse body 200, w')" "req_body req = Some data"
  shows "\<exists>kvs path content. data = JDict kvs \<and> body = success_body path content \<and>
    fs_files (w_fs w') =
      (fs_files (w_fs w))(path \<mapsto> json_dump 0 (JDict (dict_set kvs (asc ''generated_prompt'') content)))"
proof -
  obtain company name url where
    "process_submission env data name url w = (Inr body, w')"
    using submit_form_200 [OF assms(1)] assms(2) by auto
  then obtain content d' safe where
    "py_setitem data (asc ''generated_prompt'') content = Inr d'"
    "body = success_body (result_file_path safe (strftime_ts (env_now env))) content"
    "fs_files (w_fs w') =
      (fs_files (w_fs w))(result_file_path safe (strftime_ts (env_now env)) \<mapsto> json_dump 0 d')"
    using process_submission_success by blast
  then show ?thesis
    using py_setitem_Inr by blast
qed

theorem submit_persists_request_with_answer_witness:
  "\<exists>b w'. submit_form sample_env acme_submission empty_world = (JsonResponse b 200, w') \<and>
    (\<exists>kvs path content. acme_request = JDict kvs \<and> b = success_body path content \<and>
      fs_files (w_fs w') =
        (fs_files (w_fs empty_world))(path \<mapsto> json_dump 0 (JDict (dict_set kvs (asc ''generated_prompt'') content))))"
proof -
  obtain b w' where R: "submit_form sample_env acme_submission empty_world = (JsonResponse b 200, w')"
    using sample_env_run [of empty_world] by (auto simp: empty_world_def)
  show ?thesis
    using R submit_persists_request_with_answer [OF R, of acme_request] by (simp add: acme_submission_def)
qed

text \<open>C12. A 200 answer was preceded by exactly one API request, and its user
  message is the prompt compiled from the request and the fetched page: the page's
  text when the website is truthy, "Den dothike website." otherwise.\<close>

theorem submit_sends_compiled_prompt:
  assumes "submit_form env req w = (JsonResponse body 200, w')" "req_body req = Some data"
  shows "\<exists>url p. py_get (get_or_null data (asc ''company'') (JDict [])) (asc ''website'') JNull = Inr url \<and>
    generate_chatbot_prompt (env_ucd env) data
      (if py_truthy url then fst (scrape_website (env_browser env) url) else no_website_msg) = Inr p \<and>
    w_api_calls w' = w_api_calls w @ [chat_request_for p]"
proof -
  obtain company name url where
    C: "py_get data (asc ''company'') (JDict []) = Inr company" and
    U: "py_get company (asc ''website'') JNull = Inr url" and
    P: "process_submission env data name url w = (Inr body, w')"
    using submit_form_200 [OF assms(1)] assms(2) by auto
  from process_submission_success [OF P] obtain c ev p where
    "fetch_website env url w = (Inr c, w\<lparr>w_browser := w_browser w @ ev\<rparr>)"
    "generate_chatbot_prompt (env_ucd env) data c = Inr p"
    "w_api_calls w' = w_api_calls w @ [chat_request_for p]"
    by blast
  with C U show ?thesis
    by (auto simp: get_or_null_def dest: fetch_website_content)
qed

theorem submit_sends_compiled_prompt_witness:
  "\<exists>b w'. submit_form sample_env acme_submission empty_world = (JsonResponse b 200, w') \<and>
    (\<exists>p. generate_chatbot_prompt sample_db acme_request no_website_msg = Inr p \<and>
         w_api_calls w' = [chat_request_for p])"
proof -
  obtain b w' where R: "submit_form sample_env acme_submission empty_world = (JsonResponse b 200, w')"
    using sample_env_run [of empty_world] by (auto simp: empty_world_def)
  show ?thesis
    using R submit_sends_compiled_prompt [OF R, of acme_request]
    by (simp add: acme_submission_def acme_company py_get_JDict get_or_null_def sample_env_def empty_world_def)
qed

text \<open>C16. Two successful submissions with the same company name within the same
  second of the clock write the same path: the second overwrites the first, whose
  record is lost, and the file system ends as if only the second had been stored.\<close>

theorem submit_same_second_overwrites:
  assumes "submit_form env req1 w = (JsonResponse b1 200, w1)"
    "submit_form env req2 w1 = (JsonResponse b2 200, w2)"
    "req_body req1 = Some d1" "req_body req2 = Some d2"
    "form_company_name d1 = form_company_name d2"
  shows "\<exists>path kvs2 c2. py_get b1 (asc ''file'') JNull = Inr (JStr path) \<and>
    py_get b2 (asc ''file'') JNull = Inr (JStr path) \<and> d2 = JDict kvs2 \<and>
    fs_files (w_fs w2) =
      (fs_files (w_fs w))(path \<mapsto> json_dump 0 (JDict (dict_set kvs2 (asc ''generated_prompt'') c2)))"
proof -
  obtain company1 name1 url1 where
    N1: "form_company_name d1 = Inr name1" and
    P1: "process_submission env d1 name1 url1 w = (Inr b1, w1)"
    using submit_form_200 [OF assms(1)] assms(3) by (auto simp: form_company_name_def)
  obtain company2 name2 url2 where
    N2: "form_company_name d2 = Inr name2" and
    P2: "process_submission env d2 name2 url2 w1 = (Inr b2, w2)"
    using submit_form_200 [OF assms(2)] assms(4) by (auto simp: form_company_name_def)
  from N1 N2 assms(5) have "name1 = name2" by simp
  moreover from process_submission_success [OF P1] obtain c1 d1' safe1 where
    "safe_company_name (env_ucd env) name1 = Inr safe1"
    "b1 = success_body (result_file_path safe1 (strftime_ts (env_now env))) c1"
    "fs_files (w_fs w1) =
      (fs_files (w_fs w))(result_file_path safe1 (strftime_ts (env_now env)) \<mapsto> json_dump 0 d1')"
    by blast
  moreover from process_submission_success [OF P2] obtain c2 d2' safe2 where
    "py_setitem d2 (asc ''generated_prompt'') c2 = Inr d2'"
    "safe_company_name (env_ucd env) name2 = Inr safe2"
    "b2 = success_body (result_file_path safe2 (strftime_ts (env_now env))) c2"
    "fs_files (w_fs w2) =
      (fs_files (w_fs w1))(result_file_path safe2 (strftime_ts (env_now env)) \<mapsto> json_dump 0 d2')"
    by blast
  ultimately show ?thesis
    using py_setitem_Inr by (fastforce simp: success_body_file)
qed

theorem submit_same_second_overwrites_witness:
  "\<exists>b1 w1 b2 w2. submit_form sample_env acme_submission empty_world = (JsonResponse b1 200, w1) \<and>
    submit_form sample_env acme_submission w1 = (JsonResponse b2 200, w2) \<and>
    (\<exists>path kvs2 c2. py_get b1 (asc ''file'') JNull = Inr (JStr path) \<and>
      py_get b2 (asc ''file'') JNull = Inr (JStr path) \<and> acme_request = JDict kvs2 \<and>
      fs_files (w_fs w2) =
        (fs_files (w_fs empty_world))(path \<mapsto> json_dump 0 (JDict (dict_set kvs2 (asc ''generated_prompt'') c2))))"
proof -
  obtain b1 w1 where R1: "submit_form sample_env acme_submission empty_world = (JsonResponse b1 200, w1)"
    and F1: "fs_files (w_fs w1) results_dir = None"
    using sample_env_run [of empty_world] by (auto simp: empty_world_def)
  obtain b2 w2 where R2: "submit_form sample_env acme_submission w1 = (JsonResponse b2 200, w2)"
    using sample_env_run [OF F1] by blast
  show ?thesis
    using R1 R2 submit_same_second_overwrites [OF R1 R2, of acme_request acme_request]
    by (auto simp: acme_submission_def)
qed

text \<open>C17. A body whose \<open>company\<close> entry is not a dict (a string, a list, a
  number), or a body that is not a dict at all, makes the \<open>get\<close> calls of lines
  155-157 raise before the \<open>try\<close>: Flask answers with its 500 error page instead
  of the JSON error the spec promises, and nothing else happens.\<close>

theorem submit_non_dict_company_unhandled:
  assumes "req_is_json req" "req_body req = Some data"
    "\<not> is_dict (get_or_null data (asc ''company'') (JDict []))"
  shows "submit_form env req w = (FlaskError 500, w)"
proof (cases "py_get data (asc ''company'') (JDict [])")
  case (Inl e)
  with assms show ?thesis by (simp add: submit_form_def)
next
  case (Inr company)
  with assms(3) obtain e where "py_get company (asc ''name'') JNull = Inl e"
    using py_get_ok by (metis get_or_null_def sum.simps(6) sumE)
  with Inr assms(1,2) show ?thesis by (simp add: submit_form_def)
qed

theorem submit_non_dict_company_unhandled_witness:
  "submit_form sample_env
     \<lparr>req_is_json = True, req_body = Some (JDict [(asc ''company'', JStr (asc ''Acme''))])\<rparr> empty_world =
   (FlaskError 500, empty_world)"
  using submit_non_dict_company_unhandled [of _ "JDict [(asc ''company'', JStr (asc ''Acme''))]"]
  by (simp add: get_or_null_def py_get_JDict)

end
