(* ===== verification/App.thy ===== *)
theory App
  imports Orchestrator
begin

text \<open>
  The Flask application around the route: what importing \<open>app.py\<close> does (lines
  17-28: \<open>load_dotenv()\<close>, the \<open>Flask\<close> object, the OpenAI client built from
  \<open>OPENAI_API_KEY\<close>), the URL map the decorators of lines 143 and 147 register, and
  the dispatch of one HTTP request to \<open>home\<close> or \<open>submit_form\<close>. A server run is a
  sequence of requests handled one after the other on the same world, each with the
  environment of its own moment (clock, browser, disk outcomes).
\<close>

section \<open>Start-up\<close>

type_synonym environ = "ustr \<Rightarrow> ustr option"

text \<open>\<open>load_dotenv()\<close> (python-dotenv, \<open>override=False\<close>): the \<open>.env\<close> file is read
  into a dict, where a later assignment of a name wins, and a variable already in
  the process environment is kept. The file is given as its list of assignments,
  already parsed: \<open>${VAR}\<close> interpolation and names without a value are not
  represented.\<close>

definition load_dotenv :: "(ustr \<times> ustr) list \<Rightarrow> environ \<Rightarrow> environ" where
  "load_dotenv dotenv_file environ = map_of (rev dotenv_file) ++ environ"

definition openai_key_var :: ustr where
  "openai_key_var = asc ''OPENAI_API_KEY''"

definition openai_missing_key_msg :: ustr where
  "openai_missing_key_msg = asc ''The api_key client option must be set either by passing api_key to the client or by setting the OPENAI_API_KEY environment variable''"

record openai_client =
  client_api_key :: ustr

text \<open>\<open>OpenAI(api_key=...)\<close>: a key of \<open>None\<close> falls back to the environment
  variable, and when that is missing too the constructor raises.\<close>

definition OpenAI :: "environ \<Rightarrow> ustr option \<Rightarrow> exn + openai_client" where
  "OpenAI environ api_key =
     (case (case api_key of None \<Rightarrow> environ openai_key_var | Some k \<Rightarrow> Some k) of
        None \<Rightarrow> Inl (OpenAIError openai_missing_key_msg)
      | Some k \<Rightarrow> Inr \<lparr>client_api_key = k\<rparr>)"

section \<open>The URL map\<close>

datatype http_method = GET | HEAD | POST | PUT | PATCH | DELETE | OPTIONS

datatype endpoint = Home | SubmitFormEndpoint

record url_rule =
  rule_path :: ustr
  rule_methods :: "http_method list"
  rule_endpoint :: endpoint

text \<open>\<open>@app.route(path, methods=...)\<close>: Flask adds \<open>HEAD\<close> to a rule that allows
  \<open>GET\<close>, and \<open>OPTIONS\<close> to every rule (automatic options).\<close>

definition route :: "ustr \<Rightarrow> http_method list \<Rightarrow> endpoint \<Rightarrow> url_rule" where
  "route path methods ep =
     \<lparr>rule_path = path,
      rule_methods = methods @ (if GET \<in> set methods \<and> HEAD \<notin> set methods then [HEAD] else []) @
                     (if OPTIONS \<in> set methods then [] else [OPTIONS]),
      rule_endpoint = ep\<rparr>"

definition url_map :: "url_rule list" where
  "url_map = [route [47] [GET] Home, route (asc ''/submit-form'') [POST] SubmitFormEndpoint]"

record flask_app =
  app_url_map :: "url_rule list"
  app_client :: openai_client

text \<open>Importing the module (lines 17-28, with the decorators of lines 143 and 147):
  the environment after \<open>load_dotenv\<close>, and the application, or the exception the
  client's constructor raises.\<close>

definition app_startup :: "(ustr \<times> ustr) list \<Rightarrow> environ \<Rightarrow> exn + environ \<times> flask_app" where
  "app_startup dotenv_file environ =
     (let environ' = load_dotenv dotenv_file environ;
          OPENAI_API_KEY = environ' openai_key_var
      in case OpenAI environ' OPENAI_API_KEY of
           Inl e \<Rightarrow> Inl e
         | Inr client \<Rightarrow> Inr (environ', \<lparr>app_url_map = url_map, app_client = client\<rparr>))"

section \<open>Dispatch\<close>

record http_call =
  call_method :: http_method
  call_path :: ustr
  call_request :: http_request

datatype app_response =
    HtmlPage ustr
  | RouteResponse http_response
  | AutoOptions "http_method list"
  | HttpError nat

text \<open>\<open>home()\<close> (lines 143-145): \<open>render_template('index.html')\<close> over the
  application's template folder (name to rendered page); a missing template raises
  \<open>TemplateNotFound\<close>, which Flask answers with 500.\<close>

definition home :: "(ustr \<Rightarrow> ustr option) \<Rightarrow> app_response" where
  "home templates =
     (case templates (asc ''index.html'') of Some page \<Rightarrow> HtmlPage page | None \<Rightarrow> HttpError 500)"

definition match_rule :: "url_rule list \<Rightarrow> ustr \<Rightarrow> url_rule option" where
  "match_rule rules path = find (\<lambda>r. rule_path r = path) rules"

text \<open>The remote service answers according to the client, that is to its key.\<close>

type_synonym chat_service = "openai_client \<Rightarrow> chat_api"

definition dispatch_request ::
  "flask_app \<Rightarrow> chat_service \<Rightarrow> (ustr \<Rightarrow> ustr option) \<Rightarrow> app_env \<Rightarrow> http_call \<Rightarrow> world \<Rightarrow>
   app_response \<times> world" where
  "dispatch_request app service templates env call w =
     (case match_rule (app_url_map app) (call_path call) of
        None \<Rightarrow> (HttpError 404, w)
      | Some r \<Rightarrow>
          if call_method call \<notin> set (rule_methods r) then (HttpError 405, w)
          else if call_method call = OPTIONS then (AutoOptions (rule_methods r), w)
          else (case rule_endpoint r of
                  Home \<Rightarrow> (home templates, w)
                | SubmitFormEndpoint \<Rightarrow>
                    (let (resp, w') = submit_form (env\<lparr>env_api := service (app_client app)\<rparr>) (call_request call) w
                     in (RouteResponse resp, w'))))"

text \<open>A run of the server: the requests in arrival order, each with its environment.\<close>

fun serve ::
  "flask_app \<Rightarrow> chat_service \<Rightarrow> (ustr \<Rightarrow> ustr option) \<Rightarrow> (app_env \<times> http_call) list \<Rightarrow> world \<Rightarrow>
   app_response list \<times> world" where
  "serve app service templates [] w = ([], w)"
| "serve app service templates (c # cs) w =
     (let (r, w1) = dispatch_request app service templates (fst c) (snd c) w;
          (rs, w2) = serve app service templates cs w1
      in (r # rs, w2))"

section \<open>What a request may change\<close>

text \<open>The files the route writes: \<open>chatbot_creation_results/chatbot_spec_*.json\<close>.\<close>

definition is_result_path :: "ustr \<Rightarrow> bool" where
  "is_result_path p \<longleftrightarrow> prefix (results_dir @ [47] @ asc ''chatbot_spec_'') p \<and> suffix (asc ''.json'') p"

text \<open>The world after a request extends the world before: no directory or file
  disappears, only result files change, and the logs of browser events and API
  requests are only appended to.\<close>

definition world_grows :: "world \<Rightarrow> world \<Rightarrow> bool" where
  "world_grows w w' \<longleftrightarrow>
     set (fs_dirs (w_fs w)) \<subseteq> set (fs_dirs (w_fs w')) \<and>
     dom (fs_files (w_fs w)) \<subseteq> dom (fs_files (w_fs w')) \<and>
     {p. fs_files (w_fs w') p \<noteq> fs_files (w_fs w) p} \<subseteq> Collect is_result_path \<and>
     prefix (w_browser w) (w_browser w') \<and> prefix (w_api_calls w) (w_api_calls w')"

definition grows_action :: "'a action \<Rightarrow> bool" where
  "grows_action m \<longleftrightarrow> (\<forall>w. world_grows w (snd (m w)))"

lemma world_grows_refl [simp]: "world_grows w w"
  by (simp add: world_grows_def)

lemma world_grows_trans: "world_grows w1 w2 \<Longrightarrow> world_grows w2 w3 \<Longrightarrow> world_grows w1 w3"
  unfolding world_grows_def
proof (elim conjE, intro conjI)
  assume "{p. fs_files (w_fs w2) p \<noteq> fs_files (w_fs w1) p} \<subseteq> Collect is_result_path"
    "{p. fs_files (w_fs w3) p \<noteq> fs_files (w_fs w2) p} \<subseteq> Collect is_result_path"
  then show "{p. fs_files (w_fs w3) p \<noteq> fs_files (w_fs w1) p} \<subseteq> Collect is_result_path"
    by (metis (mono_tags, lifting) mem_Collect_eq subset_iff)
qed (blast intro: prefix_order.trans)+

lemma result_file_path_is_result_path [simp]: "is_result_path (result_file_path safe ts)"
  unfolding is_result_path_def result_file_path_def suffix_def
  by (intro conjI exI [of _ "results_dir @ [47] @ asc ''chatbot_spec_'' @ safe @ [95] @ ts"]) simp_all

lemma grows_sbind:
  assumes "grows_action m" "\<And>a. grows_action (f a)"
  shows "grows_action (sbind m f)"
  unfolding grows_action_def
proof
  fix w
  show "world_grows w (snd (sbind m f w))"
  proof (cases "m w")
    case (Pair r w1)
    with assms(1) have "world_grows w w1" by (metis grows_action_def snd_conv)
    with Pair assms(2) show ?thesis
      by (cases r) (auto simp: sbind_def grows_action_def intro: world_grows_trans)
  qed
qed

lemma grows_actionD: "grows_action m \<Longrightarrow> m w = (r, w') \<Longrightarrow> world_grows w w'"
  by (metis grows_action_def snd_conv)

lemma grows_pure_step [simp]: "grows_action (pure_step r)"
  by (simp add: grows_action_def pure_step_def)

lemma grows_sreturn [simp]: "grows_action (sreturn a)"
  by (simp add: grows_action_def sreturn_def)

lemma grows_fetch_website [simp]: "grows_action (fetch_website env url)"
  by (auto simp: grows_action_def world_grows_def fetch_website_def split: prod.splits)

lemma grows_call_generation_api [simp]: "grows_action (call_generation_api env p)"
  by (simp add: grows_action_def world_grows_def call_generation_api_def)

lemma grows_make_results_dir [simp]: "grows_action (make_results_dir env)"
  by (auto simp: grows_action_def world_grows_def make_results_dir_def makedirs_exist_ok_def
      split: sum.splits if_splits option.splits)

lemma grows_save_result [simp]: "is_result_path p \<Longrightarrow> grows_action (save_result env p d)"
  by (auto simp: grows_action_def world_grows_def save_result_def write_json_file_def
      split: option.splits)

lemma grows_process_submission: "grows_action (process_submission env data name url)"
  unfolding process_submission_def Let_def
  by (intro grows_sbind grows_pure_step grows_sreturn grows_fetch_website grows_call_generation_api
      grows_make_results_dir grows_save_result result_file_path_is_result_path)

lemma submit_form_grows: "submit_form env req w = (r, w') \<Longrightarrow> world_grows w w'"
  by (auto simp: submit_form_def split: option.splits sum.splits prod.splits if_splits
      dest: grows_actionD [OF grows_process_submission])

lemma dispatch_request_grows: "dispatch_request app service templates env call w = (r, w') \<Longrightarrow> world_grows w w'"
  by (auto simp: dispatch_request_def split: option.splits endpoint.splits prod.splits if_splits
      dest: submit_form_grows)

lemma dispatch_request_200_file:
  assumes "dispatch_request app service templates env call w = (RouteResponse (JsonResponse b 200), w')"
  shows "\<exists>p. py_get b (asc ''file'') JNull = Inr (JStr p) \<and> fs_files (w_fs w') p \<noteq> None"
proof -
  from assms obtain env' where
    S: "submit_form env' (call_request call) w = (JsonResponse b 200, w')"
    by (auto simp: dispatch_request_def home_def split: option.splits endpoint.splits prod.splits if_splits)
  then obtain data company name url where
    "process_submission env' data name url w = (Inr b, w')"
    using submit_form_200 by blast
  then obtain content safe d' where
    "b = success_body (result_file_path safe (strftime_ts (env_now env'))) content"
    "fs_files (w_fs w') =
      (fs_files (w_fs w))(result_file_path safe (strftime_ts (env_now env')) \<mapsto> json_dump 0 d')"
    using process_submission_success by blast
  then show ?thesis by (simp add: success_body_file)
qed

lemma serve_Cons_split:
  assumes "serve app service templates (c # cs) w = (rs, w2)"
  obtains r w1 rs' where "dispatch_request app service templates (fst c) (snd c) w = (r, w1)"
    "serve app service templates cs w1 = (rs', w2)" "rs = r # rs'"
  using assms by (auto split: prod.splits)

lemma serve_grows: "serve app service templates calls w = (rs, w') \<Longrightarrow> world_grows w w'"
proof (induction calls arbitrary: w rs)
  case Nil
  then show ?case by simp
next
  case (Cons c cs)
  from Cons.prems obtain r w1 rs' where
    "dispatch_request app service templates (fst c) (snd c) w = (r, w1)"
    "serve app service templates cs w1 = (rs', w')"
    by (rule serve_Cons_split)
  with Cons.IH show ?case by (blast intro: world_grows_trans dest: dispatch_request_grows)
qed

lemma serve_length: "length (fst (serve app service templates calls w)) = length calls"
proof (induction calls arbitrary: w)
  case (Cons c cs)
  obtain r w1 where "dispatch_request app service templates (fst c) (snd c) w = (r, w1)"
    by fastforce
  moreover obtain rs w2 where "serve app service templates cs w1 = (rs, w2)"
    by fastforce
  ultimately show ?case using Cons.IH [of w1] by simp
qed simp

lemma app_startup_url_map: "app_startup f e = Inr (e', app) \<Longrightarrow> app_url_map app = url_map"
  by (auto simp: app_startup_def Let_def split: sum.splits)

section \<open>Properties of the application\<close>

text \<open>C26. Over any run of the server, whatever the requests and their order, every
  request gets one answer and the world only grows: no directory or file is ever
  removed, the only files created or rewritten are result files
  \<open>chatbot_creation_results/chatbot_spec_*.json\<close>, and the logs of browser sessions
  and API requests are only appended to.\<close>

theorem serve_world_grows:
  "length (fst (serve app service templates calls w)) = length calls \<and>
   world_grows w (snd (serve app service templates calls w))"
  using serve_grows [of app service templates calls w] serve_length [of app service templates calls w]
  by (cases "serve app service templates calls w") simp

text \<open>C27. A file that a 200 answer of a run names is still on disk when the run
  ends: later requests may rewrite it (same company, same second) but never remove
  it.\<close>

theorem serve_answered_files_persist:
  assumes "serve app service templates calls w = (rs, w')"
    "RouteResponse (JsonResponse b 200) \<in> set rs"
  shows "\<exists>p. py_get b (asc ''file'') JNull = Inr (JStr p) \<and> fs_files (w_fs w') p \<noteq> None"
  using assms
proof (induction calls arbitrary: w rs)
  case Nil
  then show ?case by simp
next
  case (Cons c cs)
  from Cons.prems(1) obtain r w1 rs' where
    D: "dispatch_request app service templates (fst c) (snd c) w = (r, w1)" and
    S: "serve app service templates cs w1 = (rs', w')" and R: "rs = r # rs'"
    by (rule serve_Cons_split)
  show ?case
  proof (cases "r = RouteResponse (JsonResponse b 200)")
    case True
    with D obtain p where "py_get b (asc ''file'') JNull = Inr (JStr p)" "fs_files (w_fs w1) p \<noteq> None"
      using dispatch_request_200_file by blast
    moreover have "world_grows w1 w'"
      using serve_grows [OF S] .
    ultimately show ?thesis by (auto simp: world_grows_def)
  next
    case False
    with Cons.prems(2) R have "RouteResponse (JsonResponse b 200) \<in> set rs'" by simp
    with Cons.IH S show ?thesis by blast
  qed
qed

theorem serve_answered_files_persist_witness:
  "\<exists>e' app rs w' b. app_startup [] [openai_key_var \<mapsto> asc ''sk-env''] = Inr (e', app) \<and>
     serve app (\<lambda>c. env_api sample_env) Map.empty
       [(sample_env, \<lparr>call_method = POST, call_path = asc ''/submit-form'', call_request = acme_submission\<rparr>)]
       empty_world = (rs, w') \<and>
     RouteResponse (JsonResponse b 200) \<in> set rs \<and>
     (\<exists>p. py_get b (asc ''file'') JNull = Inr (JStr p) \<and> fs_files (w_fs w') p \<noteq> None)"
proof -
  obtain e' app where A: "app_startup [] [openai_key_var \<mapsto> asc ''sk-env''] = Inr (e', app)"
    by (simp add: app_startup_def OpenAI_def load_dotenv_def)
  have U: "app_url_map app = url_map"
    using A by (rule app_startup_url_map)
  obtain b w1 where R: "submit_form sample_env acme_submission empty_world = (JsonResponse b 200, w1)"
    using sample_env_run [of empty_world] by (auto simp: empty_world_def)
  have "sample_env\<lparr>env_api := env_api sample_env\<rparr> = sample_env"
    by simp
  with R have S: "serve app (\<lambda>c. env_api sample_env) Map.empty
       [(sample_env, \<lparr>call_method = POST, call_path = asc ''/submit-form'', call_request = acme_submission\<rparr>)]
       empty_world = ([RouteResponse (JsonResponse b 200)], w1)"
    by (simp add: dispatch_request_def U url_map_def route_def match_rule_def asc_def)
  show ?thesis
    using A S serve_answered_files_persist [OF S] by auto
qed

text \<open>C28. Start-up takes the API key from the process environment when
  \<open>OPENAI_API_KEY\<close> is set there, otherwise from the last assignment in \<open>.env\<close>;
  with neither, importing the module raises \<open>OpenAIError\<close> and the server never
  starts.\<close>

theorem app_startup_api_key:
  "(e openai_key_var = Some k \<longrightarrow>
      (\<exists>e' app. app_startup f e = Inr (e', app) \<and> client_api_key (app_client app) = k)) \<and>
   (e openai_key_var = None \<longrightarrow> map_of (rev f) openai_key_var = Some k \<longrightarrow>
      (\<exists>e' app. app_startup f e = Inr (e', app) \<and> client_api_key (app_client app) = k)) \<and>
   (e openai_key_var = None \<longrightarrow> openai_key_var \<notin> fst ` set f \<longrightarrow>
      app_startup f e = Inl (OpenAIError openai_missing_key_msg))"
  by (auto simp: app_startup_def load_dotenv_def OpenAI_def map_add_def map_of_eq_None_iff
      split: option.splits dest!: map_of_SomeD) force

theorem app_startup_api_key_witness:
  "(\<exists>e' app. app_startup [(openai_key_var, asc ''sk-file'')] [openai_key_var \<mapsto> asc ''sk-env''] = Inr (e', app) \<and>
      client_api_key (app_client app) = asc ''sk-env'') \<and>
   (\<exists>e' app. app_startup [(openai_key_var, asc ''sk-old''), (openai_key_var, asc ''sk-new'')] Map.empty = Inr (e', app) \<and>
      client_api_key (app_client app) = asc ''sk-new'') \<and>
   app_startup [] Map.empty = Inl (OpenAIError openai_missing_key_msg)"
  using app_startup_api_key [of "[openai_key_var \<mapsto> asc ''sk-env'']" "asc ''sk-env''" "[(openai_key_var, asc ''sk-file'')]"]
    app_startup_api_key [of "Map.empty" "asc ''sk-new''" "[(openai_key_var, asc ''sk-old''), (openai_key_var, asc ''sk-new'')]"]
    app_startup_api_key [of "Map.empty" _ "[]"]
  by simp

text \<open>C29. The URL map of the started application: \<open>POST /submit-form\<close> runs
  \<open>submit_form\<close> with the API service of the application's client; any other method
  on it but \<open>OPTIONS\<close> is answered 405, \<open>GET\<close> and \<open>HEAD /\<close> serve the home page, and
  every other path is answered 404; the 404 and 405 answers change nothing.\<close>

theorem dispatch_url_map:
  assumes "app_startup f e = Inr (e', app)"
  shows "dispatch_request app service templates env
           \<lparr>call_method = POST, call_path = asc ''/submit-form'', call_request = req\<rparr> w =
         (RouteResponse (fst (submit_form (env\<lparr>env_api := service (app_client app)\<rparr>) req w)),
          snd (submit_form (env\<lparr>env_api := service (app_client app)\<rparr>) req w)) \<and>
    (m \<notin> {POST, OPTIONS} \<longrightarrow>
       dispatch_request app service templates env
         \<lparr>call_method = m, call_path = asc ''/submit-form'', call_request = req\<rparr> w = (HttpError 405, w)) \<and>
    (m \<in> {GET, HEAD} \<longrightarrow>
       dispatch_request app service templates env
         \<lparr>call_method = m, call_path = [47], call_request = req\<rparr> w = (home templates, w)) \<and>
    (path \<notin> {[47], asc ''/submit-form''} \<longrightarrow>
       dispatch_request app service templates env
         \<lparr>call_method = m, call_path = path, call_request = req\<rparr> w = (HttpError 404, w))"
proof -
  have U: "app_url_map app = url_map"
    using assms by (rule app_startup_url_map)
  have N: "asc ''/submit-form'' \<noteq> [47]" by (simp add: asc_def)
  show ?thesis
    using N by (cases m) (auto simp: dispatch_request_def U url_map_def route_def match_rule_def
        split: prod.splits)
qed

theorem dispatch_url_map_witness:
  "\<exists>e' app. app_startup [] [openai_key_var \<mapsto> asc ''sk-env''] = Inr (e', app) \<and>
     dispatch_request app (\<lambda>c r. Inr []) Map.empty sample_env
       \<lparr>call_method = GET, call_path = asc ''/submit-form'', call_request = acme_submission\<rparr> empty_world =
       (HttpError 405, empty_world) \<and>
     dispatch_request app (\<lambda>c r. Inr []) Map.empty sample_env
       \<lparr>call_method = GET, call_path = [47], call_request = acme_submission\<rparr> empty_world =
       (home Map.empty, empty_world) \<and>
     dispatch_request app (\<lambda>c r. Inr []) Map.empty sample_env
       \<lparr>call_method = POST, call_path = asc ''/index.html'', call_request = acme_submission\<rparr> empty_world =
       (HttpError 404, empty_world)"
proof -
  obtain e' app where A: "app_startup [] [openai_key_var \<mapsto> asc ''sk-env''] = Inr (e', app)"
    by (simp add: app_startup_def OpenAI_def load_dotenv_def)
  have P: "asc ''/index.html'' \<notin> {[47], asc ''/submit-form''}" by (simp add: asc_def)
  show ?thesis
    using A dispatch_url_map [OF A, of "\<lambda>c r. Inr []" Map.empty sample_env acme_submission empty_world GET]
      dispatch_url_map [OF A, of "\<lambda>c r. Inr []" Map.empty sample_env acme_submission empty_world POST
        "asc ''/index.html''"] P
    by auto
qed

end
