(* ===== verification/JsonRead.thy ===== *)
theory JsonRead
  imports Persist
begin

text \<open>
  \<open>json.loads\<close> as CPython's C scanner (\<open>Modules/_json.c\<close>) implements it: the
  parser behind \<open>request.get_json()\<close> (line 153), and the reader that gives the
  files of the results directory their meaning. It decodes \<open>null\<close>, booleans,
  integers (\<open>0\<close> or a digit 1-9 and digits, no leading zeros), floats (a fraction,
  an exponent, \<open>NaN\<close>, \<open>Infinity\<close>), strings with their escapes (a \<open>\\uXXXX\<close>
  pair of surrogates joined into one code point), arrays and objects (pairs assigned
  into a dict in order), skipping whitespace between tokens, and it builds the
  Python value (\<open>pjson\<close>). Each part returns the value and the rest of the input.
  The nesting of arrays and objects is recursion on a fuel argument; the three
  outcomes are running out of fuel, a decode error and a value. Lemmas: every read
  consumes input, so twice the length of the text plus one is fuel enough for every
  text; every value \<open>json.dump\<close> writes reads back as itself; every dict read has
  distinct keys.
\<close>

datatype 'a reading = NoFuel | Fail | TooDeep | Read 'a

text \<open>The Python value \<open>json.loads\<close> builds: \<open>None\<close>, a bool, an int, a float
  (kept as its literal: the program never computes with one), a str, a list or a
  dict. A dict is built by assigning its pairs in order (\<open>PyDict_SetItem\<close>), so a
  repeated key keeps its first position and its last value.\<close>

datatype pjson =
    PNull
  | PBool bool
  | PInt int
  | PFloat ustr
  | PStr ustr
  | PList "pjson list"
  | PDict "(ustr \<times> pjson) list"

definition py_dict_of :: "(ustr \<times> 'v) list \<Rightarrow> (ustr \<times> 'v) list" where
  "py_dict_of kvs = foldl (\<lambda>d kv. dict_set d (fst kv) (snd kv)) [] kvs"

definition reading_map :: "('a \<Rightarrow> 'b) \<Rightarrow> 'a reading \<Rightarrow> 'b reading" where
  "reading_map f r = (case r of Read a \<Rightarrow> Read (f a) | NoFuel \<Rightarrow> NoFuel | Fail \<Rightarrow> Fail | TooDeep \<Rightarrow> TooDeep)"

definition is_ws :: "nat \<Rightarrow> bool" where
  "is_ws c \<longleftrightarrow> c = 32 \<or> c = 10 \<or> c = 13 \<or> c = 9"

definition skip_ws :: "ustr \<Rightarrow> ustr" where
  "skip_ws s = dropWhile is_ws s"

definition read_nat :: "ustr \<Rightarrow> (nat \<times> ustr) option" where
  "read_nat s =
     (let ds = takeWhile is_digit s in if ds = [] then None else Some (digits_val ds, dropWhile is_digit s))"

text \<open>\<open>_match_number_unicode\<close>: the integer part is \<open>0\<close> or a digit 1-9 followed by
  digits; a \<open>.\<close> followed by a digit, or an \<open>e\<close>/\<open>E\<close> followed by an optionally
  signed digit, makes the number a float, whose fraction and exponent are consumed.\<close>

definition read_int_part :: "ustr \<Rightarrow> (nat \<times> ustr) option" where
  "read_int_part s = (if s \<noteq> [] \<and> hd s = 48 then Some (0, tl s) else read_nat s)"

definition is_frac :: "ustr \<Rightarrow> bool" where
  "is_frac r \<longleftrightarrow> (case r of c # d # _ \<Rightarrow> c = 46 \<and> is_digit d | _ \<Rightarrow> False)"

definition is_exp :: "ustr \<Rightarrow> bool" where
  "is_exp r \<longleftrightarrow>
     (case r of
        c # d # t \<Rightarrow> (c = 101 \<or> c = 69) \<and> (is_digit d \<or> ((d = 43 \<or> d = 45) \<and> t \<noteq> [] \<and> is_digit (hd t)))
      | _ \<Rightarrow> False)"

definition skip_frac :: "ustr \<Rightarrow> ustr" where
  "skip_frac r = (if is_frac r then dropWhile is_digit (tl r) else r)"

definition skip_exp :: "ustr \<Rightarrow> ustr" where
  "skip_exp r =
     (if is_exp r then dropWhile is_digit (drop (if hd (tl r) = 43 \<or> hd (tl r) = 45 then 2 else 1) r) else r)"

definition read_number :: "ustr \<Rightarrow> (pjson \<times> ustr) option" where
  "read_number s =
     (let neg = (s \<noteq> [] \<and> hd s = 45); t = (if neg then tl s else s) in
      case read_int_part t of
        None \<Rightarrow> None
      | Some (n, r) \<Rightarrow>
          if is_frac r \<or> is_exp r
          then (let r' = skip_exp (skip_frac r) in Some (PFloat (take (length s - length r') s), r'))
          else Some (PInt (if neg then - int n else int n), r))"

definition hex_val :: "nat \<Rightarrow> nat option" where
  "hex_val c =
     (if 48 \<le> c \<and> c \<le> 57 then Some (c - 48)
      else if 97 \<le> c \<and> c \<le> 102 then Some (c - 87)
      else if 65 \<le> c \<and> c \<le> 70 then Some (c - 55) else None)"

definition read_hex4 :: "ustr \<Rightarrow> (nat \<times> ustr) option" where
  "read_hex4 s =
     (if 4 \<le> length s \<and> list_all (\<lambda>c. hex_val c \<noteq> None) (take 4 s)
      then Some (foldl (\<lambda>n c. 16 * n + the (hex_val c)) 0 (take 4 s), drop 4 s) else None)"

definition unescape :: "nat \<Rightarrow> nat option" where
  "unescape e =
     (if e = 34 then Some 34 else if e = 92 then Some 92 else if e = 47 then Some 47
      else if e = 98 then Some 8 else if e = 102 then Some 12 else if e = 110 then Some 10
      else if e = 114 then Some 13 else if e = 116 then Some 9 else None)"

text \<open>After a \<open>\\uXXXX\<close> escape of a high surrogate, \<open>scanstring\<close> joins a following
  \<open>\\uXXXX\<close> escape of a low surrogate into one code point.\<close>

definition low_surrogate_escape :: "ustr \<Rightarrow> (nat \<times> ustr) option" where
  "low_surrogate_escape s =
     (if take 2 s = [92, 117]
      then (case read_hex4 (drop 2 s) of
              Some (d, r) \<Rightarrow> if 56320 \<le> d \<and> d \<le> 57343 then Some (d, r) else None
            | None \<Rightarrow> None)
      else None)"

lemma read_hex4_length: "read_hex4 s = Some (d, r) \<Longrightarrow> length r + 4 = length s"
  by (auto simp: read_hex4_def split: if_splits)

lemma low_surrogate_escape_length: "low_surrogate_escape s = Some (d, r) \<Longrightarrow> length r < length s"
  by (auto simp: low_surrogate_escape_def dest!: read_hex4_length split: if_splits option.splits)

function read_str :: "ustr \<Rightarrow> (ustr \<times> ustr) option" where
  "read_str [] = None"
| "read_str (c # s) =
     (if c = 34 then Some ([], s)
      else if c = 92 then
        (case s of
           [] \<Rightarrow> None
         | e # s' \<Rightarrow>
             (if e = 117 then
                (case read_hex4 s' of
                   None \<Rightarrow> None
                 | Some (d, s'') \<Rightarrow>
                     (case (if 55296 \<le> d \<and> d \<le> 56319 then low_surrogate_escape s'' else None) of
                        Some (d2, s3) \<Rightarrow>
                          map_option (\<lambda>(t, r). ((65536 + (d - 55296) * 1024 + (d2 - 56320)) # t, r)) (read_str s3)
                      | None \<Rightarrow> map_option (\<lambda>(t, r). (d # t, r)) (read_str s'')))
              else
                (case unescape e of
                   None \<Rightarrow> None
                 | Some d \<Rightarrow> map_option (\<lambda>(t, r). (d # t, r)) (read_str s'))))
      else if c < 32 then None
      else map_option (\<lambda>(t, r). (c # t, r)) (read_str s))"
  by pat_completeness auto
termination read_str
  by (relation "measure length")
     (auto dest!: read_hex4_length low_surrogate_escape_length split: if_splits)

text \<open>\<open>scan_once_unicode\<close>: the first character chooses a string, an object, an
  array, a named constant (\<open>null\<close>, \<open>true\<close>, \<open>false\<close>, and the floats \<open>NaN\<close>,
  \<open>Infinity\<close>, \<open>-Infinity\<close>) or a number; \<open>_parse_array_unicode\<close> and
  \<open>_parse_object_unicode\<close> read the items, skipping whitespace around the
  separators; an object's pairs become a dict. Before an array or an object the
  scanner calls \<open>_Py_EnterRecursiveCall\<close>: the argument \<open>d\<close> is the number of
  nested arrays and objects the interpreter's recursion limit still allows, and
  entering one more raises \<open>RecursionError\<close> (\<open>TooDeep\<close>), even for \<open>[]\<close>.\<close>

fun read_value :: "nat \<Rightarrow> nat \<Rightarrow> ustr \<Rightarrow> (pjson \<times> ustr) reading"
and read_items :: "nat \<Rightarrow> nat \<Rightarrow> ustr \<Rightarrow> (pjson list \<times> ustr) reading"
and read_members :: "nat \<Rightarrow> nat \<Rightarrow> ustr \<Rightarrow> ((ustr \<times> pjson) list \<times> ustr) reading" where
  "read_value 0 d s = NoFuel"
| "read_value (Suc n) d s0 =
     (let s = skip_ws s0 in
      if take 4 s = asc ''null'' then Read (PNull, drop 4 s)
      else if take 4 s = asc ''true'' then Read (PBool True, drop 4 s)
      else if take 5 s = asc ''false'' then Read (PBool False, drop 5 s)
      else if take 3 s = asc ''NaN'' then Read (PFloat (asc ''NaN''), drop 3 s)
      else if take 8 s = asc ''Infinity'' then Read (PFloat (asc ''Infinity''), drop 8 s)
      else if take 9 s = asc ''-Infinity'' then Read (PFloat (asc ''-Infinity''), drop 9 s)
      else case s of
        [] \<Rightarrow> Fail
      | c # r \<Rightarrow>
          if c = 34 then (case read_str r of None \<Rightarrow> Fail | Some (t, r') \<Rightarrow> Read (PStr t, r'))
          else if c = 91 then
            (case d of
               0 \<Rightarrow> TooDeep
             | Suc d' \<Rightarrow>
                 if take 1 (skip_ws r) = [93] then Read (PList [], drop 1 (skip_ws r))
                 else reading_map (\<lambda>(xs, r'). (PList xs, r')) (read_items n d' r))
          else if c = 123 then
            (case d of
               0 \<Rightarrow> TooDeep
             | Suc d' \<Rightarrow>
                 if take 1 (skip_ws r) = [125] then Read (PDict [], drop 1 (skip_ws r))
                 else reading_map (\<lambda>(kvs, r'). (PDict (py_dict_of kvs), r')) (read_members n d' r))
          else (case read_number s of None \<Rightarrow> Fail | Some (p, r') \<Rightarrow> Read (p, r')))"
| "read_items 0 d s = NoFuel"
| "read_items (Suc n) d s =
     (case read_value n d s of
        Read (x, r) \<Rightarrow>
          (case skip_ws r of
             [] \<Rightarrow> Fail
           | c # r' \<Rightarrow>
               if c = 44 then reading_map (\<lambda>(xs, r''). (x # xs, r'')) (read_items n d r')
               else if c = 93 then Read ([x], r') else Fail)
      | NoFuel \<Rightarrow> NoFuel
      | Fail \<Rightarrow> Fail
      | TooDeep \<Rightarrow> TooDeep)"
| "read_members 0 d s = NoFuel"
| "read_members (Suc n) d s0 =
     (case skip_ws s0 of
        [] \<Rightarrow> Fail
      | c # r \<Rightarrow>
          if c \<noteq> 34 then Fail else
          (case read_str r of
             None \<Rightarrow> Fail
           | Some (k, r1) \<Rightarrow>
               (case skip_ws r1 of
                  [] \<Rightarrow> Fail
                | d1 # r2 \<Rightarrow>
                    if d1 \<noteq> 58 then Fail else
                    (case read_value n d r2 of
                       Read (v, r3) \<Rightarrow>
                         (case skip_ws r3 of
                            [] \<Rightarrow> Fail
                          | e # r4 \<Rightarrow>
                              if e = 44 then reading_map (\<lambda>(kvs, r5). ((k, v) # kvs, r5)) (read_members n d r4)
                              else if e = 125 then Read ([(k, v)], r4) else Fail)
                     | NoFuel \<Rightarrow> NoFuel
                     | Fail \<Rightarrow> Fail
                     | TooDeep \<Rightarrow> TooDeep))))"

text \<open>\<open>json.loads\<close> under a recursion limit \<open>lim\<close>: whitespace, one value,
  whitespace and the end of the text (otherwise "Extra data"). The fuel bounds the
  calls of the model; twice the length of the text plus one is enough for every text
  (\<open>json_loads_fuel_enough\<close>), so \<open>NoFuel\<close> never comes out.\<close>

definition json_loads :: "nat \<Rightarrow> ustr \<Rightarrow> pjson reading" where
  "json_loads lim s =
     (case read_value (Suc (2 * length s)) lim s of
        Read (v, r) \<Rightarrow> if skip_ws r = [] then Read v else Fail
      | NoFuel \<Rightarrow> NoFuel
      | Fail \<Rightarrow> Fail
      | TooDeep \<Rightarrow> TooDeep)"

text \<open>The Python values the model of the program carries: those without a float.\<close>

fun to_json :: "pjson \<Rightarrow> json option" where
  "to_json PNull = Some JNull"
| "to_json (PBool b) = Some (JBool b)"
| "to_json (PInt i) = Some (JInt i)"
| "to_json (PFloat f) = None"
| "to_json (PStr s) = Some (JStr s)"
| "to_json (PList xs) = map_option JList (those (map to_json xs))"
| "to_json (PDict kvs) = map_option JDict (those (map (\<lambda>kv. map_option (Pair (fst kv)) (to_json (snd kv))) kvs))"

fun of_json :: "json \<Rightarrow> pjson" where
  "of_json JNull = PNull"
| "of_json (JBool b) = PBool b"
| "of_json (JInt i) = PInt i"
| "of_json (JStr s) = PStr s"
| "of_json (JList xs) = PList (map of_json xs)"
| "of_json (JDict kvs) = PDict (map (\<lambda>kv. (fst kv, of_json (snd kv))) kvs)"

fun pjson_wf :: "pjson \<Rightarrow> bool" where
  "pjson_wf (PList xs) = list_all pjson_wf xs"
| "pjson_wf (PDict kvs) = (distinct (map fst kvs) \<and> list_all (\<lambda>kv. pjson_wf (snd kv)) kvs)"
| "pjson_wf v = True"

text \<open>A text read back as a value of the program: \<open>json.loads\<close> with a limit the text
  cannot reach (every level of nesting takes a character), and without a float.\<close>

definition json_read :: "ustr \<Rightarrow> json option" where
  "json_read s = (case json_loads (Suc (length s)) s of Read p \<Rightarrow> to_json p | _ \<Rightarrow> None)"

section \<open>Every read consumes input, and the fuel is enough\<close>

lemma skip_ws_length: "length (skip_ws s) \<le> length s"
  by (simp add: skip_ws_def length_dropWhile_le)

lemma read_str_length: "read_str s = Some (t, r) \<Longrightarrow> length r < length s"
proof (induction "length s" arbitrary: s t r rule: less_induct)
  case less
  have IH: "read_str s' = Some (t', r') \<Longrightarrow> length s' < length s \<Longrightarrow> length r' < length s'" for s' t' r'
    using less.hyps by blast
  show ?case
  proof (cases s)
    case Nil
    with less.prems show ?thesis by simp
  next
    case (Cons c s1)
    with less.prems show ?thesis
      by (auto split: if_splits option.splits list.splits
               dest!: read_hex4_length low_surrogate_escape_length dest: IH)
         (drule IH, simp, simp)+
  qed
qed

lemma read_nat_length: "read_nat s = Some (n, r) \<Longrightarrow> length r < length s"
  by (cases s) (auto simp: read_nat_def Let_def split: if_splits intro: le_less_trans length_dropWhile_le)

lemma read_int_part_length: "read_int_part s = Some (n, r) \<Longrightarrow> length r < length s"
  by (cases s) (auto simp: read_int_part_def dest: read_nat_length split: if_splits)

lemma skip_frac_length: "length (skip_frac r) \<le> length r"
  by (simp add: skip_frac_def le_trans [OF length_dropWhile_le])

lemma skip_exp_length: "length (skip_exp r) \<le> length r"
  by (simp add: skip_exp_def le_trans [OF length_dropWhile_le])

lemma read_number_length: "read_number s = Some (p, r) \<Longrightarrow> length r < length s"
proof -
  assume a: "read_number s = Some (p, r)"
  let ?t = "if s \<noteq> [] \<and> hd s = 45 then tl s else s"
  have t: "length ?t \<le> length s" by simp
  from a obtain n r0 where n: "read_int_part ?t = Some (n, r0)"
    and r: "r = r0 \<or> r = skip_exp (skip_frac r0)"
    by (auto simp: read_number_def Let_def split: option.splits if_splits)
  have "length r \<le> length r0"
    using r skip_frac_length [of r0] skip_exp_length [of "skip_frac r0"] by auto
  with read_int_part_length [OF n] t show ?thesis by linarith
qed

lemma skip_ws_Cons_length: "skip_ws s = c # t \<Longrightarrow> length t < length s"
  using skip_ws_length [of s] by simp

lemma take_drop_shorter: "take k s = w \<Longrightarrow> w \<noteq> [] \<Longrightarrow> length (drop k s) < length s"
  by (cases s; cases k) auto

lemma skip_ws_tl_length: "length x < length s \<Longrightarrow> length (skip_ws x) - Suc 0 < length s"
  using skip_ws_length [of x] by linarith

lemma read_rest_shorter:
  "(read_value n d s = Read (v, r) \<longrightarrow> length r < length s) \<and>
   (read_items n d s = Read (xs, r) \<longrightarrow> length r < length s) \<and>
   (read_members n d s = Read (kvs, r) \<longrightarrow> length r < length s)"
proof (induction n arbitrary: d s v r xs kvs)
  case 0
  then show ?case by simp
next
  case (Suc n)
  have V: "read_value n d' s' = Read (v', r') \<Longrightarrow> length r' < length s'" for d' s' v' r'
    using Suc.IH by blast
  have I: "read_items n d' s' = Read (xs', r') \<Longrightarrow> length r' < length s'" for d' s' xs' r'
    using Suc.IH by blast
  have M: "read_members n d' s' = Read (kvs', r') \<Longrightarrow> length r' < length s'" for d' s' kvs' r'
    using Suc.IH by blast
  have W: "length (skip_ws s) \<le> length s" by (rule skip_ws_length)
  show ?case
  proof (intro conjI impI)
    assume a: "read_value (Suc n) d s = Read (v, r)"
    show "length r < length s"
      using a W
      by (auto simp: Let_def reading_map_def asc_def split: if_splits list.splits option.splits reading.splits nat.splits
               dest!: take_drop_shorter skip_ws_Cons_length read_str_length read_number_length I M
               intro: skip_ws_tl_length)
  next
    assume a: "read_items (Suc n) d s = Read (xs, r)"
    show "length r < length s"
      using a
      by (auto simp: reading_map_def split: if_splits list.splits reading.splits
               dest!: skip_ws_Cons_length V I)
  next
    assume a: "read_members (Suc n) d s = Read (kvs, r)"
    show "length r < length s"
      using a
      by (auto simp: reading_map_def split: if_splits list.splits option.splits reading.splits
               dest!: skip_ws_Cons_length read_str_length V M)
  qed
qed

lemma read_value_shorter: "read_value n d s = Read (v, r) \<Longrightarrow> length r < length s"
  using read_rest_shorter by blast

lemma read_fuel:
  "(2 * length s < n \<longrightarrow> read_value n d s \<noteq> NoFuel) \<and>
   (2 * length s + 1 < n \<longrightarrow> read_items n d s \<noteq> NoFuel) \<and>
   (2 * length s + 1 < n \<longrightarrow> read_members n d s \<noteq> NoFuel)"
proof (induction n arbitrary: d s)
  case 0
  then show ?case by simp
next
  case (Suc n)
  have V: "read_value n d' s' = NoFuel \<Longrightarrow> n \<le> 2 * length s'" for d' s'
    using Suc.IH [of s' d'] not_le by blast
  have I: "read_items n d' s' = NoFuel \<Longrightarrow> n \<le> 2 * length s' + 1" for d' s'
    using Suc.IH [of s' d'] not_le by blast
  have M: "read_members n d' s' = NoFuel \<Longrightarrow> n \<le> 2 * length s' + 1" for d' s'
    using Suc.IH [of s' d'] not_le by blast
  have W: "length (skip_ws s) \<le> length s" by (rule skip_ws_length)
  show ?case
  proof (intro conjI impI)
    assume "2 * length s < Suc n"
    then show "read_value (Suc n) d s \<noteq> NoFuel"
      using W
      by (auto simp: Let_def reading_map_def split: if_splits list.splits option.splits reading.splits nat.splits
               dest!: skip_ws_Cons_length I M)
  next
    assume "2 * length s + 1 < Suc n"
    then show "read_items (Suc n) d s \<noteq> NoFuel"
      by (auto simp: reading_map_def split: if_splits list.splits reading.splits
               dest!: skip_ws_Cons_length read_value_shorter V I)
  next
    assume "2 * length s + 1 < Suc n"
    then show "read_members (Suc n) d s \<noteq> NoFuel"
      by (auto simp: reading_map_def split: if_splits list.splits option.splits reading.splits
               dest!: skip_ws_Cons_length read_str_length read_value_shorter V M)
  qed
qed


lemma hex_val_hex_digit [simp]: "d < 16 \<Longrightarrow> hex_val (hex_digit d) = Some d"
  unfolding hex_val_def hex_digit_def by simp

lemma hex_pad4_small: "c < 32 \<Longrightarrow> hex_pad 4 c = [48, 48, hex_digit (c div 16), hex_digit (c mod 16)]"
proof -
  assume "c < 32"
  then have z: "c div 256 = 0" "c div 4096 = 0" "c div 16 mod 16 = c div 16" "c div 16 < 10" by simp_all
  have four: "(4::nat) = Suc (Suc (Suc (Suc 0)))" by simp
  show ?thesis
    by (simp only: four hex_pad.simps) (simp add: z div_mult2_eq [symmetric] hex_digit_def)
qed

lemma read_hex4_small: "c < 32 \<Longrightarrow> read_hex4 (hex_pad 4 c @ t) = Some (c, t)"
proof -
  assume c: "c < 32"
  then have "c div 16 < 16" by simp
  moreover have "hex_val 48 = Some 0" by (simp add: hex_val_def)
  ultimately show ?thesis
    using c by (simp add: hex_pad4_small read_hex4_def)
qed

lemma read_str_escape_char:
  "read_str (json_escape_char c @ t) = map_option (\<lambda>(u, r). (c # u, r)) (read_str t)"
proof (cases "c = 34 \<or> c = 92 \<or> c = 10 \<or> c = 13 \<or> c = 9 \<or> c = 8 \<or> c = 12")
  case True
  then show ?thesis by (elim disjE) (simp_all add: json_escape_char_def unescape_def)
next
  case False
  then show ?thesis
    by (cases "c < 32") (simp_all add: json_escape_char_def read_hex4_small)
qed

lemma read_str_escaped:
  "read_str (concat (map json_escape_char s) @ 34 # t) = Some (s, t)"
  by (induction s) (simp_all add: read_str_escape_char)

lemma json_loads_fuel_enough: "json_loads lim s \<noteq> NoFuel"
  using read_fuel [of s "Suc (2 * length s)" lim]
  by (auto simp: json_loads_def split: reading.splits)

section \<open>Numbers\<close>

lemma nat_str_ne: "nat_str n \<noteq> []"
  by (subst nat_str.simps) simp

lemma nat_str_digits: "\<forall>c\<in>set (nat_str n). is_digit c"
  by (induction n rule: nat_str.induct) (subst nat_str.simps, auto simp: is_digit_def)

lemma nat_str_hd: "hd (nat_str n @ rest) \<noteq> 45"
  using nat_str_ne [of n] nat_str_digits [of n] by (cases "nat_str n") (auto simp: is_digit_def)

lemma digits_val_snoc: "digits_val (xs @ [d]) = 10 * digits_val xs + (d - 48)"
  by (simp add: digits_val_def)

lemma digits_val_nat_str: "digits_val (nat_str n) = n"
proof (induction n rule: nat_str.induct)
  case (1 n)
  then show ?case
    by (subst nat_str.simps) (auto simp: digits_val_snoc digits_val_def)
qed

definition num_end :: "ustr \<Rightarrow> bool" where
  "num_end rest \<longleftrightarrow> rest = [] \<or> (\<not> is_digit (hd rest) \<and> hd rest \<noteq> 46 \<and> hd rest \<noteq> 101 \<and> hd rest \<noteq> 69)"

lemma num_end_no_float: "num_end rest \<Longrightarrow> \<not> is_frac rest \<and> \<not> is_exp rest"
  by (auto simp: num_end_def is_frac_def is_exp_def split: list.splits)

lemma read_nat_nat_str: "num_end rest \<Longrightarrow> read_nat (nat_str n @ rest) = Some (n, rest)"
proof -
  assume e: "num_end rest"
  have d: "list_all is_digit (nat_str n)" "nat_str n \<noteq> []"
    using nat_str_digits nat_str_ne by (auto simp: list_all_iff)
  from e have "takeWhile is_digit rest = []" "dropWhile is_digit rest = rest"
    by (cases rest; simp add: num_end_def)+
  with d show ?thesis
    by (simp add: read_nat_def takeWhile_append2 dropWhile_append2 list_all_iff digits_val_nat_str)
qed

lemma nat_str_hd_zero: "hd (nat_str n) = 48 \<Longrightarrow> n = 0"
proof (induction n rule: nat_str.induct)
  case (1 n)
  show ?case
  proof (cases "n < 10")
    case True
    with "1.prems" show ?thesis by (subst (asm) nat_str.simps) simp
  next
    case False
    with "1.prems" have "hd (nat_str (n div 10)) = 48"
      using nat_str_ne [of "n div 10"] by (subst (asm) nat_str.simps) simp
    with "1.IH" False show ?thesis by simp
  qed
qed

lemma read_int_part_nat_str: "num_end rest \<Longrightarrow> read_int_part (nat_str n @ rest) = Some (n, rest)"
proof (cases "n = 0")
  case True
  then show ?thesis by (simp add: read_int_part_def nat_str.simps)
next
  case False
  assume "num_end rest"
  with False nat_str_hd_zero [of n] nat_str_ne [of n] show ?thesis
    by (auto simp: read_int_part_def read_nat_nat_str)
qed

lemma read_number_int_str: "num_end rest \<Longrightarrow> read_number (int_str i @ rest) = Some (PInt i, rest)"
  using nat_str_ne nat_str_hd num_end_no_float
  by (cases "i < 0") (auto simp: int_str_def read_number_def read_int_part_nat_str)

section \<open>Whitespace and the first character of a dump\<close>

lemma skip_ws_Cons [simp]: "\<not> is_ws c \<Longrightarrow> skip_ws (c # t) = c # t"
  by (simp add: skip_ws_def)

lemma skip_ws_prefix: "list_all is_ws pre \<Longrightarrow> skip_ws (pre @ t) = skip_ws t"
  by (induction pre) (auto simp: skip_ws_def)

lemma indent_ws [simp]: "list_all is_ws nl" "list_all is_ws (indent_str k)"
  by (simp_all add: nl_def indent_str_def is_ws_def list_all_iff)

lemma read_value_skip: "list_all is_ws pre \<Longrightarrow> read_value n d (pre @ s) = read_value n d s"
  by (cases n) (simp_all only: read_value.simps skip_ws_prefix)

lemma num_end_indent [simp]: "num_end (nl @ t)"
  by (simp add: num_end_def nl_def is_digit_def)

definition starts_value :: "nat \<Rightarrow> bool" where
  "starts_value c \<longleftrightarrow> \<not> is_ws c \<and> c \<noteq> 93 \<and> c \<noteq> 125"

lemma nat_str_Cons: "\<exists>c t. nat_str n = c # t \<and> is_digit c"
  using nat_str_ne [of n] nat_str_digits [of n] by (cases "nat_str n") auto

lemma int_str_cases:
  obtains (digit) c t where "int_str i = c # t" "48 \<le> c" "c \<le> 57"
    | (minus) d t where "int_str i = 45 # d # t" "48 \<le> d" "d \<le> 57"
proof (cases "i < 0")
  case True
  obtain d t where "nat_str (nat (- i)) = d # t" "is_digit d" using nat_str_Cons by blast
  with True show ?thesis using minus by (simp add: int_str_def is_digit_def)
next
  case False
  obtain c t where "nat_str (nat i) = c # t" "is_digit c" using nat_str_Cons by blast
  with False show ?thesis using digit by (simp add: int_str_def is_digit_def)
qed

lemma json_dump_Cons: "\<exists>c t. json_dump l v = c # t \<and> starts_value c"
proof (cases v)
  case (JInt i)
  then show ?thesis
    by (cases i rule: int_str_cases) (auto simp: starts_value_def is_ws_def)
qed (auto simp: starts_value_def is_ws_def asc_def json_str_def)

section \<open>Integers are read as integers\<close>

definition not_named :: "ustr \<Rightarrow> bool" where
  "not_named s \<longleftrightarrow>
     take 4 s \<noteq> asc ''null'' \<and> take 4 s \<noteq> asc ''true'' \<and> take 5 s \<noteq> asc ''false'' \<and>
     take 3 s \<noteq> asc ''NaN'' \<and> take 8 s \<noteq> asc ''Infinity'' \<and> take 9 s \<noteq> asc ''-Infinity''"

lemma read_value_number:
  assumes "not_named (c # r)" "\<not> is_ws c" "c \<noteq> 34" "c \<noteq> 91" "c \<noteq> 123"
  shows "read_value (Suc m) k (c # r) = (case read_number (c # r) of None \<Rightarrow> Fail | Some (p, r') \<Rightarrow> Read (p, r'))"
  using assms unfolding not_named_def
  by (simp only: read_value.simps skip_ws_Cons Let_def if_False list.case not_False_eq_True simp_thms)

lemma digit_not_named: "48 \<le> c \<Longrightarrow> c \<le> 57 \<Longrightarrow> not_named (c # x)"
  by (simp add: not_named_def asc_def)

lemma minus_digit_not_named: "48 \<le> d \<Longrightarrow> d \<le> 57 \<Longrightarrow> not_named (45 # d # x)"
  by (simp add: not_named_def asc_def)

lemma read_value_int_str:
  assumes e: "num_end rest"
  shows "read_value (Suc m) k (int_str i @ rest) = Read (PInt i, rest)"
proof -
  have N: "read_number (int_str i @ rest) = Some (PInt i, rest)" using e by (rule read_number_int_str)
  show ?thesis
  proof (cases i rule: int_str_cases)
    case (digit c t)
    then have "not_named (c # (t @ rest))" by (intro digit_not_named)
    moreover have "\<not> is_ws c" "c \<noteq> 34" "c \<noteq> 91" "c \<noteq> 123" using digit by (simp_all add: is_ws_def)
    ultimately have "read_value (Suc m) k (c # (t @ rest)) =
        (case read_number (c # (t @ rest)) of None \<Rightarrow> Fail | Some (p, r') \<Rightarrow> Read (p, r'))"
      by (rule read_value_number)
    with N digit(1) show ?thesis by (simp del: read_value.simps)
  next
    case (minus d t)
    then have "not_named (45 # d # (t @ rest))" by (intro minus_digit_not_named)
    moreover have "\<not> is_ws 45" "(45::nat) \<noteq> 34" "(45::nat) \<noteq> 91" "(45::nat) \<noteq> 123" by (simp_all add: is_ws_def)
    ultimately have "read_value (Suc m) k (45 # d # (t @ rest)) =
        (case read_number (45 # d # (t @ rest)) of None \<Rightarrow> Fail | Some (p, r') \<Rightarrow> Read (p, r'))"
      by (rule read_value_number)
    with N minus(1) show ?thesis by (simp del: read_value.simps)
  qed
qed

section \<open>Reading a dump back\<close>

definition reads_back :: "json \<Rightarrow> bool" where
  "reads_back v \<longleftrightarrow>
     (\<forall>l n d rest. length (json_dump l v) < n \<longrightarrow> length (json_dump l v) < d \<longrightarrow> num_end rest \<longrightarrow>
        read_value n d (json_dump l v @ rest) = Read (of_json v, rest))"

lemma reads_backD:
  "reads_back v \<Longrightarrow> length (json_dump l v) < n \<Longrightarrow> length (json_dump l v) < d \<Longrightarrow> num_end rest \<Longrightarrow>
   list_all is_ws pre \<Longrightarrow> read_value n d (pre @ json_dump l v @ rest) = Read (of_json v, rest)"
  by (simp add: reads_back_def read_value_skip)

lemma skip_ws_close: "\<not> is_ws c \<Longrightarrow> skip_ws (nl @ indent_str l @ c # rest) = c # rest"
  using skip_ws_prefix [of "nl @ indent_str l" "c # rest"] by simp

lemma read_items_dump:
  assumes "\<forall>x\<in>set xs. reads_back x" "xs \<noteq> []" "list_all is_ws pre"
    "length (py_join (44 # nl @ indent_str (Suc l)) (map (json_dump (Suc l)) xs) @ nl @ indent_str l @ [93]) < n"
    "length (py_join (44 # nl @ indent_str (Suc l)) (map (json_dump (Suc l)) xs) @ nl @ indent_str l @ [93]) < d"
  shows "read_items n d (pre @ py_join (44 # nl @ indent_str (Suc l)) (map (json_dump (Suc l)) xs) @
                       nl @ indent_str l @ 93 # rest) = Read (map of_json xs, rest)"
  using assms
proof (induction xs arbitrary: pre n)
  case Nil
  then show ?case by simp
next
  case (Cons x xs)
  obtain m where n: "n = Suc m" using Cons.prems(4) by (cases n) auto
  have rx: "reads_back x" using Cons.prems(1) by simp
  show ?case
  proof (cases xs)
    case Nil
    with Cons.prems(4,5) n have "length (json_dump (Suc l) x) < m" "length (json_dump (Suc l) x) < d" by simp_all
    with rx Cons.prems(3) have
      "read_value m d (pre @ json_dump (Suc l) x @ nl @ indent_str l @ 93 # rest) =
       Read (of_json x, nl @ indent_str l @ 93 # rest)"
      by (simp add: reads_backD)
    with Nil n show ?thesis by (simp add: skip_ws_close is_ws_def)
  next
    case (Cons y ys)
    let ?J = "py_join (44 # nl @ indent_str (Suc l)) (map (json_dump (Suc l)) xs)"
    from Cons Cons.prems(4,5) n have f: "length (json_dump (Suc l) x) < m"
      "length (?J @ nl @ indent_str l @ [93]) < m" "length (json_dump (Suc l) x) < d"
      "length (?J @ nl @ indent_str l @ [93]) < d" by simp_all
    have "num_end (44 # nl @ indent_str (Suc l) @ ?J @ nl @ indent_str l @ 93 # rest)"
      by (simp add: num_end_def is_digit_def)
    with rx f(1,3) Cons.prems(3) have
      "read_value m d (pre @ json_dump (Suc l) x @ 44 # nl @ indent_str (Suc l) @ ?J @ nl @ indent_str l @ 93 # rest) =
       Read (of_json x, 44 # nl @ indent_str (Suc l) @ ?J @ nl @ indent_str l @ 93 # rest)"
      by (simp add: reads_backD)
    moreover have "read_items m d (nl @ indent_str (Suc l) @ ?J @ nl @ indent_str l @ 93 # rest) =
        Read (map of_json xs, rest)"
      using Cons.IH [of "nl @ indent_str (Suc l)" m] Cons.prems(1) f(2,4) \<open>xs = y # ys\<close>
      by simp
    ultimately show ?thesis
      using \<open>xs = y # ys\<close> n by (simp add: is_ws_def reading_map_def)
  qed
qed

definition member_text :: "nat \<Rightarrow> ustr \<times> json \<Rightarrow> ustr" where
  "member_text l kv = json_str (fst kv) @ asc '': '' @ json_dump l (snd kv)"

lemma length_member_text [simp]:
  "length (member_text l (k, v)) = length (json_str k) + 2 + length (json_dump l v)"
  by (simp add: member_text_def asc_def)

lemma read_member:
  assumes "reads_back v" "list_all is_ws pre" "length (json_dump l v) < m" "num_end t"
    "length (json_dump l v) < d"
  shows "read_members (Suc m) d (pre @ member_text l (k, v) @ t) =
    (case skip_ws t of
       [] \<Rightarrow> Fail
     | e # r4 \<Rightarrow> if e = 44 then reading_map (\<lambda>(kvs, r5). ((k, of_json v) # kvs, r5)) (read_members m d r4)
                 else if e = 125 then Read ([(k, of_json v)], r4) else Fail)"
proof -
  have "read_value m d ([32] @ json_dump l v @ t) = Read (of_json v, t)"
    using assms by (intro reads_backD) (simp_all add: is_ws_def)
  then show ?thesis
    using assms(2)
    by (simp add: member_text_def json_str_def skip_ws_prefix read_str_escaped asc_def is_ws_def)
qed

abbreviation of_json_member :: "ustr \<times> json \<Rightarrow> ustr \<times> pjson" where
  "of_json_member kv \<equiv> (fst kv, of_json (snd kv))"

lemma read_members_dump:
  assumes "\<forall>kv\<in>set kvs. reads_back (snd kv)" "kvs \<noteq> []" "list_all is_ws pre"
    "length (py_join (44 # nl @ indent_str (Suc l)) (map (member_text (Suc l)) kvs) @ nl @ indent_str l @ [125]) < n"
    "length (py_join (44 # nl @ indent_str (Suc l)) (map (member_text (Suc l)) kvs) @ nl @ indent_str l @ [125]) < d"
  shows "read_members n d (pre @ py_join (44 # nl @ indent_str (Suc l)) (map (member_text (Suc l)) kvs) @
                       nl @ indent_str l @ 125 # rest) = Read (map of_json_member kvs, rest)"
  using assms
proof (induction kvs arbitrary: pre n)
  case Nil
  then show ?case by simp
next
  case (Cons kv kvs)
  obtain k v where kv: "kv = (k, v)" by fastforce
  obtain m where n: "n = Suc m" using Cons.prems(4) by (cases n) auto
  have rv: "reads_back v" using Cons.prems(1) kv by simp
  have fv: "length (json_dump (Suc l) v) < m"
    using Cons.prems(4) n kv by (cases kvs) simp_all
  have dv: "length (json_dump (Suc l) v) < d"
    using Cons.prems(5) kv by (cases kvs) simp_all
  show ?case
  proof (cases kvs)
    case Nil
    have "num_end (nl @ indent_str l @ 125 # rest)" by simp
    from read_member [OF rv Cons.prems(3) fv this dv, of k] Nil n kv show ?thesis
      by (simp add: skip_ws_close is_ws_def)
  next
    case (Cons kv' kvs')
    let ?J = "py_join (44 # nl @ indent_str (Suc l)) (map (member_text (Suc l)) kvs)"
    have f: "length (?J @ nl @ indent_str l @ [125]) < m" "length (?J @ nl @ indent_str l @ [125]) < d"
      using Cons Cons.prems(4,5) n kv by simp_all
    have "num_end (44 # nl @ indent_str (Suc l) @ ?J @ nl @ indent_str l @ 125 # rest)"
      by (simp add: num_end_def is_digit_def)
    from read_member [OF rv Cons.prems(3) fv this dv, of k]
    have "read_members n d (pre @ member_text (Suc l) (k, v) @ 44 # nl @ indent_str (Suc l) @ ?J @ nl @ indent_str l @ 125 # rest) =
      reading_map (\<lambda>(kvs, r5). ((k, of_json v) # kvs, r5)) (read_members m d (nl @ indent_str (Suc l) @ ?J @ nl @ indent_str l @ 125 # rest))"
      using n by (simp add: is_ws_def)
    moreover have "read_members m d (nl @ indent_str (Suc l) @ ?J @ nl @ indent_str l @ 125 # rest) =
        Read (map of_json_member kvs, rest)"
      using Cons.IH [of "nl @ indent_str (Suc l)" m] Cons.prems(1) f \<open>kvs = kv' # kvs'\<close> by simp
    ultimately show ?thesis
      using \<open>kvs = kv' # kvs'\<close> kv by (simp add: reading_map_def)
  qed
qed

lemma py_join_Cons_app: "py_join sep (w # ws) = w @ (if ws = [] then [] else sep @ py_join sep ws)"
  by (cases ws) simp_all

lemma json_dump_dict_members:
  "(\<lambda>kv. json_str (fst kv) @ asc '': '' @ json_dump l (snd kv)) = member_text l"
  by (rule ext) (simp add: member_text_def)

lemma member_text_Cons: "\<exists>t. member_text l kv = 34 # t"
  by (simp add: member_text_def json_str_def)

lemma read_dump_open:
  assumes "J = c # t" "starts_value c"
  shows "skip_ws (nl @ indent_str (Suc l) @ J @ u) = c # t @ u"
  using assms skip_ws_prefix [of "nl @ indent_str (Suc l)" "J @ u"]
  by (simp add: starts_value_def)

section \<open>Dicts built from distinct keys\<close>

lemma dict_set_new: "key \<notin> set (map fst kvs) \<Longrightarrow> dict_set kvs key v = kvs @ [(key, v)]"
  by (induction kvs key v rule: dict_set.induct) auto

lemma foldl_dict_set_distinct:
  "distinct (map fst (d @ kvs)) \<Longrightarrow> foldl (\<lambda>d kv. dict_set d (fst kv) (snd kv)) d kvs = d @ kvs"
  by (induction kvs arbitrary: d) (simp_all add: dict_set_new)

lemma py_dict_of_distinct: "distinct (map fst kvs) \<Longrightarrow> py_dict_of kvs = kvs"
  using foldl_dict_set_distinct [of "[]" kvs] by (simp add: py_dict_of_def)

lemma reads_backI:
  assumes "\<And>l m d rest. length (json_dump l v) < Suc m \<Longrightarrow> length (json_dump l v) < d \<Longrightarrow>
             num_end rest \<Longrightarrow> read_value (Suc m) d (json_dump l v @ rest) = Read (of_json v, rest)"
  shows "reads_back v"
  unfolding reads_back_def
proof (intro allI impI)
  fix l n d rest
  assume "length (json_dump l v) < n" "length (json_dump l v) < d" "num_end rest"
  moreover obtain m where "n = Suc m" using \<open>length (json_dump l v) < n\<close> by (cases n) auto
  ultimately show "read_value n d (json_dump l v @ rest) = Read (of_json v, rest)"
    using assms by simp
qed

lemma reads_back_JNull: "reads_back JNull"
  by (rule reads_backI) (simp add: asc_def is_ws_def)

lemma reads_back_JBool: "reads_back (JBool b)"
  by (rule reads_backI) (simp add: asc_def is_ws_def)

lemma reads_back_JInt: "reads_back (JInt i)"
  by (rule reads_backI) (simp add: read_value_int_str del: read_value.simps)

lemma reads_back_JStr: "reads_back (JStr s)"
  by (rule reads_backI) (simp add: json_str_def read_str_escaped asc_def is_ws_def)

lemma reads_back_JList:
  assumes IH: "\<forall>x\<in>set xs. reads_back x"
  shows "reads_back (JList xs)"
proof (rule reads_backI)
  fix l m d rest
  assume f: "length (json_dump l (JList xs)) < Suc m" and fd: "length (json_dump l (JList xs)) < d"
  then obtain d0 where d: "d = Suc d0" by (cases d) auto
  show "read_value (Suc m) d (json_dump l (JList xs) @ rest) = Read (of_json (JList xs), rest)"
  proof (cases xs)
    case Nil
    then show ?thesis by (simp add: d asc_def is_ws_def)
  next
    case (Cons x xs')
    let ?J = "py_join (44 # nl @ indent_str (Suc l)) (map (json_dump (Suc l)) xs)"
    obtain c t where ct: "json_dump (Suc l) x = c # t" "starts_value c"
      using json_dump_Cons by blast
    then obtain t' where J: "?J = c # t'"
      using Cons by (simp add: py_join_Cons_app)
    have "read_items m d0 (nl @ indent_str (Suc l) @ ?J @ nl @ indent_str l @ 93 # rest) = Read (map of_json xs, rest)"
      by (rule read_items_dump [where pre = "nl @ indent_str (Suc l)", simplified])
         (use IH Cons f fd d in simp_all)
    with J ct(2) Cons d show ?thesis
      using read_dump_open [OF J ct(2), of l "nl @ indent_str l @ 93 # rest"]
      by (simp add: asc_def is_ws_def starts_value_def reading_map_def)
  qed
qed

lemma reads_back_JDict:
  assumes IH: "\<forall>kv\<in>set kvs. reads_back (snd kv)" and keys: "distinct (map fst kvs)"
  shows "reads_back (JDict kvs)"
proof (rule reads_backI)
  fix l m d rest
  assume f: "length (json_dump l (JDict kvs)) < Suc m" and fd: "length (json_dump l (JDict kvs)) < d"
  then obtain d0 where d: "d = Suc d0" by (cases d) auto
  have D: "py_dict_of (map of_json_member kvs) = map of_json_member kvs"
    using keys by (intro py_dict_of_distinct) (simp add: comp_def)
  show "read_value (Suc m) d (json_dump l (JDict kvs) @ rest) = Read (of_json (JDict kvs), rest)"
  proof (cases kvs)
    case Nil
    then show ?thesis by (simp add: d asc_def is_ws_def)
  next
    case (Cons kv kvs')
    let ?J = "py_join (44 # nl @ indent_str (Suc l)) (map (member_text (Suc l)) kvs)"
    obtain t where "member_text (Suc l) kv = 34 # t"
      using member_text_Cons by blast
    then obtain t' where J: "?J = 34 # t'"
      using Cons by (simp add: py_join_Cons_app)
    have sv: "starts_value 34" by (simp add: starts_value_def is_ws_def)
    have "read_members m d0 (nl @ indent_str (Suc l) @ ?J @ nl @ indent_str l @ 125 # rest) =
        Read (map of_json_member kvs, rest)"
      by (rule read_members_dump [where pre = "nl @ indent_str (Suc l)", simplified])
         (use IH Cons f fd d in \<open>simp_all add: json_dump_dict_members\<close>)
    moreover have "json_dump l (JDict kvs) @ rest = 123 # nl @ indent_str (Suc l) @ ?J @ nl @ indent_str l @ 125 # rest"
      using Cons by (simp add: json_dump_dict_members)
    ultimately show ?thesis
      using J D d read_dump_open [OF J sv, of l "nl @ indent_str l @ 125 # rest"]
      by (simp add: asc_def is_ws_def reading_map_def)
  qed
qed

lemma reads_back_wf: "json_wf v \<Longrightarrow> reads_back v"
proof (induction v)
  case (JList xs)
  then show ?case by (intro reads_back_JList) (simp add: list_all_iff)
next
  case (JDict kvs)
  then have "\<forall>kv\<in>set kvs. reads_back (snd kv)"
    by (fastforce simp: prod_set_simps list_all_iff)
  with JDict.prems show ?case by (intro reads_back_JDict) simp_all
qed (simp_all add: reads_back_JNull reads_back_JBool reads_back_JInt reads_back_JStr)

lemma those_map_Some: "(\<forall>x\<in>set xs. f x = Some (g x)) \<Longrightarrow> those (map f xs) = Some (map g xs)"
  by (induction xs) auto

lemma to_json_of_json: "to_json (of_json v) = Some v"
proof (induction v)
  case (JList xs)
  then have "those (map (to_json \<circ> of_json) xs) = Some (map id xs)"
    by (intro those_map_Some) simp
  then show ?case by simp
next
  case (JDict kvs)
  then have "\<forall>kv\<in>set kvs. to_json (of_json (snd kv)) = Some (snd kv)"
    by (fastforce simp: prod_set_simps)
  then have "those (map (\<lambda>kv. map_option (Pair (fst kv)) (to_json (of_json (snd kv)))) kvs) = Some (map id kvs)"
    by (intro those_map_Some) auto
  then show ?case by (simp add: comp_def)
qed simp_all

lemma json_loads_dump:
  "json_wf v \<Longrightarrow> length (json_dump 0 v) < lim \<Longrightarrow> json_loads lim (json_dump 0 v) = Read (of_json v)"
proof -
  assume "json_wf v" "length (json_dump 0 v) < lim"
  moreover have "num_end []" by (simp add: num_end_def)
  ultimately have "read_value (Suc (2 * length (json_dump 0 v))) lim ([] @ json_dump 0 v @ []) = Read (of_json v, [])"
    by (intro reads_backD reads_back_wf) simp_all
  then show ?thesis by (simp add: json_loads_def skip_ws_def)
qed

section \<open>The round trip\<close>

text \<open>C30. Whatever the well-formed value (dict keys distinct, as in every Python
  dict), the text \<open>json.dump\<close> writes for it at indentation 2 is read back by
  \<open>json.loads\<close> as the same value: the dump loses nothing (strings with quotes,
  backslashes and control characters, negative numbers, nested lists and objects,
  keys in their order).\<close>

theorem json_dump_roundtrip: "json_wf v \<Longrightarrow> json_read (json_dump 0 v) = Some v"
  by (simp add: json_read_def json_loads_dump to_json_of_json)

theorem json_dump_roundtrip_witness:
  "json_wf (JDict [(asc ''a'', JList [JInt (-12), JStr [34, 92, 10, 937]]), (asc ''b'', JNull)]) \<and>
   json_read (json_dump 0 (JDict [(asc ''a'', JList [JInt (-12), JStr [34, 92, 10, 937]]), (asc ''b'', JNull)])) =
     Some (JDict [(asc ''a'', JList [JInt (-12), JStr [34, 92, 10, 937]]), (asc ''b'', JNull)])"
  using json_dump_roundtrip [of "JDict [(asc ''a'', JList [JInt (-12), JStr [34, 92, 10, 937]]), (asc ''b'', JNull)]"]
  by (simp add: asc_def)

section \<open>The values json.loads returns are well formed\<close>

lemma foldl_dict_set_keys:
  "distinct (map fst d) \<Longrightarrow> distinct (map fst (foldl (\<lambda>d kv. dict_set d (fst kv) (snd kv)) d kvs))"
  by (induction kvs arbitrary: d) (simp_all add: distinct_dict_set)

lemma foldl_dict_set_values:
  "snd ` set (foldl (\<lambda>d kv. dict_set d (fst kv) (snd kv)) d kvs) \<subseteq> snd ` set d \<union> snd ` set kvs"
proof (induction kvs arbitrary: d)
  case (Cons kv kvs)
  show ?case
    using Cons.IH [of "dict_set d (fst kv) (snd kv)"] set_dict_set_values [of d "fst kv" "snd kv"]
    by auto
qed simp

lemma py_dict_of_wf:
  "list_all (\<lambda>kv. pjson_wf (snd kv)) kvs \<Longrightarrow> pjson_wf (PDict (py_dict_of kvs))"
  using foldl_dict_set_keys [of "[]" kvs] foldl_dict_set_values [of "[]" kvs]
  by (fastforce simp: py_dict_of_def list_all_iff)

lemma read_wf:
  "(read_value n d s = Read (v, r) \<longrightarrow> pjson_wf v) \<and>
   (read_items n d s = Read (xs, r) \<longrightarrow> list_all pjson_wf xs) \<and>
   (read_members n d s = Read (kvs, r) \<longrightarrow> list_all (\<lambda>kv. pjson_wf (snd kv)) kvs)"
proof (induction n arbitrary: d s v r xs kvs)
  case 0
  then show ?case by simp
next
  case (Suc n)
  have V: "read_value n d' s' = Read (v', r') \<Longrightarrow> pjson_wf v'" for d' s' v' r'
    using Suc.IH by blast
  have I: "read_items n d' s' = Read (xs', r') \<Longrightarrow> list_all pjson_wf xs'" for d' s' xs' r'
    using Suc.IH by blast
  have M: "read_members n d' s' = Read (kvs', r') \<Longrightarrow> list_all (\<lambda>kv. pjson_wf (snd kv)) kvs'" for d' s' kvs' r'
    using Suc.IH by blast
  show ?case
  proof (intro conjI impI)
    assume "read_value (Suc n) d s = Read (v, r)"
    then show "pjson_wf v"
      by (auto simp: Let_def reading_map_def read_number_def
               split: if_splits list.splits option.splits reading.splits nat.splits
               dest!: I M intro!: py_dict_of_wf)
  next
    assume "read_items (Suc n) d s = Read (xs, r)"
    then show "list_all pjson_wf xs"
      by (auto simp: reading_map_def split: if_splits list.splits reading.splits dest!: V I)
  next
    assume "read_members (Suc n) d s = Read (kvs, r)"
    then show "list_all (\<lambda>kv. pjson_wf (snd kv)) kvs"
      by (auto simp: reading_map_def split: if_splits list.splits option.splits reading.splits dest!: V M)
  qed
qed

lemma those_map_SomeD: "those (map f xs) = Some ys \<Longrightarrow> list_all2 (\<lambda>x y. f x = Some y) xs ys"
  by (induction xs arbitrary: ys) (auto split: option.splits)

lemma to_json_wf: "pjson_wf p \<Longrightarrow> to_json p = Some v \<Longrightarrow> json_wf v"
proof (induction p arbitrary: v)
  case (PList xs)
  then obtain ys where ys: "those (map to_json xs) = Some ys" "v = JList ys" by auto
  from those_map_SomeD [OF ys(1)] have A: "list_all2 (\<lambda>x y. to_json x = Some y) xs ys" .
  have "\<forall>y\<in>set ys. json_wf y"
  proof
    fix y assume "y \<in> set ys"
    then obtain i where i: "i < length ys" "y = ys ! i" by (auto simp: in_set_conv_nth)
    with A have "to_json (xs ! i) = Some y" "i < length xs"
      by (auto simp: list_all2_conv_all_nth)
    with PList.IH [of "xs ! i" y] PList.prems show "json_wf y"
      by (auto simp: list_all_iff)
  qed
  then show ?case by (simp add: ys(2) list_all_iff)
next
  case (PDict kvs)
  then obtain ys where ys: "those (map (\<lambda>kv. map_option (Pair (fst kv)) (to_json (snd kv))) kvs) = Some ys"
    "v = JDict ys" by auto
  from those_map_SomeD [OF ys(1)] have A:
    "list_all2 (\<lambda>kv y. map_option (Pair (fst kv)) (to_json (snd kv)) = Some y) kvs ys" .
  then have "map fst ys = map fst kvs"
    by (induction rule: list_all2_induct) auto
  moreover have "\<forall>y\<in>set ys. json_wf (snd y)"
  proof
    fix y assume "y \<in> set ys"
    then obtain i where i: "i < length ys" "y = ys ! i" by (auto simp: in_set_conv_nth)
    obtain k p where kp: "kvs ! i = (k, p)" by fastforce
    from i A kp have "map_option (Pair k) (to_json p) = Some y" "i < length kvs"
      by (auto simp: list_all2_conv_all_nth)
    moreover from this(2) kp have "(k, p) \<in> set kvs" by (metis nth_mem)
    ultimately show "json_wf (snd y)"
      using PDict.IH [of "(k, p)" p] PDict.prems by (auto simp: list_all_iff prod_set_simps)
  qed
  ultimately show ?case using PDict.prems by (simp add: ys(2) list_all_iff)
qed auto

lemma json_loads_wf: "json_loads lim s = Read p \<Longrightarrow> pjson_wf p"
proof -
  assume "json_loads lim s = Read p"
  then obtain r where "read_value (Suc (2 * length s)) lim s = Read (p, r)"
    by (auto simp: json_loads_def split: reading.splits if_splits)
  with read_wf show ?thesis by blast
qed

lemma json_read_wf: "json_read s = Some v \<Longrightarrow> json_wf v"
proof -
  assume "json_read s = Some v"
  then obtain p where "json_loads (Suc (length s)) s = Read p" "to_json p = Some v"
    by (auto simp: json_read_def split: reading.splits)
  with json_loads_wf to_json_wf show ?thesis by blast
qed

section \<open>The depth argument\<close>

text \<open>A reading that succeeds under one recursion limit succeeds, with the same result,
under any limit above the length of the text: \<open>json_read\<close> reads every text that
some limit would accept.\<close>

lemma read_value_open:
  assumes "skip_ws s = c # r" "c = 91 \<or> c = 123"
  shows "read_value (Suc n) d s =
     (case d of
        0 \<Rightarrow> TooDeep
      | Suc d' \<Rightarrow>
          if c = 91 then
            (if take 1 (skip_ws r) = [93] then Read (PList [], drop 1 (skip_ws r))
             else reading_map (\<lambda>(xs, r'). (PList xs, r')) (read_items n d' r))
          else
            (if take 1 (skip_ws r) = [125] then Read (PDict [], drop 1 (skip_ws r))
             else reading_map (\<lambda>(kvs, r'). (PDict (py_dict_of kvs), r')) (read_members n d' r)))"
proof -
  have "not_named (c # r)" using assms(2) by (auto simp: not_named_def asc_def)
  then show ?thesis
    using assms unfolding not_named_def by (auto simp: Let_def split: nat.splits)
qed

lemma read_value_other:
  assumes "skip_ws s = c # r" "c \<noteq> 91" "c \<noteq> 123"
  shows "read_value (Suc n) d s = read_value (Suc n) d' s"
  using assms by (simp only: read_value.simps Let_def list.case if_False)

lemma read_depth_enough:
  "(read_value n d s = Read x \<longrightarrow> length s < d' \<longrightarrow> read_value n d' s = Read x) \<and>
   (read_items n d s = Read xs \<longrightarrow> length s < d' \<longrightarrow> read_items n d' s = Read xs) \<and>
   (read_members n d s = Read kvs \<longrightarrow> length s < d' \<longrightarrow> read_members n d' s = Read kvs)"
proof (induction n arbitrary: d d' s x xs kvs)
  case 0
  then show ?case by simp
next
  case (Suc n)
  have V: "read_value n d1 s1 = Read x1 \<Longrightarrow> length s1 < d2 \<Longrightarrow> read_value n d2 s1 = Read x1" for d1 d2 s1 x1
    using Suc.IH by blast
  have I: "read_items n d1 s1 = Read x1 \<Longrightarrow> length s1 < d2 \<Longrightarrow> read_items n d2 s1 = Read x1" for d1 d2 s1 x1
    using Suc.IH by blast
  have M: "read_members n d1 s1 = Read x1 \<Longrightarrow> length s1 < d2 \<Longrightarrow> read_members n d2 s1 = Read x1" for d1 d2 s1 x1
    using Suc.IH by blast
  show ?case
  proof (intro conjI impI)
    assume a: "read_value (Suc n) d s = Read x" and l: "length s < d'"
    show "read_value (Suc n) d' s = Read x"
    proof (cases "skip_ws s")
      case Nil
      with a show ?thesis by (simp add: Let_def asc_def)
    next
      case (Cons c r)
      have lr: "length r < length s" using skip_ws_Cons_length [OF Cons] .
      from l lr obtain d0' where d': "d' = Suc d0'" and lr': "length r < d0'"
        by (cases d') auto
      consider "c = 91" | "c = 123" | "c \<noteq> 91" "c \<noteq> 123" by blast
      then show ?thesis
      proof cases
        case 1
        with a Cons obtain d0 where "d = Suc d0" by (cases d) (simp_all add: read_value_open del: read_value.simps)
        with a Cons 1 d' I [OF _ lr'] show ?thesis
          by (auto simp: read_value_open reading_map_def simp del: read_value.simps split: if_splits reading.splits)
      next
        case 2
        with a Cons obtain d0 where "d = Suc d0" by (cases d) (simp_all add: read_value_open del: read_value.simps)
        with a Cons 2 d' M [OF _ lr'] show ?thesis
          by (auto simp: read_value_open reading_map_def simp del: read_value.simps split: if_splits reading.splits)
      next
        case 3
        with a Cons show ?thesis by (metis read_value_other)
      qed
    qed
  next
    assume a: "read_items (Suc n) d s = Read xs" and l: "length s < d'"
    then obtain x1 r where R: "read_value n d s = Read (x1, r)"
      by (auto split: reading.splits)
    have R': "read_value n d' s = Read (x1, r)" using V [OF R l] .
    have lr: "length r < length s" using read_value_shorter [OF R] .
    obtain c r' where C: "skip_ws r = c # r'" using a R by (auto split: list.splits)
    have lr': "length r' < d'" using skip_ws_Cons_length [OF C] lr l by simp
    show "read_items (Suc n) d' s = Read xs"
      using a R R' C I [OF _ lr'] by (auto simp: reading_map_def split: if_splits reading.splits)
  next
    assume a: "read_members (Suc n) d s = Read kvs" and l: "length s < d'"
    then obtain r where C0: "skip_ws s = 34 # r"
      by (auto split: list.splits if_splits)
    with a obtain k r1 where S: "read_str r = Some (k, r1)"
      by (auto split: option.splits)
    with a C0 obtain r2 where C1: "skip_ws r1 = 58 # r2"
      by (auto split: list.splits if_splits)
    with a C0 S obtain v r3 where R: "read_value n d r2 = Read (v, r3)"
      by (auto split: reading.splits)
    have l2: "length r2 < d'"
      using skip_ws_Cons_length [OF C0] read_str_length [OF S] skip_ws_Cons_length [OF C1] l by simp
    have R': "read_value n d' r2 = Read (v, r3)" using V [OF R l2] .
    with a C0 S C1 R obtain e r4 where C2: "skip_ws r3 = e # r4"
      by (auto split: list.splits)
    have l4: "length r4 < d'"
      using skip_ws_Cons_length [OF C2] read_value_shorter [OF R] l2 by simp
    show "read_members (Suc n) d' s = Read kvs"
      using a C0 S C1 R R' C2 M [OF _ l4] by (auto simp: reading_map_def split: if_splits reading.splits)
  qed
qed

lemma json_loads_depth_enough:
  assumes "json_loads lim s = Read p"
  shows "json_loads (Suc (length s)) s = Read p"
proof -
  from assms obtain v r where R: "read_value (Suc (2 * length s)) lim s = Read (v, r)"
    unfolding json_loads_def by (auto split: reading.splits)
  have "read_value (Suc (2 * length s)) (Suc (length s)) s = Read (v, r)"
    using read_depth_enough R by blast
  with assms R show ?thesis unfolding json_loads_def by simp
qed

section \<open>Nesting beyond the recursion limit\<close>

text \<open>The text of \<open>k + 1\<close> arrays nested in one another, \<open>[[...[]...]]\<close>, and the
  value it denotes.\<close>

fun nested_list :: "nat \<Rightarrow> pjson" where
  "nested_list 0 = PList []"
| "nested_list (Suc k) = PList [nested_list k]"

definition deep_list_text :: "nat \<Rightarrow> ustr" where
  "deep_list_text k = replicate (Suc k) 91 @ replicate (Suc k) 93"

lemma read_value_bracket:
  "read_value (Suc n) d (91 # r) =
     (case d of
        0 \<Rightarrow> TooDeep
      | Suc d' \<Rightarrow>
          if take 1 (skip_ws r) = [93] then Read (PList [], drop 1 (skip_ws r))
          else reading_map (\<lambda>(xs, r'). (PList xs, r')) (read_items n d' r))"
proof -
  have "not_named (91 # r)" by (simp add: not_named_def asc_def)
  then show ?thesis
    unfolding not_named_def by (simp add: is_ws_def Let_def del: read_items.simps)
qed

lemma read_value_nested:
  "2 * k < n \<Longrightarrow>
   read_value n d (replicate (Suc k) 91 @ replicate (Suc k) 93 @ rest) =
     (if k < d then Read (nested_list k, rest) else TooDeep)"
proof (induction k arbitrary: n d rest)
  case 0
  then obtain n0 where "n = Suc n0" by (cases n) auto
  then show ?case
    by (cases d) (simp_all add: read_value_bracket is_ws_def del: read_value.simps)
next
  case (Suc k)
  then obtain n1 where n: "n = Suc (Suc n1)" and f: "2 * k < n1"
    by (cases n; cases "n - 1") auto
  let ?r = "replicate (Suc k) 91 @ replicate (Suc k) 93 @ 93 # rest"
  have t: "replicate (Suc (Suc k)) 91 @ replicate (Suc (Suc k)) 93 @ rest = 91 # ?r"
    by (simp add: replicate_app_Cons_same)
  have h: "take 1 (skip_ws ?r) = [91]" by (simp add: is_ws_def)
  show ?case
  proof (cases d)
    case 0
    then show ?thesis unfolding t n by (simp only: read_value_bracket nat.case) simp
  next
    case (Suc d')
    have IH: "read_value n1 d' ?r = (if k < d' then Read (nested_list k, 93 # rest) else TooDeep)"
      using Suc.IH [OF f] by simp
    show ?thesis
      using IH by (simp add: t n Suc read_value_bracket h is_ws_def reading_map_def replicate_app_Cons_same del: read_value.simps)
  qed
qed

lemma json_loads_deep:
  "json_loads lim (deep_list_text k) = (if k < lim then Read (nested_list k) else TooDeep)"
  using read_value_nested [of k "Suc (2 * length (deep_list_text k))" lim "[]"]
  by (simp add: json_loads_def deep_list_text_def skip_ws_def del: read_value.simps)

end
