(* ===== verification/Records.thy ===== *)
theory Records
  imports Orchestrator JsonRead
begin

text \<open>
  The results directory seen abstractly, as the spec describes it: a store from file
  path to the record saved there (the request augmented with \<open>generated_prompt\<close>).
  The abstraction reads each file back with \<open>json_read\<close>; the refinement lemma shows
  that a successful \<open>submit_form\<close> implements the abstract operation "store the
  augmented request under the path of the answer" and changes nothing else of the
  store.
\<close>

type_synonym record_store = "ustr \<Rightarrow> json option"

definition stored_records :: "fs_state \<Rightarrow> record_store" where
  "stored_records fs p = (case fs_files fs p of None \<Rightarrow> None | Some text \<Rightarrow> json_read text)"

text \<open>The PersistedRecord of the spec: the request, a dict, with the generated
  prompt under \<open>generated_prompt\<close>.\<close>

definition augment_request :: "json \<Rightarrow> json \<Rightarrow> json option" where
  "augment_request request answer =
     (case request of
        JDict kvs \<Rightarrow> Some (JDict (dict_set kvs (asc ''generated_prompt'') answer))
      | _ \<Rightarrow> None)"

lemma stored_records_dump:
  "fs_files fs' = (fs_files fs)(p \<mapsto> json_dump 0 v) \<Longrightarrow> json_wf v \<Longrightarrow>
   stored_records fs' = (stored_records fs)(p \<mapsto> v)"
  by (auto simp: stored_records_def fun_eq_iff json_read_def json_loads_dump to_json_of_json)

lemma first_choice_content_wf: "first_choice_content cs = Inr c \<Longrightarrow> json_wf c"
  by (auto simp: first_choice_content_def split: list.splits option.splits)

lemma submit_form_200_store:
  assumes "submit_form env req w = (JsonResponse body 200, w')" "req_body req = Some data"
  shows "\<exists>path content kvs. data = JDict kvs \<and> body = success_body path content \<and> json_wf content \<and>
    fs_files (w_fs w') =
      (fs_files (w_fs w))(path \<mapsto> json_dump 0 (JDict (dict_set kvs (asc ''generated_prompt'') content)))"
proof -
  obtain company name url where "process_submission env data name url w = (Inr body, w')"
    using submit_form_200 [OF assms(1)] assms(2) by auto
  then obtain choices content d' safe where
    "first_choice_content choices = Inr content"
    "py_setitem data (asc ''generated_prompt'') content = Inr d'"
    "body = success_body (result_file_path safe (strftime_ts (env_now env))) content"
    "fs_files (w_fs w') =
      (fs_files (w_fs w))(result_file_path safe (strftime_ts (env_now env)) \<mapsto> json_dump 0 d')"
    using process_submission_success by blast
  then show ?thesis using py_setitem_Inr first_choice_content_wf by blast
qed

lemma success_body_fields:
  "py_get (success_body path content) (asc ''file'') JNull = Inr (JStr path)"
  "py_get (success_body path content) (asc ''generated_prompt'') JNull = Inr content"
  by (simp_all add: success_body_def py_get_JDict)

lemma submit_200_stores_augmented:
  assumes "submit_form env req w = (JsonResponse body 200, w')" "req_body req = Some data"
    "json_wf data"
  shows "\<exists>path content rec.
    py_get body (asc ''file'') JNull = Inr (JStr path) \<and>
    py_get body (asc ''generated_prompt'') JNull = Inr content \<and>
    augment_request data content = Some rec \<and>
    stored_records (w_fs w') = (stored_records (w_fs w))(path \<mapsto> rec)"
proof -
  from submit_form_200_store [OF assms(1,2)] obtain path content kvs where
    D: "data = JDict kvs" and B: "body = success_body path content" and
    F: "fs_files (w_fs w') =
      (fs_files (w_fs w))(path \<mapsto> json_dump 0 (JDict (dict_set kvs (asc ''generated_prompt'') content)))"
    by blast
  have "json_wf content" using submit_form_200_store [OF assms(1,2)] D B
    by (auto simp: success_body_def)
  with assms(3) D have "json_wf (JDict (dict_set kvs (asc ''generated_prompt'') content))"
    using json_wf_dict_set by metis
  then have "stored_records (w_fs w') =
    (stored_records (w_fs w))(path \<mapsto> JDict (dict_set kvs (asc ''generated_prompt'') content))"
    by (rule stored_records_dump [OF F])
  with D B show ?thesis
    by (auto simp: success_body_fields augment_request_def)
qed

section \<open>Refinement of the persisted-record contract\<close>

text \<open>C31. For a request whose dicts have distinct keys (as every dict
  \<open>json.loads\<close> builds), a 200 answer of \<open>submit_form\<close> refines the abstract persistence step: the
  store of records read back from the results directory is the store before, updated
  at the path the answer names with the request augmented by the answer's
  \<open>generated_prompt\<close>; every other path holds the record it held before.\<close>

theorem submit_refines_persist_record:
  assumes "submit_form env req w = (JsonResponse body 200, w')" "req_body req = Some data"
    "json_wf data"
  shows "\<exists>path content rec.
    py_get body (asc ''file'') JNull = Inr (JStr path) \<and>
    py_get body (asc ''generated_prompt'') JNull = Inr content \<and>
    augment_request data content = Some rec \<and>
    stored_records (w_fs w') = (stored_records (w_fs w))(path \<mapsto> rec)"
  using assms by (rule submit_200_stores_augmented)

theorem submit_refines_persist_record_witness:
  "\<exists>b w' path content rec.
     submit_form sample_env acme_submission empty_world = (JsonResponse b 200, w') \<and>
     json_wf acme_request \<and>
     py_get b (asc ''file'') JNull = Inr (JStr path) \<and>
     py_get b (asc ''generated_prompt'') JNull = Inr content \<and>
     augment_request acme_request content = Some rec \<and>
     stored_records (w_fs w') = (stored_records (w_fs empty_world))(path \<mapsto> rec)"
proof -
  obtain b w' where R: "submit_form sample_env acme_submission empty_world = (JsonResponse b 200, w')"
    using sample_env_run [of empty_world] by (auto simp: empty_world_def)
  have wf: "json_wf acme_request" by (simp add: acme_request_def asc_def)
  show ?thesis
    using R wf submit_refines_persist_record [OF R _ wf] by (auto simp: acme_submission_def)
qed

end
