(* ===== verification/Request.thy ===== *)
theory Request
  imports App Records
begin

text \<open>
  The request as it reaches the route: a \<open>Content-Type\<close> header and the body
  text. \<open>request.is_json\<close> (line 150) tests the mimetype Werkzeug parses from the
  header, \<open>request.get_json()\<close> (line 153) runs \<open>json.loads\<close> (JsonRead) on the body
  and turns its \<open>ValueError\<close> into \<open>BadRequest\<close>, Flask's 400 page. A body nested
  deeper than the interpreter's recursion limit \<open>rec_lim\<close> makes the scanner raise
  \<open>RecursionError\<close>, which is not a \<open>ValueError\<close>: \<open>get_json\<close> lets it through, and
  as the call stands before the route's \<open>try\<close>, Flask answers its own 500 page.
  The model of \<open>submit_form\<close> (Orchestrator) takes the outcome of the first two as
  \<open>http_request\<close>; \<open>submit_form_raw\<close> computes the answer from the raw request.
  A body whose value holds a float is outside the model (the program's values have
  no floats), and only such a body.
\<close>

record raw_request =
  raw_content_type :: "ustr option"
  raw_body :: ustr

text \<open>Werkzeug's \<open>Request.mimetype\<close>: the part of the header before the first
  \<open>;\<close>, stripped and lowercased (\<open>parse_options_header\<close>).\<close>

definition mimetype :: "unicode_db \<Rightarrow> ustr option \<Rightarrow> ustr" where
  "mimetype db ct = (case ct of None \<Rightarrow> [] | Some v \<Rightarrow> py_lower db (py_strip (takeWhile (\<lambda>c. c \<noteq> 59) v)))"

text \<open>Werkzeug's \<open>Request.is_json\<close>.\<close>

definition is_json_mimetype :: "ustr \<Rightarrow> bool" where
  "is_json_mimetype mt \<longleftrightarrow>
     mt = asc ''application/json'' \<or> (prefix (asc ''application/'') mt \<and> suffix (asc ''+json'') mt)"

datatype body_parse = BadRequest | RecursionErr | FloatPayload | Payload json

text \<open>\<open>request.get_json()\<close>: \<open>json.loads\<close> of the body under the recursion limit
  \<open>rec_lim\<close>; a decode error becomes \<open>BadRequest\<close>, a \<open>RecursionError\<close> passes through.\<close>

definition get_json :: "nat \<Rightarrow> ustr \<Rightarrow> body_parse" where
  "get_json rec_lim body =
     (case json_loads rec_lim body of
        Read p \<Rightarrow> (case to_json p of Some v \<Rightarrow> Payload v | None \<Rightarrow> FloatPayload)
      | TooDeep \<Rightarrow> RecursionErr
      | _ \<Rightarrow> BadRequest)"

text \<open>The route on the raw request (lines 150-153, then \<open>submit_form\<close>).\<close>

definition submit_form_raw ::
  "nat \<Rightarrow> app_env \<Rightarrow> raw_request \<Rightarrow> world \<Rightarrow> (http_response \<times> world) option" where
  "submit_form_raw rec_lim env rr w =
     (if \<not> is_json_mimetype (mimetype (env_ucd env) (raw_content_type rr))
      then Some (submit_form env \<lparr>req_is_json = False, req_body = None\<rparr> w)
      else (case get_json rec_lim (raw_body rr) of
              BadRequest \<Rightarrow> Some (submit_form env \<lparr>req_is_json = True, req_body = None\<rparr> w)
            | RecursionErr \<Rightarrow> Some (FlaskError 500, w)
            | Payload v \<Rightarrow> Some (submit_form env \<lparr>req_is_json = True, req_body = Some v\<rparr> w)
            | FloatPayload \<Rightarrow> None))"

text \<open>Sample requests: a body with a trailing comma under a JSON header with
  parameters, \<open>k + 1\<close> nested empty arrays, and the Acme form as \<open>json.dumps\<close> would send it.\<close>

definition trailing_comma_request :: raw_request where
  "trailing_comma_request =
     \<lparr>raw_content_type = Some (asc ''Application/JSON; charset=utf-8''),
      raw_body = asc ''{\"company\": {\"name\": \"Acme\",}}''\<rparr>"


definition acme_raw_request :: raw_request where
  "acme_raw_request = \<lparr>raw_content_type = Some (asc ''application/json''), raw_body = json_dump 0 acme_request\<rparr>"

lemma get_json_Payload: "get_json rec_lim s = Payload v \<Longrightarrow> json_read s = Some v"
proof -
  assume g: "get_json rec_lim s = Payload v"
  then obtain p where L: "json_loads rec_lim s = Read p" and T: "to_json p = Some v"
    by (auto simp: get_json_def split: reading.splits option.splits)
  from json_loads_depth_enough [OF L] T show ?thesis by (simp add: json_read_def)
qed

lemma submit_form_raw_200:
  assumes "submit_form_raw rec_lim env rr w = Some (JsonResponse body 200, w')"
  shows "\<exists>data. submit_form env \<lparr>req_is_json = True, req_body = Some data\<rparr> w = (JsonResponse body 200, w') \<and>
    json_read (raw_body rr) = Some data"
proof (cases "get_json rec_lim (raw_body rr)")
  case (Payload v)
  then have "json_read (raw_body rr) = Some v" by (rule get_json_Payload)
  with Payload assms show ?thesis
    by (auto simp: submit_form_raw_def submit_form_def split: if_splits)
qed (use assms in \<open>auto simp: submit_form_raw_def submit_form_def split: if_splits\<close>)

text \<open>C34. A request whose header says JSON but whose body \<open>json.loads\<close> rejects gets
  Flask's 400 page, not the route's \<open>{ok: false, error}\<close> answer, and nothing is
  done: no browser, no API request, no file.\<close>

theorem submit_raw_malformed_body:
  assumes "is_json_mimetype (mimetype (env_ucd env) (raw_content_type rr))"
    "json_loads rec_lim (raw_body rr) = Fail"
  shows "submit_form_raw rec_lim env rr w = Some (FlaskError 400, w)"
  using assms by (simp add: submit_form_raw_def get_json_def submit_form_def)

theorem submit_raw_malformed_body_witness:
  "is_json_mimetype (mimetype (env_ucd sample_env) (raw_content_type trailing_comma_request)) \<and>
   json_loads 1000 (raw_body trailing_comma_request) = Fail \<and>
   submit_form_raw 1000 sample_env trailing_comma_request empty_world = Some (FlaskError 400, empty_world)"
proof -
  have m: "is_json_mimetype (mimetype (env_ucd sample_env) (raw_content_type trailing_comma_request))"
    by code_simp
  have f: "json_loads 1000 (raw_body trailing_comma_request) = Fail"
    by code_simp
  show ?thesis using m f submit_raw_malformed_body [OF m f] by simp
qed



text \<open>C35. End to end from the text of the request: when \<open>submit_form\<close> answers 200,
  the body was a JSON text that \<open>json.loads\<close> reads as some value, and the store of
  records read back from the results directory (again with \<open>json.loads\<close>) is the
  store before, updated at the path the answer names with that value augmented by
  the answer's \<open>generated_prompt\<close>.\<close>

theorem submit_raw_stores_body_record:
  assumes "submit_form_raw rec_lim env rr w = Some (JsonResponse body 200, w')"
  shows "\<exists>data path content rec.
    json_read (raw_body rr) = Some data \<and>
    py_get body (asc ''file'') JNull = Inr (JStr path) \<and>
    py_get body (asc ''generated_prompt'') JNull = Inr content \<and>
    augment_request data content = Some rec \<and>
    stored_records (w_fs w') = (stored_records (w_fs w))(path \<mapsto> rec)"
proof -
  from submit_form_raw_200 [OF assms] obtain data where
    r: "submit_form env \<lparr>req_is_json = True, req_body = Some data\<rparr> w = (JsonResponse body 200, w')"
    and d: "json_read (raw_body rr) = Some data"
    by blast
  from d have "json_wf data" by (rule json_read_wf)
  with r d show ?thesis
    using submit_200_stores_augmented [of env "\<lparr>req_is_json = True, req_body = Some data\<rparr>" w body w' data]
    by auto
qed

theorem submit_raw_stores_body_record_witness:
  "\<exists>b w' data path content rec.
     submit_form_raw 1000 sample_env acme_raw_request empty_world = Some (JsonResponse b 200, w') \<and>
     json_read (raw_body acme_raw_request) = Some data \<and>
     py_get b (asc ''file'') JNull = Inr (JStr path) \<and>
     py_get b (asc ''generated_prompt'') JNull = Inr content \<and>
     augment_request data content = Some rec \<and>
     stored_records (w_fs w') = (stored_records (w_fs empty_world))(path \<mapsto> rec)"
proof -
  have wf: "json_wf acme_request" by (simp add: acme_request_def asc_def)
  have j: "is_json_mimetype (mimetype (env_ucd sample_env) (raw_content_type acme_raw_request))"
    by code_simp
  have l: "length (json_dump 0 acme_request) < 1000" by code_simp
  have "get_json 1000 (raw_body acme_raw_request) = Payload acme_request"
    using wf l by (simp add: get_json_def acme_raw_request_def json_loads_dump to_json_of_json)
  moreover obtain b w' where R: "submit_form sample_env acme_submission empty_world = (JsonResponse b 200, w')"
    using sample_env_run [of empty_world] by (auto simp: empty_world_def)
  ultimately have S: "submit_form_raw 1000 sample_env acme_raw_request empty_world = Some (JsonResponse b 200, w')"
    using j by (simp add: submit_form_raw_def acme_submission_def)
  show ?thesis using S submit_raw_stores_body_record [OF S] by blast
qed

end
