(* ===== verification/Spec2Isabelle.thy ===== *)
theory Spec2Isabelle
  imports App Records Request
begin

text \<open>
  A verification library for the chatbot-prompt generator of
  \<open>src/chatbot_creation2/app.py\<close>. The program is one Flask route,
  \<open>submit_form\<close> (lines 147-207): it checks the request, optionally scrapes the
  company's website with headless Chrome (class \<open>WebsiteScraper\<close>, lines 32-80),
  renders an instruction prompt from the form and the page text
  (\<open>generate_chatbot_prompt\<close>, lines 83-140), sends it to a chat-completion API
  (lines 174-184) and stores the form with the API's answer in a JSON file
  (lines 188-195). The parts only call each other in this order, inside the route's
  \<open>try\<close> block; the only state that outlives a request is the results directory.

  Theories, in import order, and what each models:
  \<^item> \<open>Prelude\<close>: Python strings as lists of code points (\<open>ustr\<close>), ASCII
    literals (\<open>asc\<close>), shared lemmas on lists and sublists.
  \<^item> \<open>PyStr\<close>: the \<open>str\<close> built-ins the code calls, with CPython's semantics:
    \<open>split\<close>/\<open>join\<close> (line 71), \<open>strip\<close>, \<open>replace\<close>, \<open>isalnum\<close>, \<open>lower\<close>
    (line 191), the last two over a record \<open>unicode_db\<close> of the Unicode database,
    so that a theorem holds for every database conforming on ASCII
    (\<open>ascii_conform\<close>). Lemmas: the normalisation of line 71 gives
    single-spaced text with the same words.
  \<^item> \<open>PyJson\<close>: the JSON values of the request (\<open>json\<close>), Python exceptions as
    values (\<open>exn\<close>, fallible code returns \<open>exn + 'a\<close>), \<open>dict.get\<close>, item
    assignment, truthiness, \<open>str()\<close>/\<open>repr()\<close>, iteration and \<open>', '.join\<close>
    with their error messages. Lemmas: item assignment keeps the keys of a dict
    distinct and its values well formed; each built-in fails exactly on the
    inputs CPython rejects.
  \<^item> \<open>Dom\<close>: the BeautifulSoup tree with tag identities, \<open>find_all\<close> in
    document order, \<open>decompose\<close> by identity, \<open>get_text\<close> (lines 66-70).
    Lemmas: the decompose loop equals pruning the tree, whatever the nesting, and
    leaves exactly the text outside the removed elements.
  \<^item> \<open>Scraper\<close>: \<open>setup_driver\<close>, \<open>scrape_website\<close> and the constructor,
    against a record \<open>browser_env\<close> of what each Selenium call does; the effects
    are a list of browser events, and the browser session is an inductive state
    machine (\<open>session_step\<close>). Lemmas: every run is a complete session that ends
    released; the scraper never raises and degrades to its fallback texts; on a
    page that loads its content is the cleaned, normalised text.
  \<^item> \<open>Prompt\<close>: the f-string of lines 87-138 as data, a list of lines of literal
    pieces and holes, evaluated left to right with the first exception winning.
    Lemmas: the labelled sections are always present, the inputs on which the
    compiler returns are characterised exactly, absent fields render as
    \<open>None\<close>, the number of questions asked is fixed at ten.
  \<^item> \<open>Client\<close>: the request built at lines 174-181 and the read of
    \<open>choices[0].message.content\<close> (line 184); the remote service is a function
    \<open>chat_api\<close> from request to an exception or a list of choices.
  \<^item> \<open>Persist\<close>: \<open>strftime\<close>, the name sanitiser, the path, \<open>json.dump\<close> with
    indent 2, \<open>os.makedirs\<close> and the file write over a record of the file
    system; the outcome of each OS call is a parameter \<open>io_env\<close>. \<open>open(..., 'w')\<close>
    truncates the file, and a write that fails part-way leaves the characters that
    reached the file, with no rollback. Lemmas: the
    timestamp parses back to the date, the sanitiser implements the spec's rule on
    ASCII names and keeps non-ASCII letters, the result file's
    name is 34 characters longer than the sanitised name.
  \<^item> \<open>Orchestrator\<close>: \<open>submit_form\<close> over an explicit world (disk, browser
    events, API requests), with everything read from outside in a record
    \<open>app_env\<close>. The \<open>try\<close> block is \<open>process_submission\<close>, a chain of steps in the
    combinator \<open>sbind\<close> that stops at the first exception and keeps the effects
    made so far. Lemmas: end-to-end success, the 400 and 500 answers of each
    failure and what each leaves on disk, the record stored, the request sent,
    the overwrite of two submissions in the same second.
  \<^item> \<open>JsonRead\<close>: \<open>json.loads\<close> as CPython's C scanner implements it, the
    parser \<open>request.get_json()\<close> runs (line 153) and the reader of the result
    files: mutually recursive functions over the text with a fuel argument and a
    depth argument, the recursion limit (\<open>TooDeep\<close> stands for
    \<open>RecursionError\<close>), that build the Python value (\<open>pjson\<close>, floats included) or fail, with numbers
    without leading zeros, floats, \<open>NaN\<close>/\<open>Infinity\<close>, surrogate pairs in
    \<open>\\uXXXX\<close> escapes and objects assigned into a dict (last value of a repeated
    key). Lemmas: every read consumes input, so the fuel given never runs out; a
    read that succeeds under one recursion limit succeeds under any limit above
    the length of the text; \<open>k + 1\<close> nested arrays are read exactly when the
    limit exceeds \<open>k\<close>; every well-formed value dumped at indentation 0 reads
    back as itself, so the file written at line 195 determines the record
    stored; every dict read has distinct keys.
  \<^item> \<open>Records\<close>: the abstract contract of persistence, a store of records
    indexed by path (\<open>stored_records\<close> reads the file back) and the operation
    \<open>augment_request\<close> that stores the request with its \<open>generated_prompt\<close>.
    Lemmas: every 200 answer of \<open>submit_form\<close> on a request with distinct keys
    refines that operation and changes no other record of the store.
  \<^item> \<open>App\<close>: lines 17-28 and the decorators: \<open>load_dotenv\<close> (the file's
    variables under the process environment), the OpenAI client and the
    \<open>OpenAIError\<close> of a missing key, Flask's URL map with the automatic HEAD and
    OPTIONS methods, routing with 404 and 405, \<open>home()\<close> over a template folder,
    and \<open>serve\<close>, a run of the server as the sequence of its requests over one
    world. Lemmas: the start-up raises exactly when no key is found; the URL map
    answers the two routes; a run only adds browser events, API requests and
    result files and never removes a file a 200 answer named (\<open>world_grows\<close>,
    closed under the \<open>sbind\<close> chain).
  \<^item> \<open>Request\<close>: lines 150-153 from the raw request: Werkzeug's mimetype and
    \<open>is_json\<close>, \<open>get_json()\<close> turning a decode error into \<open>BadRequest\<close> and
    letting \<open>RecursionError\<close> through, and \<open>submit_form_raw\<close>, the route on a
    header, a body text and the recursion limit, which hands the parsed request to
    \<open>submit_form\<close> of \<open>Orchestrator\<close>. Lemmas: a malformed JSON body gets Flask's
    400 page and changes nothing; a well-formed body nested one level beyond the
    recursion limit gets Flask's 500 page and changes nothing; a 200 answer stores
    exactly the body's value with \<open>generated_prompt\<close> added.

  Bounds: the year of \<open>datetime.now()\<close> is taken in 1000..9999 for the timestamp
  round trip, where \<open>%Y\<close> is four digits; the file name of a result is 34
  characters longer than the sanitised name, which for ASCII names is no longer
  than the name (\<open>Persist\<close>). No loop of the program can fail to end (the only
  loops run over finite lists and trees), so every definition of the program is
  total and structural. The one fuel is that of the JSON reader, which stands for
  the recursion of \<open>json.loads\<close> on nested arrays and objects: \<open>json_loads\<close> gives
  twice the length of the text plus one, and since every read consumes input (and
  every level of nesting at least one character while using two units of fuel),
  this is proved enough for every text, well-formed or not (\<open>json_loads_fuel_enough\<close>).
  The recursion limit is not fuel but a parameter of the program's behaviour:
  CPython's scanner raises \<open>RecursionError\<close> past it, and the route's answer then
  differs (Flask's 500 page). Its value depends on the interpreter and its
  configuration, so every theorem holds for every limit; \<open>json_read\<close>, the
  reader of the result files, takes one above the length of the text, which
  \<open>json_loads_depth_enough\<close> shows never rejects a text some limit accepts. The fixed eight-second wait of the
  scraper is recorded as an event.

  Not modelled: console prints and \<open>app.logger\<close>; the response headers of
  \<open>CORS(app)\<close> and the threading of the debug server; HTML parsing itself (the
  parser is a parameter of the browser record); floats in the route (\<open>json.loads\<close>
  reads them, but a request holding one is outside the model of \<open>submit_form\<close>,
  whose values have none: \<open>str()\<close> of a float is CPython's shortest repr); the byte
  decoding of the request body (encoding detection, BOM, invalid UTF-8);
  the exceptions BeautifulSoup raises on input it does not accept as markup
  (\<open>ParserRejectedMarkup\<close>: \<open>html_parse\<close> is total, and \<open>html.parser\<close> accepts any
  page text); the string subclasses of the tree beyond the kinds \<open>get_text\<close>
  keeps or drops; the \<open>.env\<close> syntax itself (the file is given as its list of
  assignments, so \<open>${VAR}\<close> interpolation and names without a value are not
  represented); the granularity of a failed write below characters (the files
  hold code points, not UTF-8 bytes);
  the limit of 4300 digits that CPython 3.11 and later put on converting an integer
  literal (the interpreter's version is not fixed by the repository);
  encoding errors of lone surrogates when the file is written.
\<close>

end
